theory Spec2Isabelle
  imports Complex_Main "HOL-Library.Sublist" "HOL-Library.Log_Nat"
begin

section \<open>JavaScript values used by \<open>media_manager.js\<close>\<close>

text \<open>
  An exception value: \<open>error.name\<close> and \<open>error.message\<close>.  A \<open>TypeError\<close> is what the
  engine throws on a property access on \<open>null\<close>/\<open>undefined\<close>, a \<open>ReferenceError\<close> on
  an identifier that is declared nowhere (the file is an ES module, hence strict code).
\<close>

datatype js_error = JsError (error_name: string) (error_message: string)

definition TypeError :: js_error where
  "TypeError = JsError ''TypeError'' ''''"

definition ReferenceError :: "string \<Rightarrow> js_error" where
  "ReferenceError ident = JsError ''ReferenceError'' (ident @ '' is not defined'')"

text \<open>
  How a call ends: it returns (an \<open>async\<close> method: its promise is fulfilled), it throws
  (its promise is rejected), or it waits for a platform promise that never settles.
\<close>

datatype 'a outcome = Returned 'a | Threw js_error | Pending

text \<open>A JavaScript number: an IEEE 754 binary64 value; the finite ones are rationals.\<close>

datatype jsnum = Finite rat | PInf | NInf | NaN

text \<open>
  Rounding of a rational to the nearest binary64 value, ties to even: \<open>ilog2 a\<close> is the
  binary exponent of a positive \<open>a\<close> (\<open>2 ^ e \<le> a < 2 ^ (e + 1)\<close>), the unit in the last
  place is \<open>2 ^ (e - 52)\<close> (\<open>2 ^ - 1074\<close> below the normal range), and a result from
  \<open>2 ^ 1024\<close> on (binary exponent 1024) is an infinity.  The two zeros are not told
  apart.
\<close>

definition pow2 :: "int \<Rightarrow> rat" where
  "pow2 k = (if 0 \<le> k then 2 ^ nat k else 1 / 2 ^ nat (- k))"

definition ilog2 :: "rat \<Rightarrow> int" where
  "ilog2 a =
     (if 1 \<le> a then int (floorlog 2 (nat \<lfloor>a\<rfloor>)) - 1
      else (let b = int (floorlog 2 (nat \<lfloor>1 / a\<rfloor>))
            in if a * pow2 (b - 1) = 1 then 1 - b else - b))"

definition round_half_even :: "rat \<Rightarrow> int" where
  "round_half_even x =
     (let f = \<lfloor>x\<rfloor>; r = x - of_int f
      in if r < 1 / 2 then f else if 1 / 2 < r then f + 1 else if even f then f else f + 1)"

definition fl :: "rat \<Rightarrow> jsnum" where
  "fl q =
     (if q = 0 then Finite 0
      else (let a = \<bar>q\<bar>;
                e = max (ilog2 a) (- 1022);
                u = pow2 (e - 52);
                r = of_int (round_half_even (a / u)) * u
            in if 1024 \<le> ilog2 r then (if 0 < q then PInf else NInf)
               else Finite (if 0 < q then r else - r)))"

text \<open>The operators \<open>/\<close>, \<open>*\<close> and \<open>-\<close> on numbers.\<close>

fun jdiv :: "jsnum \<Rightarrow> jsnum \<Rightarrow> jsnum" where
  "jdiv (Finite a) (Finite b) =
     (if b = 0 then (if a = 0 then NaN else if 0 < a then PInf else NInf) else fl (a / b))"
| "jdiv NaN _ = NaN"
| "jdiv _ NaN = NaN"
| "jdiv (Finite a) _ = Finite 0"
| "jdiv PInf (Finite b) = (if 0 \<le> b then PInf else NInf)"
| "jdiv NInf (Finite b) = (if 0 \<le> b then NInf else PInf)"
| "jdiv _ _ = NaN"

fun jmul :: "jsnum \<Rightarrow> jsnum \<Rightarrow> jsnum" where
  "jmul (Finite a) (Finite b) = fl (a * b)"
| "jmul NaN _ = NaN"
| "jmul _ NaN = NaN"
| "jmul (Finite a) PInf = (if a = 0 then NaN else if 0 < a then PInf else NInf)"
| "jmul (Finite a) NInf = (if a = 0 then NaN else if 0 < a then NInf else PInf)"
| "jmul PInf (Finite b) = (if b = 0 then NaN else if 0 < b then PInf else NInf)"
| "jmul NInf (Finite b) = (if b = 0 then NaN else if 0 < b then NInf else PInf)"
| "jmul PInf PInf = PInf"
| "jmul NInf NInf = PInf"
| "jmul _ _ = NInf"

fun jsub :: "jsnum \<Rightarrow> jsnum \<Rightarrow> jsnum" where
  "jsub (Finite a) (Finite b) = fl (a - b)"
| "jsub NaN _ = NaN"
| "jsub _ NaN = NaN"
| "jsub (Finite a) PInf = NInf"
| "jsub (Finite a) NInf = PInf"
| "jsub PInf PInf = NaN"
| "jsub NInf NInf = NaN"
| "jsub PInf _ = PInf"
| "jsub NInf _ = NInf"

text \<open>An unsigned integer attribute such as \<open>videoWidth\<close>, read as a number.\<close>

definition js_nat :: "nat \<Rightarrow> jsnum" where
  "js_nat n = Finite (of_nat n)"

text \<open>
  The rounding at work: the literal \<open>0.15\<close> is not a binary fraction, and neither is
  \<open>0.4\<close>; \<open>1280 * 0.15\<close> rounds to 192 exactly.
\<close>

lemma binary64_0_15: "fl (15 / 100) = Finite (5404319552844595 / 2 ^ 55)"
  by code_simp

lemma binary64_0_4: "fl (4 / 10) = Finite (3602879701896397 / 2 ^ 53)"
  by code_simp

lemma overlay_width: "jmul (Finite 1280) (jdiv (Finite 15) (Finite 100)) = Finite 192"
proof -
  have "jdiv (Finite 15) (Finite 100) = fl (15 / 100)"
    by simp
  then have "jmul (Finite 1280) (jdiv (Finite 15) (Finite 100))
      = fl (1280 * (5404319552844595 / 2 ^ 55))"
    by (simp only: binary64_0_15 jmul.simps)
  also have "\<dots> = Finite 192"
    by code_simp
  finally show ?thesis .
qed

lemma overlay_x: "jsub (jsub (Finite 1280) (Finite 192)) (Finite 15) = Finite 1073"
proof -
  have "fl (1280 - 192) = Finite 1088" "fl (1088 - 15) = Finite 1073"
    by code_simp+
  then show ?thesis
    by (simp only: jsub.simps)
qed

lemma overlay_height: "jmul (jdiv (Finite 480) (Finite 640)) (Finite 192) = Finite 144"
proof -
  have "fl (480 / 640) = Finite (3 / 4)" "fl (3 / 4 * 192) = Finite 144"
    by code_simp+
  moreover have "jdiv (Finite 480) (Finite 640) = fl (480 / 640)"
    by simp
  ultimately show ?thesis
    by (simp only: jmul.simps)
qed

declare jdiv.simps [simp del] jmul.simps [simp del] jsub.simps [simp del]

section \<open>Tracks, streams, constraints\<close>

datatype kind = Audio | Video

text \<open>
  A \<open>MediaStreamTrack\<close> is an object with an identity and an immutable kind; its
  mutable attributes (\<open>readyState\<close>, \<open>enabled\<close>, \<open>onended\<close>) live in the state below.
  A \<open>MediaStream\<close> is a mutable object too: the state maps its identity to its tracks.
\<close>

type_synonym track = "kind \<times> nat"
type_synonym stream = nat

text \<open>The values the code stores in \<open>track.onended\<close>.\<close>

datatype handler = OnScreenShareStopped | ConstraintsObject | UserHandler nat

datatype device_sel = Plain string | Exact string

text \<open>
  One member of a constraint object: a boolean, or an object with an optional
  \<open>deviceId\<close> and an optional \<open>facingMode\<close>.  \<open>None\<close> at the use site is \<open>undefined\<close>.
\<close>

datatype media_constraint =
  CBool bool | CObj (c_deviceId: "device_sel option") (c_facingMode: "string option")

record constraints =
  video :: "media_constraint option"
  audio :: "media_constraint option"

fun truthy :: "media_constraint option \<Rightarrow> bool" where
  "truthy None = False"
| "truthy (Some (CBool b)) = b"
| "truthy (Some (CObj d f)) = True"

text \<open>What a capture request of the platform answers.\<close>

datatype media_response = MediaError js_error | MediaStream "kind list"

datatype device = Device (device_kind: string) (device_id: string)

text \<open>What a running \<open>setInterval\<close> timer does on each tick.\<close>

datatype task =
    CompositorDraw stream stream
  | BlackFrame
  | SoundLevel

text \<open>
  A call of an \<open>async\<close> method runs in its caller's turn up to its first \<open>await\<close> of a
  request to the platform.  When the caller does not await the call, the rest of the
  method is suspended there and the caller goes on; the rest runs in a later turn,
  once the platform has settled the request.  A suspended method is kept with the
  arguments it still needs and with the answer the platform is going to give.
\<close>

datatype media_source = UserMedia | DisplayMedia

datatype job =
    Resume_updateAudioTrack stream "handler option" "js_error option"
  | Resume_updateVideoTrack stream "handler option" bool "js_error option"
  | Resume_getDevices "js_error + device list"
  | Resume_openStream "string option" media_source media_response
  | Resume_setDesktopWithCameraSource stream "string option" "handler option" media_response
  | Resume_setVideoCameraSource "string option" "handler option" bool media_response
  | Resume_setAudioInputSource "string option" stream string media_response

section \<open>Observable effects\<close>

datatype event =
    EvStop track
  | EvGetUserMedia constraints
  | EvGetDisplayMedia constraints
  | EvEnumerateDevices
  | EvReplaceTrack nat "track option"
  | EvSetInterval int nat
  | EvClearInterval int
  | EvCallback string
  | EvCallbackError string
  | EvCanvasSize nat nat
  | EvDrawImage stream jsnum jsnum jsnum jsnum
  | EvFillRect nat nat nat nat
  | EvConnectSoundMeter "stream option"
  | EvUnhandledRejection js_error
  | EvAddDeviceChangeListener
  | EvAlert string
  | EvLevelCallback

section \<open>The state: the \<open>MediaManager\<close> instance and the platform around it\<close>

record mm =
  \<comment> \<open>fields the constructor assigns before it copies \<open>userParameters\<close>\<close>
  camera_location :: string
  camera_margin :: jsnum
  camera_percent :: jsnum
  mediaConstraints :: "constraints option"
  getSender :: "string option \<Rightarrow> kind \<Rightarrow> nat option"
  publishStreamId :: "string option"
  localStream :: "stream option"
  publishMode :: string
  audioMode :: string
  \<comment> \<open>fields the constructor assigns after it copied \<open>userParameters\<close>\<close>
  currentVolume :: "jsnum option"
  previousAudioTrack :: "track option"
  desktopStream :: "stream option"
  smallVideoTrack :: "track option"
  primaryAudioTrackGainNode :: "nat option"
  secondaryAudioTrackGainNode :: "nat option"
  localStreamSoundMeter :: bool
  blackFrameTimer :: "int option"
  isMuted :: bool
  cameraEnabled :: bool
  localVideo :: bool
  replacementStream :: "stream option"
  soundLevelProviderId :: int
  tempTracks :: "track list"
  initialized :: bool
  \<comment> \<open>properties the class reads and never assigns: \<open>undefined\<close> unless \<open>userParameters\<close> has them\<close>
  localVideoId :: "string option"
  devices :: "stream option"
  videoTrack :: "track option"
  audioTrack :: "track option"
  inputDeviceNotFoundLimit :: "nat option"
  callbackError_returns_false :: "string \<Rightarrow> bool"
  \<comment> \<open>the platform: objects, timers, suspended methods, answers to come, the global scope\<close>
  pending :: "job list"
  streams :: "stream \<Rightarrow> track list"
  ended :: "track \<Rightarrow> bool"
  enabled :: "track \<Rightarrow> bool"
  onended :: "track \<Rightarrow> handler option"
  gain_value :: "nat \<Rightarrow> jsnum"
  srcObject :: "stream option"
  videoSize :: "stream \<Rightarrow> nat \<times> nat"
  timers :: "(int \<times> nat \<times> task) list"
  next_id :: nat
  gum_script :: "media_response list"
  display_script :: "media_response list"
  enum_script :: "(js_error + device list) list"
  replaceTrack_error :: "nat \<Rightarrow> track option \<Rightarrow> js_error option"
  screenShareSupported :: bool
  hasWebSocket :: bool
  hasMediaDevices :: bool
  elements :: "string \<Rightarrow> bool"
  global_streamId :: "string option option"
  global_deviceStream :: "stream option"
  trace :: "event list"

definition emit :: "event \<Rightarrow> mm \<Rightarrow> mm" where
  "emit e s = s\<lparr>trace := trace s @ [e]\<rparr>"

definition suspend :: "job \<Rightarrow> mm \<Rightarrow> mm" where
  "suspend j s = s\<lparr>pending := pending s @ [j]\<rparr>"

subsection \<open>Platform objects\<close>

text \<open>\<open>xs[0]\<close>: \<open>undefined\<close> on an empty array.\<close>

definition index0 :: "'a list \<Rightarrow> 'a option" where
  "index0 xs = (case xs of [] \<Rightarrow> None | x # _ \<Rightarrow> Some x)"

definition getAudioTracks :: "mm \<Rightarrow> stream \<Rightarrow> track list" where
  "getAudioTracks s st = filter (\<lambda>t. fst t = Audio) (streams s st)"

definition getVideoTracks :: "mm \<Rightarrow> stream \<Rightarrow> track list" where
  "getVideoTracks s st = filter (\<lambda>t. fst t = Video) (streams s st)"

text \<open>\<open>MediaStream.addTrack\<close> does nothing when the track is already in the stream.\<close>

definition addTrack :: "stream \<Rightarrow> track \<Rightarrow> mm \<Rightarrow> mm" where
  "addTrack st t s =
     (if t \<in> set (streams s st) then s
      else s\<lparr>streams := (streams s)(st := streams s st @ [t])\<rparr>)"

definition removeTrack :: "stream \<Rightarrow> track \<Rightarrow> mm \<Rightarrow> mm" where
  "removeTrack st t s = s\<lparr>streams := (streams s)(st := removeAll t (streams s st))\<rparr>"

definition stop :: "track \<Rightarrow> mm \<Rightarrow> mm" where
  "stop t s = emit (EvStop t) (s\<lparr>ended := (ended s)(t := True)\<rparr>)"

definition stop_all :: "track list \<Rightarrow> mm \<Rightarrow> mm" where
  "stop_all ts s = fold stop ts s"

definition stop_opt :: "track option \<Rightarrow> mm \<Rightarrow> mm" where
  "stop_opt t s = (case t of None \<Rightarrow> s | Some x \<Rightarrow> stop x s)"

text \<open>
  A new stream object with fresh live tracks of the given kinds, as a successful
  capture request (or \<open>captureStream\<close>, or a \<open>MediaStreamDestination\<close>) creates it.
\<close>

definition fresh_tracks :: "nat \<Rightarrow> kind list \<Rightarrow> track list" where
  "fresh_tracks n ks = map (\<lambda>(k, i). (k, n + i)) (zip ks [0 ..< length ks])"

definition new_stream :: "kind list \<Rightarrow> mm \<Rightarrow> stream \<times> mm" where
  "new_stream ks s =
     (let st = next_id s;
          ts = fresh_tracks (Suc st) ks
      in (st, s\<lparr>streams := (streams s)(st := ts),
                ended := (\<lambda>t. if t \<in> set ts then False else ended s t),
                enabled := (\<lambda>t. if t \<in> set ts then True else enabled s t),
                onended := (\<lambda>t. if t \<in> set ts then None else onended s t),
                next_id := Suc st + length ks\<rparr>))"

text \<open>\<open>setInterval\<close> hands out a fresh positive id; \<open>clearInterval\<close> removes that timer.\<close>

definition setInterval :: "task \<Rightarrow> nat \<Rightarrow> mm \<Rightarrow> int \<times> mm" where
  "setInterval f ms s =
     (let i = int (Suc (next_id s))
      in (i, emit (EvSetInterval i ms)
               (s\<lparr>timers := timers s @ [(i, ms, f)], next_id := Suc (next_id s)\<rparr>)))"

definition clearInterval :: "int \<Rightarrow> mm \<Rightarrow> mm" where
  "clearInterval i s =
     emit (EvClearInterval i) (s\<lparr>timers := filter (\<lambda>t. fst t \<noteq> i) (timers s)\<rparr>)"

text \<open>
  The callbacks \<open>this.callback\<close> and \<open>this.callbackError\<close> come from the caller.  They
  are observers here: the call is recorded, and \<open>callbackError_returns_false\<close> tells
  whether the caller's handler answered \<open>false\<close>.
\<close>

definition callback :: "string \<Rightarrow> mm \<Rightarrow> mm" where
  "callback name s = emit (EvCallback name) s"

definition callbackError :: "string \<Rightarrow> mm \<Rightarrow> mm" where
  "callbackError name s = emit (EvCallbackError name) s"

section \<open>Mute and unmute\<close>

definition set_audio_enabled :: "bool \<Rightarrow> stream \<Rightarrow> mm \<Rightarrow> mm" where
  "set_audio_enabled b ls s =
     s\<lparr>enabled := (\<lambda>t. if t \<in> set (getAudioTracks s ls) then b else enabled s t)\<rparr>"

definition muteLocalMic :: "mm \<Rightarrow> mm" where
  "muteLocalMic s =
     (let s1 = s\<lparr>isMuted := True\<rparr>
      in case localStream s1 of
           Some ls \<Rightarrow> set_audio_enabled False ls s1
         | None \<Rightarrow> callbackError ''NoActiveConnection'' s1)"

definition unmuteLocalMic :: "mm \<Rightarrow> mm" where
  "unmuteLocalMic s =
     (let s1 = s\<lparr>isMuted := False\<rparr>
      in case localStream s1 of
           Some ls \<Rightarrow> set_audio_enabled True ls s1
         | None \<Rightarrow> callbackError ''NoActiveConnection'' s1)"

section \<open>Updating the Local Stream\<close>

definition connectSoundMeterToLocalStream :: "mm \<Rightarrow> mm" where
  "connectSoundMeterToLocalStream s = emit (EvConnectSoundMeter (localStream s)) s"

text \<open>
  \<open>updateLocalAudioStream(stream, onEndedCallback)\<close>, in the three parts of its body:
  the exchange of the audio track in the Local Stream, the assignment of the preview
  and of \<open>onended\<close>, and the tail that re-applies the mute flag and reconnects the meter.
\<close>

definition updateLocalAudioStream_swap :: "stream \<Rightarrow> mm \<Rightarrow> mm" where
  "updateLocalAudioStream_swap stream s =
     (let newAudioTrack = index0 (getAudioTracks s stream);
          add = (\<lambda>ls s'. case newAudioTrack of None \<Rightarrow> s' | Some n \<Rightarrow> addTrack ls n s')
      in case localStream s of
           None \<Rightarrow> s\<lparr>localStream := Some stream\<rparr>
         | Some ls \<Rightarrow>
             (case index0 (getAudioTracks s ls) of
                None \<Rightarrow> add ls s
              | Some a \<Rightarrow>
                  (let s1 = (case newAudioTrack of
                               None \<Rightarrow> s
                             | Some n \<Rightarrow> s\<lparr>onended := (onended s)(n := onended s a)\<rparr>)
                   in if Some a \<noteq> newAudioTrack
                      then add ls (removeTrack ls a (s1\<lparr>tempTracks := tempTracks s1 @ [a]\<rparr>))
                      else add ls s1)))"

definition updateLocalAudioStream_tail :: "mm \<Rightarrow> unit outcome \<times> mm" where
  "updateLocalAudioStream_tail s =
     (let s1 = (if isMuted s then muteLocalMic s else unmuteLocalMic s)
      in (Returned (),
          if localStreamSoundMeter s1 then connectSoundMeterToLocalStream s1 else s1))"

definition updateLocalAudioStream_finish ::
  "stream \<Rightarrow> handler option \<Rightarrow> mm \<Rightarrow> unit outcome \<times> mm" where
  "updateLocalAudioStream_finish stream onEndedCallback s =
     (let s1 = (if localVideo s then s\<lparr>srcObject := localStream s\<rparr> else s)
      in case onEndedCallback of
           None \<Rightarrow> updateLocalAudioStream_tail s1
         | Some cb \<Rightarrow>
             (case index0 (getAudioTracks s1 stream) of
                None \<Rightarrow> (Threw TypeError, s1)
              | Some t \<Rightarrow> updateLocalAudioStream_tail (s1\<lparr>onended := (onended s1)(t := Some cb)\<rparr>)))"

definition updateLocalAudioStream ::
  "stream \<Rightarrow> handler option \<Rightarrow> mm \<Rightarrow> unit outcome \<times> mm" where
  "updateLocalAudioStream stream onEndedCallback s =
     updateLocalAudioStream_finish stream onEndedCallback (updateLocalAudioStream_swap stream s)"

text \<open>
  \<open>updateLocalVideoStream(stream, onEndedCallback, stopDesktop)\<close>.  \<open>addTrack(undefined)\<close>
  and a property access on \<open>undefined\<close> throw a \<open>TypeError\<close>.
\<close>

definition updateLocalVideoStream_finish ::
  "stream \<Rightarrow> handler option \<Rightarrow> mm \<Rightarrow> unit outcome \<times> mm" where
  "updateLocalVideoStream_finish stream onEndedCallback s =
     (let s1 = (if localVideo s then s\<lparr>srcObject := localStream s\<rparr> else s)
      in case onEndedCallback of
           None \<Rightarrow> (Returned (), s1)
         | Some cb \<Rightarrow>
             (case index0 (getVideoTracks s1 stream) of
                None \<Rightarrow> (Threw TypeError, s1)
              | Some t \<Rightarrow> (Returned (), s1\<lparr>onended := (onended s1)(t := Some cb)\<rparr>)))"

definition updateLocalVideoStream_swap ::
  "stream \<Rightarrow> handler option \<Rightarrow> mm \<Rightarrow> unit outcome \<times> mm" where
  "updateLocalVideoStream_swap stream onEndedCallback s =
     (let newVideoTrack = index0 (getVideoTracks s stream)
      in case localStream s of
           None \<Rightarrow> updateLocalVideoStream_finish stream onEndedCallback (s\<lparr>localStream := Some stream\<rparr>)
         | Some ls \<Rightarrow>
             (case index0 (getVideoTracks s ls) of
                Some v \<Rightarrow>
                  (let s1 = stop v (removeTrack ls v s)
                   in case newVideoTrack of
                        None \<Rightarrow> (Threw TypeError, s1)
                      | Some n \<Rightarrow> updateLocalVideoStream_finish stream onEndedCallback (addTrack ls n s1))
              | None \<Rightarrow>
                  (case newVideoTrack of
                     None \<Rightarrow> (Threw TypeError, s)
                   | Some n \<Rightarrow> updateLocalVideoStream_finish stream onEndedCallback (addTrack ls n s))))"

definition updateLocalVideoStream ::
  "stream \<Rightarrow> handler option \<Rightarrow> bool \<Rightarrow> mm \<Rightarrow> unit outcome \<times> mm" where
  "updateLocalVideoStream stream onEndedCallback stopDesktop s =
     (case (if stopDesktop then desktopStream s else None) of
        None \<Rightarrow> updateLocalVideoStream_swap stream onEndedCallback s
      | Some d \<Rightarrow>
          (case index0 (getVideoTracks s d) of
             None \<Rightarrow> (Threw TypeError, s)
           | Some t \<Rightarrow> updateLocalVideoStream_swap stream onEndedCallback (stop t s)))"

section \<open>Track replacement\<close>

text \<open>
  \<open>sender.replaceTrack(track)\<close> is a request to the transport; \<open>replaceTrack_error\<close>
  is the platform's answer (\<open>None\<close>: the promise is fulfilled).
\<close>

definition updateAudioTrack ::
  "stream \<Rightarrow> string option \<Rightarrow> handler option \<Rightarrow> mm \<Rightarrow> unit outcome \<times> mm" where
  "updateAudioTrack stream streamId onEndedCallback s =
     (case getSender s streamId Audio of
        Some audioTrackSender \<Rightarrow>
          (let t = index0 (getAudioTracks s stream);
               s1 = emit (EvReplaceTrack audioTrackSender t) s
           in case replaceTrack_error s1 audioTrackSender t of
                Some e \<Rightarrow> (Threw e, s1)
              | None \<Rightarrow> updateLocalAudioStream stream onEndedCallback s1)
      | None \<Rightarrow> updateLocalAudioStream stream onEndedCallback s)"

definition updateVideoTrack ::
  "stream \<Rightarrow> string option \<Rightarrow> handler option \<Rightarrow> bool \<Rightarrow> mm \<Rightarrow> unit outcome \<times> mm" where
  "updateVideoTrack stream streamId onEndedCallback stopDesktop s =
     (case getSender s streamId Video of
        Some videoTrackSender \<Rightarrow>
          (let t = index0 (getVideoTracks s stream);
               s1 = emit (EvReplaceTrack videoTrackSender t) s
           in case replaceTrack_error s1 videoTrackSender t of
                Some e \<Rightarrow> (Threw e, s1)
              | None \<Rightarrow> updateLocalVideoStream stream onEndedCallback stopDesktop s1)
      | None \<Rightarrow> updateLocalVideoStream stream onEndedCallback stopDesktop s)"

text \<open>
  A promise that nobody awaits: its value is dropped, and a rejection that nobody
  handles is recorded where the promise is rejected.
\<close>

definition detached :: "'a outcome \<times> mm \<Rightarrow> mm" where
  "detached r = (case fst r of Threw e \<Rightarrow> emit (EvUnhandledRejection e) (snd r) | _ \<Rightarrow> snd r)"

text \<open>
  \<open>updateLocalVideoStream(undefined, onEndedCallback, stopDesktop)\<close>: the desktop track
  is stopped before \<open>stream.getVideoTracks()\<close> throws.
\<close>

definition updateLocalVideoStream_undefined :: "bool \<Rightarrow> mm \<Rightarrow> unit outcome \<times> mm" where
  "updateLocalVideoStream_undefined stopDesktop s =
     (case (if stopDesktop then desktopStream s else None) of
        None \<Rightarrow> (Threw TypeError, s)
      | Some d \<Rightarrow>
          (case index0 (getVideoTracks s d) of
             None \<Rightarrow> (Threw TypeError, s)
           | Some t \<Rightarrow> (Threw TypeError, stop t s)))"

text \<open>
  The calls \<open>this.updateAudioTrack(...)\<close> and \<open>this.updateVideoTrack(...)\<close> that the
  caller does not await, on a stream that may be \<open>undefined\<close>.  With a sender the
  request is made in the caller's turn (its argument \<open>stream.getAudioTracks()[0]\<close>
  is evaluated first) and the local update is suspended; with no sender the method
  has no \<open>await\<close> on its way and the local update runs in the caller's turn.
\<close>

definition updateAudioTrack_unawaited ::
  "stream option \<Rightarrow> string option \<Rightarrow> handler option \<Rightarrow> mm \<Rightarrow> mm" where
  "updateAudioTrack_unawaited stream streamId onEndedCallback s =
     (case getSender s streamId Audio of
        Some audioTrackSender \<Rightarrow>
          (case stream of
             None \<Rightarrow> detached (Threw TypeError :: unit outcome, s)
           | Some st \<Rightarrow>
               (let t = index0 (getAudioTracks s st);
                    s1 = emit (EvReplaceTrack audioTrackSender t) s
                in suspend (Resume_updateAudioTrack st onEndedCallback
                              (replaceTrack_error s1 audioTrackSender t)) s1))
      | None \<Rightarrow>
          (case stream of
             None \<Rightarrow> detached (Threw TypeError :: unit outcome, s)
           | Some st \<Rightarrow> detached (updateLocalAudioStream st onEndedCallback s)))"

definition updateVideoTrack_unawaited ::
  "stream option \<Rightarrow> string option \<Rightarrow> handler option \<Rightarrow> bool \<Rightarrow> mm \<Rightarrow> mm" where
  "updateVideoTrack_unawaited stream streamId onEndedCallback stopDesktop s =
     (case getSender s streamId Video of
        Some videoTrackSender \<Rightarrow>
          (case stream of
             None \<Rightarrow> detached (Threw TypeError :: unit outcome, s)
           | Some st \<Rightarrow>
               (let t = index0 (getVideoTracks s st);
                    s1 = emit (EvReplaceTrack videoTrackSender t) s
                in suspend (Resume_updateVideoTrack st onEndedCallback stopDesktop
                              (replaceTrack_error s1 videoTrackSender t)) s1))
      | None \<Rightarrow>
          (case stream of
             None \<Rightarrow> detached (updateLocalVideoStream_undefined stopDesktop s)
           | Some st \<Rightarrow> detached (updateLocalVideoStream st onEndedCallback stopDesktop s)))"

text \<open>The suspended parts, run when the transport has answered the request.\<close>

definition updateAudioTrack_resumed ::
  "stream \<Rightarrow> handler option \<Rightarrow> js_error option \<Rightarrow> mm \<Rightarrow> unit outcome \<times> mm" where
  "updateAudioTrack_resumed stream onEndedCallback err s =
     (case err of
        Some e \<Rightarrow> (Threw e, s)
      | None \<Rightarrow> updateLocalAudioStream stream onEndedCallback s)"

definition updateVideoTrack_resumed ::
  "stream \<Rightarrow> handler option \<Rightarrow> bool \<Rightarrow> js_error option \<Rightarrow> mm \<Rightarrow> unit outcome \<times> mm" where
  "updateVideoTrack_resumed stream onEndedCallback stopDesktop err s =
     (case err of
        Some e \<Rightarrow> (Threw e, s)
      | None \<Rightarrow> updateLocalVideoStream stream onEndedCallback stopDesktop s)"

section \<open>The constructor\<close>

datatype param =
    P_camera_location string
  | P_camera_margin jsnum
  | P_camera_percent jsnum
  | P_mediaConstraints "constraints option"
  | P_publishStreamId "string option"
  | P_localStream "stream option"
  | P_publishMode string
  | P_audioMode string
  | P_currentVolume "jsnum option"
  | P_blackFrameTimer "int option"
  | P_cameraEnabled bool
  | P_isMuted bool
  | P_initialized bool
  | P_soundLevelProviderId int
  | P_localVideoId string
  | P_devices stream
  | P_videoTrack track
  | P_audioTrack track
  | P_inputDeviceNotFoundLimit nat

text \<open>\<open>this[key] = initialValues.userParameters[key]\<close>, for the keys the model has.\<close>

fun set_param :: "param \<Rightarrow> mm \<Rightarrow> mm" where
  "set_param (P_camera_location v) s = s\<lparr>camera_location := v\<rparr>"
| "set_param (P_camera_margin v) s = s\<lparr>camera_margin := v\<rparr>"
| "set_param (P_camera_percent v) s = s\<lparr>camera_percent := v\<rparr>"
| "set_param (P_mediaConstraints v) s = s\<lparr>mediaConstraints := v\<rparr>"
| "set_param (P_publishStreamId v) s = s\<lparr>publishStreamId := v\<rparr>"
| "set_param (P_localStream v) s = s\<lparr>localStream := v\<rparr>"
| "set_param (P_publishMode v) s = s\<lparr>publishMode := v\<rparr>"
| "set_param (P_audioMode v) s = s\<lparr>audioMode := v\<rparr>"
| "set_param (P_currentVolume v) s = s\<lparr>currentVolume := v\<rparr>"
| "set_param (P_blackFrameTimer v) s = s\<lparr>blackFrameTimer := v\<rparr>"
| "set_param (P_cameraEnabled v) s = s\<lparr>cameraEnabled := v\<rparr>"
| "set_param (P_isMuted v) s = s\<lparr>isMuted := v\<rparr>"
| "set_param (P_initialized v) s = s\<lparr>initialized := v\<rparr>"
| "set_param (P_soundLevelProviderId v) s = s\<lparr>soundLevelProviderId := v\<rparr>"
| "set_param (P_localVideoId v) s = s\<lparr>localVideoId := Some v\<rparr>"
| "set_param (P_devices v) s = s\<lparr>devices := Some v\<rparr>"
| "set_param (P_videoTrack v) s = s\<lparr>videoTrack := Some v\<rparr>"
| "set_param (P_audioTrack v) s = s\<lparr>audioTrack := Some v\<rparr>"
| "set_param (P_inputDeviceNotFoundLimit v) s = s\<lparr>inputDeviceNotFoundLimit := Some v\<rparr>"

record initialValues =
  iv_getSender :: "string option \<Rightarrow> kind \<Rightarrow> nat option"
  iv_userParameters :: "param list"

definition checkBrowserScreenShareSupported :: "mm \<Rightarrow> mm" where
  "checkBrowserScreenShareSupported s =
     (if screenShareSupported s then callback ''browser_screen_share_supported'' s else s)"

text \<open>
  \<open>new MediaManager(initialValues)\<close> in the platform state \<open>w\<close>: the instance fields
  of \<open>w\<close> are overwritten, in the order of the constructor's assignments.
\<close>

definition constructor :: "initialValues \<Rightarrow> mm \<Rightarrow> mm" where
  "constructor initialValues w =
     (let s0 = w\<lparr>camera_location := ''top'',
                 camera_margin := Finite 15,
                 camera_percent := Finite 15,
                 mediaConstraints := None,
                 getSender := iv_getSender initialValues,
                 publishStreamId := None,
                 localStream := None,
                 publishMode := ''camera'',
                 audioMode := ''system+microphone'',
                 localVideoId := None, devices := None, videoTrack := None, audioTrack := None,
                 inputDeviceNotFoundLimit := None, replacementStream := None\<rparr>;
          s1 = fold set_param (iv_userParameters initialValues) s0;
          s2 = s1\<lparr>currentVolume := None,
                  previousAudioTrack := None,
                  desktopStream := None,
                  smallVideoTrack := None,
                  primaryAudioTrackGainNode := None,
                  secondaryAudioTrackGainNode := None,
                  localStreamSoundMeter := False,
                  blackFrameTimer := None,
                  isMuted := False,
                  cameraEnabled := True,
                  localVideo := (case localVideoId s1 of None \<Rightarrow> False | Some i \<Rightarrow> elements s1 i),
                  soundLevelProviderId := - 1\<rparr>
      in (checkBrowserScreenShareSupported s2)\<lparr>tempTracks := [], initialized := False\<rparr>)"

definition gotStream :: "stream \<Rightarrow> mm \<Rightarrow> mm" where
  "gotStream stream s =
     (let s1 = s\<lparr>localStream := Some stream\<rparr>
      in if localVideo s1 then s1\<lparr>srcObject := Some stream\<rparr> else s1)"

section \<open>Sequencing\<close>

text \<open>
  \<open>await\<close> of a call whose promise the caller waits for: the rest of the caller runs
  when the awaited call has returned; otherwise its outcome is the caller's.  A chain
  of awaited calls, up to the call the user made, is one step of the model: the
  answers of the platform that the chain waits for are delivered before a suspended
  method runs on and before the user's next call.
\<close>

definition then_do ::
  "'a outcome \<times> mm \<Rightarrow> ('a \<Rightarrow> mm \<Rightarrow> 'b outcome \<times> mm) \<Rightarrow> 'b outcome \<times> mm" where
  "then_do r f =
     (case r of
        (Returned x, s) \<Rightarrow> f x s
      | (Threw e, s) \<Rightarrow> (Threw e, s)
      | (Pending, s) \<Rightarrow> (Pending, s))"

text \<open>
  A method whose first use of its stream argument is a property access throws a
  \<open>TypeError\<close> on \<open>undefined\<close>, before any effect.
\<close>

definition with_stream ::
  "stream option \<Rightarrow> (stream \<Rightarrow> mm \<Rightarrow> 'a outcome \<times> mm) \<Rightarrow> mm \<Rightarrow> 'a outcome \<times> mm" where
  "with_stream st f s = (case st of None \<Rightarrow> (Threw TypeError, s) | Some x \<Rightarrow> f x s)"

section \<open>Requests to the platform\<close>

text \<open>
  Each request takes the next answer of its script when it is made, and the platform
  delivers that answer when it settles the request; with no answer left the promise
  never settles.  Without \<open>navigator.mediaDevices\<close> the call itself throws.  A
  granted capture creates its stream object when it is delivered.
\<close>

definition request_getUserMedia :: "constraints \<Rightarrow> mm \<Rightarrow> media_response outcome \<times> mm" where
  "request_getUserMedia c s =
     (if \<not> hasMediaDevices s then (Threw TypeError, s)
      else (let s1 = emit (EvGetUserMedia c) s
            in case gum_script s1 of
                 [] \<Rightarrow> (Pending, s1)
               | r # rs \<Rightarrow> (Returned r, s1\<lparr>gum_script := rs\<rparr>)))"

definition request_getDisplayMedia :: "constraints \<Rightarrow> mm \<Rightarrow> media_response outcome \<times> mm" where
  "request_getDisplayMedia c s =
     (if \<not> hasMediaDevices s then (Threw TypeError, s)
      else (let s1 = emit (EvGetDisplayMedia c) s
            in case display_script s1 of
                 [] \<Rightarrow> (Pending, s1)
               | r # rs \<Rightarrow> (Returned r, s1\<lparr>display_script := rs\<rparr>)))"

definition request_enumerateDevices :: "mm \<Rightarrow> (js_error + device list) outcome \<times> mm" where
  "request_enumerateDevices s =
     (if \<not> hasMediaDevices s then (Threw TypeError, s)
      else (let s1 = emit EvEnumerateDevices s
            in case enum_script s1 of
                 [] \<Rightarrow> (Pending, s1)
               | r # rs \<Rightarrow> (Returned r, s1\<lparr>enum_script := rs\<rparr>)))"

definition answer :: "media_response \<Rightarrow> mm \<Rightarrow> stream outcome \<times> mm" where
  "answer r s =
     (case r of
        MediaError e \<Rightarrow> (Threw e, s)
      | MediaStream ks \<Rightarrow> (case new_stream ks s of (st, s') \<Rightarrow> (Returned st, s')))"

definition answer_devices :: "js_error + device list \<Rightarrow> mm \<Rightarrow> device list outcome \<times> mm" where
  "answer_devices r s = (case r of Inl e \<Rightarrow> (Threw e, s) | Inr ds \<Rightarrow> (Returned ds, s))"

text \<open>A request that the caller awaits: the request, then its answer.\<close>

definition navigator_getUserMedia :: "constraints \<Rightarrow> mm \<Rightarrow> stream outcome \<times> mm" where
  "navigator_getUserMedia c s = then_do (request_getUserMedia c s) answer"

definition navigator_getDisplayMedia :: "constraints \<Rightarrow> mm \<Rightarrow> stream outcome \<times> mm" where
  "navigator_getDisplayMedia c s = then_do (request_getDisplayMedia c s) answer"

definition navigator_enumerateDevices :: "mm \<Rightarrow> device list outcome \<times> mm" where
  "navigator_enumerateDevices s = then_do (request_enumerateDevices s) answer_devices"

section \<open>Acquisition\<close>

definition getMediaConstraints :: "mm \<Rightarrow> constraints" where
  "getMediaConstraints s =
     (let mc = (case mediaConstraints s of
                  None \<Rightarrow> \<lparr>video = None, audio = None\<rparr>
                | Some c \<Rightarrow> c)
      in if audioMode s = '''' then mc\<lparr>audio := Some (CBool False)\<rparr> else mc)"

text \<open>
  The call \<open>this.getDevices()\<close> that the caller does not await: the enumeration is
  requested, the rest of the method is suspended.  An error of the request is caught
  by the method.
\<close>

definition getDevices_unawaited :: "mm \<Rightarrow> mm" where
  "getDevices_unawaited s =
     (case request_enumerateDevices s of
        (Returned r, s1) \<Rightarrow> suspend (Resume_getDevices r) s1
      | (Pending, s1) \<Rightarrow> s1
      | (Threw e, s1) \<Rightarrow> s1)"

text \<open>
  \<open>getUserMedia(mediaConstraints, catch_error)\<close>: what the method does once the
  platform's promise is settled (or the call has thrown).  With \<open>catch_error\<close>, a
  \<open>NotFoundError\<close> starts \<open>getDevices()\<close> without awaiting it and the method returns
  \<open>undefined\<close>; any other error is reported and thrown again.
\<close>

definition getUserMedia_settled :: "bool \<Rightarrow> stream outcome \<times> mm \<Rightarrow> stream option outcome \<times> mm" where
  "getUserMedia_settled catch_error r =
     (case r of
        (Returned st, s1) \<Rightarrow> (Returned (Some st), s1)
      | (Pending, s1) \<Rightarrow> (Pending, s1)
      | (Threw error, s1) \<Rightarrow>
          (if catch_error
           then (if error_name error = ''NotFoundError''
                 then (Returned None, getDevices_unawaited s1)
                 else (Threw error, callbackError (error_name error) s1))
           else (Threw error, s1)))"

definition getUserMedia :: "constraints \<Rightarrow> bool \<Rightarrow> mm \<Rightarrow> stream option outcome \<times> mm" where
  "getUserMedia c catch_error s = getUserMedia_settled catch_error (navigator_getUserMedia c s)"

text \<open>
  The call \<open>this.openStream(mediaConstraints, streamId)\<close> that the caller does not await:
  the method runs up to the capture request of \<open>getMedia\<close> and is suspended there.  The
  request itself throws only the \<open>TypeError\<close> of a missing \<open>navigator.mediaDevices\<close>,
  which \<open>getDisplayMedia\<close> throws again and \<open>getUserMedia\<close> reports and throws
  again.
\<close>

definition openStream_unawaited :: "constraints \<Rightarrow> string option \<Rightarrow> mm \<Rightarrow> mm" where
  "openStream_unawaited c streamId s =
     (let s1 = s\<lparr>mediaConstraints := Some c\<rparr>;
          mConstraints = getMediaConstraints s1
      in if video mConstraints \<noteq> None
         then (if publishMode s1 = ''screen+camera'' \<or> publishMode s1 = ''screen''
               then (case request_getDisplayMedia mConstraints s1 of
                       (Returned r, s2) \<Rightarrow> suspend (Resume_openStream streamId DisplayMedia r) s2
                     | (Pending, s2) \<Rightarrow> s2
                     | (Threw e, s2) \<Rightarrow> detached (Threw e :: unit outcome, s2))
               else (case request_getUserMedia mConstraints s1 of
                       (Returned r, s2) \<Rightarrow> suspend (Resume_openStream streamId UserMedia r) s2
                     | (Pending, s2) \<Rightarrow> s2
                     | (Threw e, s2) \<Rightarrow> detached (getUserMedia_settled True (Threw e, s2))))
         else callbackError ''media_constraint_video_not_defined'' (s1\<lparr>localStream := None\<rparr>))"

section \<open>Initialisation\<close>

definition checkWebRTCPermissions :: "mm \<Rightarrow> mm" where
  "checkWebRTCPermissions s =
     (if \<not> hasWebSocket s then callbackError ''WebSocketNotSupported'' s
      else if \<not> hasMediaDevices s then callbackError ''UnsecureContext'' s
      else s)"

text \<open>
  \<open>getDevices()\<close> catches every error of its body.  \<open>getDevices_resumed\<close> is the body
  after the \<open>await\<close>; its call of \<open>openStream\<close> is not awaited.
\<close>

definition getDevices_resumed :: "device list \<Rightarrow> mm \<Rightarrow> mm" where
  "getDevices_resumed ds s1 =
     (let checkAudio = list_ex (\<lambda>d. device_kind d = ''audioinput'') ds;
          checkVideo = list_ex (\<lambda>d. device_kind d = ''videoinput'') ds;
          s2 = callback ''available_devices'' s1;
          none = emit (EvAlert ''No input device found, publish is not possible'') s2
      in if \<not> checkAudio \<and> localStream s2 = None
         then (case inputDeviceNotFoundLimit s2 of
                 None \<Rightarrow> none
               | Some n \<Rightarrow>
                   if n < 2
                   then (if checkVideo
                         then (openStream_unawaited
                                 \<lparr>video = Some (CBool True), audio = Some (CBool False)\<rparr> None s2)
                                \<lparr>inputDeviceNotFoundLimit := Some (n + 1)\<rparr>
                         else emit (EvAlert ''There is no video or audio input'') s2)
                   else none)
         else s2)"

definition getDevices :: "mm \<Rightarrow> unit outcome \<times> mm" where
  "getDevices s =
     (case navigator_enumerateDevices s of
        (Pending, s1) \<Rightarrow> (Pending, s1)
      | (Threw e, s1) \<Rightarrow> (Returned (), s1)
      | (Returned ds, s1) \<Rightarrow> (Returned (), getDevices_resumed ds s1))"

definition trackDeviceChange :: "mm \<Rightarrow> unit outcome \<times> mm" where
  "trackDeviceChange s =
     (if \<not> hasMediaDevices s then (Threw TypeError, s)
      else (Returned (), emit EvAddDeviceChangeListener s))"

definition initialize :: "mm \<Rightarrow> bool outcome \<times> mm" where
  "initialize s =
     (if \<not> initialized s then (Returned False, s)
      else then_do (getDevices (checkWebRTCPermissions s)) (\<lambda>_ s1.
           then_do (trackDeviceChange s1) (\<lambda>_ s2.
           (Returned True, s2\<lparr>initialized := True\<rparr>))))"

section \<open>The audio graph\<close>

definition index1 :: "'a list \<Rightarrow> 'a option" where
  "index1 xs = (case xs of x # y # _ \<Rightarrow> Some y | _ \<Rightarrow> None)"

text \<open>\<open>audioContext.createGain()\<close>: a new gain node, at the platform's default gain 1.\<close>

definition createGain :: "mm \<Rightarrow> nat \<times> mm" where
  "createGain s =
     (next_id s, s\<lparr>gain_value := (gain_value s)(next_id s := Finite 1), next_id := Suc (next_id s)\<rparr>)"

definition set_gain :: "nat \<Rightarrow> jsnum \<Rightarrow> mm \<Rightarrow> mm" where
  "set_gain g v s = s\<lparr>gain_value := (gain_value s)(g := v)\<rparr>"

text \<open>
  \<open>setGainNodeStream(stream)\<close>.  \<open>createMediaStreamSource\<close> throws an
  \<open>InvalidStateError\<close> on a stream without audio track; the destination's stream is a
  new stream with one new audio track.
\<close>

definition setGainNodeStream :: "stream option \<Rightarrow> mm \<Rightarrow> stream option outcome \<times> mm" where
  "setGainNodeStream stream s =
     (if truthy (audio (getMediaConstraints s))
      then with_stream stream (\<lambda>st s.
             let videoTracks = getVideoTracks s st;
                 audioTracks = getAudioTracks s st
             in if audioTracks = [] then (Threw (JsError ''InvalidStateError'' ''''), s)
                else (case new_stream [Audio] s of (controlledStream, s1) \<Rightarrow>
                      case createGain s1 of (g, s2) \<Rightarrow>
                        let s3 = s2\<lparr>primaryAudioTrackGainNode := Some g\<rparr>;
                            s4 = (case currentVolume s3 of
                                    None \<Rightarrow> set_gain g (Finite 1) s3
                                  | Some v \<Rightarrow> set_gain g v s3);
                            s5 = fold (addTrack controlledStream) videoTracks s4;
                            s6 = fold (addTrack controlledStream) audioTracks s5;
                            s7 = stop_opt (previousAudioTrack s6) s6
                        in (Returned (Some controlledStream),
                            s7\<lparr>previousAudioTrack :=
                                  index1 (getAudioTracks s7 controlledStream)\<rparr>))) s
      else (Returned stream, s))"

text \<open>\<open>mixAudioStreams(stream, secondStream)\<close>.\<close>

text \<open>
  The two branches \<open>mixAudioStreams\<close> may build: a new gain node, stored in the field,
  with \<open>gain.value = 1\<close>.
\<close>

definition build_primary_branch :: "mm \<Rightarrow> mm" where
  "build_primary_branch s =
     (case createGain s of (g, s') \<Rightarrow>
        set_gain g (Finite 1) (s'\<lparr>primaryAudioTrackGainNode := Some g\<rparr>))"

definition build_secondary_branch :: "mm \<Rightarrow> mm" where
  "build_secondary_branch s =
     (case createGain s of (g, s') \<Rightarrow>
        set_gain g (Finite 1) (s'\<lparr>secondaryAudioTrackGainNode := Some g\<rparr>))"

definition mixAudioStreams ::
  "stream option \<Rightarrow> stream option \<Rightarrow> mm \<Rightarrow> stream outcome \<times> mm" where
  "mixAudioStreams stream secondStream s =
     with_stream stream (\<lambda>st s.
       case new_stream [] s of (composedStream, s1) \<Rightarrow>
       let s2 = fold (addTrack composedStream) (getVideoTracks s1 st) s1
       in case new_stream [Audio] s2 of (audioDestination, s3) \<Rightarrow>
          let s4 = (if getAudioTracks s3 st \<noteq> [] then build_primary_branch s3 else s3)
          in with_stream secondStream (\<lambda>st2 s4.
               let s5 = (if getAudioTracks s4 st2 \<noteq> [] then build_secondary_branch s4 else s4)
               in (Returned composedStream,
                   fold (addTrack composedStream) (getAudioTracks s5 audioDestination) s5)) s4) s"

definition setVolumeLevel :: "jsnum \<Rightarrow> mm \<Rightarrow> mm" where
  "setVolumeLevel volumeLevel s =
     (let s1 = s\<lparr>currentVolume := Some volumeLevel\<rparr>;
          s2 = (case primaryAudioTrackGainNode s1 of
                  None \<Rightarrow> s1 | Some g \<Rightarrow> set_gain g volumeLevel s1)
      in case secondaryAudioTrackGainNode s2 of
           None \<Rightarrow> s2 | Some g \<Rightarrow> set_gain g volumeLevel s2)"

definition prepareAudioStream ::
  "stream option \<Rightarrow> media_constraint option \<Rightarrow> mm \<Rightarrow> stream option outcome \<times> mm" where
  "prepareAudioStream deviceStream audioConstraint s =
     (if audioMode s = ''microphone''
      then then_do (getUserMedia \<lparr>video = None, audio = audioConstraint\<rparr> True s)
             setGainNodeStream
      else if audioMode s = ''system'' then (Returned deviceStream, s)
      else if audioMode s = ''system+microphone''
      then then_do (getUserMedia \<lparr>video = None, audio = audioConstraint\<rparr> True s) (\<lambda>audioStream s1.
           then_do (setGainNodeStream audioStream s1) (\<lambda>audioStream s2.
           then_do (mixAudioStreams deviceStream audioStream s2) (\<lambda>mixed s3.
           (Returned (Some mixed), s3))))
      else (Returned deviceStream, s))"

text \<open>
  The part of \<open>prepareAudioStream\<close> after its \<open>await\<close> of the microphone, in the
  branch that the audio mode had selected.
\<close>

definition prepareAudioStream_resumed ::
  "string \<Rightarrow> stream option \<Rightarrow> stream option \<Rightarrow> mm \<Rightarrow> stream option outcome \<times> mm" where
  "prepareAudioStream_resumed mode deviceStream audioStream s1 =
     (if mode = ''microphone'' then setGainNodeStream audioStream s1
      else then_do (setGainNodeStream audioStream s1) (\<lambda>audioStream s2.
           then_do (mixAudioStreams deviceStream audioStream s2) (\<lambda>mixed s3.
           (Returned (Some mixed), s3))))"

section \<open>Camera off and on\<close>

text \<open>\<open>captureStream()\<close> of the dummy canvas is a new stream with a new video track.\<close>

definition initializeDummyFrame :: "mm \<Rightarrow> mm" where
  "initializeDummyFrame s =
     (case new_stream [Video] (emit (EvFillRect 0 0 320 240) s) of
        (st, s1) \<Rightarrow> s1\<lparr>replacementStream := Some st\<rparr>)"

text \<open>
  The optional argument \<open>streamId\<close>: \<open>None\<close> is \<open>undefined\<close>, \<open>Some None\<close> is \<open>null\<close>.
  Only \<open>undefined\<close> selects \<open>publishStreamId\<close>.
\<close>

definition choosenId :: "string option option \<Rightarrow> mm \<Rightarrow> string option" where
  "choosenId streamId s = (case streamId of None \<Rightarrow> publishStreamId s | Some i \<Rightarrow> i)"

text \<open>
  \<open>if (this.blackFrameTimer == null) this.blackFrameTimer = setInterval(..., 3000)\<close>
  and \<open>if (this.blackFrameTimer != null) { clearInterval(this.blackFrameTimer);
  this.blackFrameTimer = null }\<close>.
\<close>

definition arm_blackFrameTimer :: "mm \<Rightarrow> mm" where
  "arm_blackFrameTimer s =
     (if blackFrameTimer s = None
      then (case setInterval BlackFrame 3000 s of (i, s1) \<Rightarrow> s1\<lparr>blackFrameTimer := Some i\<rparr>)
      else s)"

definition cancel_blackFrameTimer :: "mm \<Rightarrow> mm" where
  "cancel_blackFrameTimer s =
     (case blackFrameTimer s of
        None \<Rightarrow> s
      | Some i \<Rightarrow> (clearInterval i s)\<lparr>blackFrameTimer := None\<rparr>)"

text \<open>
  \<open>turnOffLocalCamera(streamId)\<close>.  The call of \<open>updateVideoTrack\<close> is not awaited:
  with a video sender the blank track enters the Local Stream in a later turn, after
  the timer has been armed.
\<close>

definition turnOffLocalCamera :: "string option option \<Rightarrow> mm \<Rightarrow> mm" where
  "turnOffLocalCamera streamId s =
     (let s1 = initializeDummyFrame s
      in arm_blackFrameTimer
           (case localStream s1 of
              Some _ \<Rightarrow>
                (let s' = s1\<lparr>cameraEnabled := False\<rparr>
                 in updateVideoTrack_unawaited (replacementStream s') (choosenId streamId s')
                      None True s')
            | None \<Rightarrow> callbackError ''NoActiveConnection'' s1))"

text \<open>
  \<open>turnOnLocalCamera(streamId)\<close>: the timer is cancelled first, then the camera is
  requested from the platform (\<open>catch_error\<close> is \<open>false\<close>: a rejection is the
  method's own).  The call of \<open>updateVideoTrack\<close> is not awaited.
\<close>

definition turnOnLocalCamera :: "string option option \<Rightarrow> mm \<Rightarrow> stream outcome \<times> mm" where
  "turnOnLocalCamera streamId s =
     (let c = \<lparr>video = video (getMediaConstraints s), audio = None\<rparr>;
          s1 = cancel_blackFrameTimer s
      in case localStream s1 of
           None \<Rightarrow>
             then_do (getUserMedia c False s1) (\<lambda>stream.
               with_stream stream (\<lambda>st s2. (Returned st, gotStream st s2)))
         | Some _ \<Rightarrow>
             then_do (getUserMedia c False s1) (\<lambda>stream.
               with_stream stream (\<lambda>st s2.
                 let s3 = s2\<lparr>cameraEnabled := True\<rparr>
                 in (Returned st,
                     updateVideoTrack_unawaited (Some st) (choosenId streamId s3) None True s3))))"

section \<open>Closing the stream, the sound level timer\<close>

definition cancel_soundLevelProvider :: "mm \<Rightarrow> mm" where
  "cancel_soundLevelProvider s =
     (if soundLevelProviderId s \<noteq> - 1
      then (clearInterval (soundLevelProviderId s) s)\<lparr>soundLevelProviderId := - 1\<rparr>
      else s)"

definition closeStream_tracks :: "mm \<Rightarrow> mm" where
  "closeStream_tracks s =
     (let s1 = (case localStream s of
                  Some ls \<Rightarrow>
                    (let a = stop_all (tempTracks s) s;
                         b = stop_all (getVideoTracks a ls) a;
                         c = stop_all (getAudioTracks b ls) b
                     in c\<lparr>tempTracks := []\<rparr>)
                | None \<Rightarrow> s)
      in stop_opt (previousAudioTrack s1)
           (stop_opt (smallVideoTrack s1)
             (stop_opt (audioTrack s1) (stop_opt (videoTrack s1) s1))))"

definition closeStream :: "mm \<Rightarrow> mm" where
  "closeStream s = (cancel_soundLevelProvider (closeStream_tracks s))\<lparr>localStream := None\<rparr>"

definition enableAudioLevelForLocalStream :: "nat \<Rightarrow> mm \<Rightarrow> mm" where
  "enableAudioLevelForLocalStream period s =
     (case setInterval SoundLevel period
             (connectSoundMeterToLocalStream (s\<lparr>localStreamSoundMeter := True\<rparr>)) of
        (i, s1) \<Rightarrow> s1\<lparr>soundLevelProviderId := i\<rparr>)"

section \<open>The compositor\<close>

text \<open>
  One tick of the draw timer of \<open>setDesktopWithCameraSource\<close>.  A video element is
  identified with the stream it plays; \<open>videoSize\<close> is its current frame size.
\<close>

definition compositor_draw :: "stream \<Rightarrow> stream \<Rightarrow> mm \<Rightarrow> mm" where
  "compositor_draw screenVideo cameraVideo s =
     (let canvas_width = fst (videoSize s screenVideo);
          canvas_height = snd (videoSize s screenVideo);
          s1 = emit (EvDrawImage screenVideo (Finite 0) (Finite 0)
                       (js_nat canvas_width) (js_nat canvas_height))
                 (emit (EvCanvasSize canvas_width canvas_height) s);
          cameraWidth = jmul (js_nat (fst (videoSize s screenVideo)))
                          (jdiv (camera_percent s) (Finite 100));
          cameraHeight = jmul (jdiv (js_nat (snd (videoSize s cameraVideo)))
                                    (js_nat (fst (videoSize s cameraVideo)))) cameraWidth;
          positionX = jsub (jsub (js_nat canvas_width) cameraWidth) (camera_margin s);
          positionY = (if camera_location s = ''top'' then camera_margin s
                       else jsub (jsub (js_nat canvas_height) cameraHeight) (camera_margin s))
      in emit (EvDrawImage cameraVideo positionX positionY cameraWidth cameraHeight) s1)"

text \<open>
  \<open>setDesktopWithCameraSource(stream, streamId, onEndedCallback)\<close>:
  \<open>setDesktopWithCameraSource_resumed\<close> is the method from its \<open>await\<close> of the camera
  on.  The value of \<open>setInterval\<close> is dropped: no field holds the id of the draw timer.
\<close>

definition setDesktopWithCameraSource_resumed ::
  "stream \<Rightarrow> string option \<Rightarrow> handler option \<Rightarrow> stream option \<Rightarrow> mm \<Rightarrow> unit outcome \<times> mm" where
  "setDesktopWithCameraSource_resumed stream streamId onEndedCallback cameraStream s =
     with_stream cameraStream (\<lambda>cam s1.
       let s2 = s1\<lparr>smallVideoTrack := index0 (getVideoTracks s1 cam)\<rparr>
       in case new_stream [Video] s2 of (canvasStream, s3) \<Rightarrow>
          let s4 = (case localStream s3 of
                      None \<Rightarrow> gotStream canvasStream s3
                    | Some _ \<Rightarrow>
                        updateVideoTrack_unawaited (Some canvasStream) streamId
                          onEndedCallback False s3)
          in (Returned (), snd (setInterval (CompositorDraw stream cam) 66 s4))) s"

definition setDesktopWithCameraSource ::
  "stream \<Rightarrow> string option \<Rightarrow> handler option \<Rightarrow> mm \<Rightarrow> unit outcome \<times> mm" where
  "setDesktopWithCameraSource stream streamId onEndedCallback s =
     then_do (getUserMedia \<lparr>video = Some (CBool True), audio = Some (CBool False)\<rparr> True
                (s\<lparr>desktopStream := Some stream\<rparr>))
       (setDesktopWithCameraSource_resumed stream streamId onEndedCallback)"

text \<open>
  The same call when the caller does not await it: the camera is requested in the
  caller's turn and the method is suspended.
\<close>

definition setDesktopWithCameraSource_unawaited ::
  "stream \<Rightarrow> string option \<Rightarrow> handler option \<Rightarrow> mm \<Rightarrow> mm" where
  "setDesktopWithCameraSource_unawaited stream streamId onEndedCallback s =
     (case request_getUserMedia \<lparr>video = Some (CBool True), audio = Some (CBool False)\<rparr>
             (s\<lparr>desktopStream := Some stream\<rparr>) of
        (Returned r, s1) \<Rightarrow>
          suspend (Resume_setDesktopWithCameraSource stream streamId onEndedCallback r) s1
      | (Pending, s1) \<Rightarrow> s1
      | (Threw e, s1) \<Rightarrow>
          detached (then_do (getUserMedia_settled True (Threw e, s1))
                      (setDesktopWithCameraSource_resumed stream streamId onEndedCallback)))"

section \<open>Timer ticks\<close>

definition run_task :: "task \<Rightarrow> mm \<Rightarrow> mm" where
  "run_task t s =
     (case t of
        CompositorDraw screenVideo cameraVideo \<Rightarrow> compositor_draw screenVideo cameraVideo s
      | BlackFrame \<Rightarrow> initializeDummyFrame s
      | SoundLevel \<Rightarrow> emit EvLevelCallback s)"

text \<open>The platform fires timer \<open>i\<close> once; a cleared timer does nothing.\<close>

definition tick :: "int \<Rightarrow> mm \<Rightarrow> mm" where
  "tick i s =
     (case filter (\<lambda>t. fst t = i) (timers s) of
        [] \<Rightarrow> s
      | t # _ \<Rightarrow> run_task (snd (snd t)) s)"

section \<open>Switching devices\<close>

text \<open>
  \<open>setVideoCameraSource(streamId, mediaConstraints, onEndedCallback, stopDesktop)\<close>.
  No caller awaits this method.  \<open>setVideoCameraSource_resumed\<close> is the method from its
  \<open>await\<close> of the camera on; its call of \<open>updateAudioTrack\<close> passes \<open>mediaConstraints\<close>
  where the callback is expected.
\<close>

definition setVideoCameraSource_resumed ::
  "string option \<Rightarrow> handler option \<Rightarrow> bool \<Rightarrow> stream option \<Rightarrow> mm \<Rightarrow> stream option outcome \<times> mm" where
  "setVideoCameraSource_resumed streamId onEndedCallback stopDesktop stream s1 =
     then_do
       (if stopDesktop \<and> secondaryAudioTrackGainNode s1 \<noteq> None
        then with_stream stream (\<lambda>st s1.
               if getAudioTracks s1 st \<noteq> []
               then then_do (setGainNodeStream (Some st) (s1\<lparr>secondaryAudioTrackGainNode := None\<rparr>))
                      (\<lambda>stream' s2.
                         (Returned stream',
                          updateAudioTrack_unawaited stream' streamId (Some ConstraintsObject) s2))
               else (Returned stream, s1)) s1
        else (Returned stream, s1)) (\<lambda>stream s3.
     if cameraEnabled s3
     then (Returned stream,
           updateVideoTrack_unawaited stream streamId onEndedCallback stopDesktop s3)
     else (Returned stream, turnOffLocalCamera None s3))"

definition setVideoCameraSource_unawaited ::
  "string option \<Rightarrow> constraints \<Rightarrow> handler option \<Rightarrow> bool \<Rightarrow> mm \<Rightarrow> mm" where
  "setVideoCameraSource_unawaited streamId mConstraints onEndedCallback stopDesktop s =
     (case request_getUserMedia mConstraints s of
        (Returned r, s1) \<Rightarrow>
          suspend (Resume_setVideoCameraSource streamId onEndedCallback stopDesktop r) s1
      | (Pending, s1) \<Rightarrow> s1
      | (Threw e, s1) \<Rightarrow>
          detached (then_do (getUserMedia_settled True (Threw e, s1))
                      (setVideoCameraSource_resumed streamId onEndedCallback stopDesktop)))"

text \<open>
  The assignment \<open>this.mediaConstraints.video.deviceId = {exact: deviceId}\<close> (or the
  replacement of \<open>true\<close> by such an object) for the first video input with that id.
\<close>

definition adjust_video_constraint :: "device list \<Rightarrow> string option \<Rightarrow> mm \<Rightarrow> unit outcome \<times> mm" where
  "adjust_video_constraint ds deviceId s =
     (case deviceId of
        None \<Rightarrow> (Returned (), s)
      | Some d \<Rightarrow>
          if list_ex (\<lambda>x. device_kind x = ''videoinput'' \<and> device_id x = d) ds
          then (case mediaConstraints s of
                  None \<Rightarrow> (Threw TypeError, s)
                | Some mc \<Rightarrow>
                    (case video mc of
                       Some (CBool True) \<Rightarrow>
                         (Returned (),
                          s\<lparr>mediaConstraints := Some (mc\<lparr>video := Some (CObj (Some (Exact d)) None)\<rparr>)\<rparr>)
                     | Some (CObj _ f) \<Rightarrow>
                         (Returned (),
                          s\<lparr>mediaConstraints := Some (mc\<lparr>video := Some (CObj (Some (Exact d)) f)\<rparr>)\<rparr>)
                     | _ \<Rightarrow> (Threw TypeError, s)))
          else (Returned (), s))"

definition switchVideoCameraCapture ::
  "string option \<Rightarrow> string option \<Rightarrow> mm \<Rightarrow> string option outcome \<times> mm" where
  "switchVideoCameraCapture streamId deviceId s =
     (case localStream s of
        None \<Rightarrow> (Threw TypeError, s)
      | Some ls \<Rightarrow>
          (let s1 = (case index0 (getVideoTracks s ls) of Some v \<Rightarrow> stop v s | None \<Rightarrow> s)
           in then_do (navigator_enumerateDevices (s1\<lparr>publishMode := ''camera''\<rparr>)) (\<lambda>ds s2.
              then_do (adjust_video_constraint ds deviceId s2) (\<lambda>_ s3.
              if mediaConstraints s3 = None then (Threw TypeError, s3)
              else (Returned deviceId,
                    setVideoCameraSource_unawaited streamId
                      \<lparr>video = video (getMediaConstraints s3), audio = None\<rparr> None True s3)))))"

definition switchVideoCameraFacingMode ::
  "string option \<Rightarrow> string \<Rightarrow> mm \<Rightarrow> unit outcome \<times> mm" where
  "switchVideoCameraFacingMode streamId facingMode s =
     (case localStream s of
        None \<Rightarrow> (Threw TypeError, s)
      | Some ls \<Rightarrow>
          (let s1 = (case index0 (getVideoTracks s ls) of Some v \<Rightarrow> stop v s | None \<Rightarrow> s)
           in case mediaConstraints s1 of
                None \<Rightarrow> (Threw TypeError, s1)
              | Some mc \<Rightarrow>
                  (let s2 = s1\<lparr>mediaConstraints := Some (mc\<lparr>video := Some (CObj None (Some facingMode))\<rparr>),
                              publishMode := ''camera''\<rparr>
                   in (Returned (),
                       setVideoCameraSource_unawaited streamId
                         \<lparr>video = video (getMediaConstraints s2), audio = None\<rparr> None True s2))))"

text \<open>
  \<open>setAudioInputSource(streamId, mediaConstraints, onEndedCallback)\<close>.  The method
  reads \<open>this.devices\<close>, which the class never assigns, and the identifier
  \<open>deviceStream\<close>, which it declares nowhere: the global scope decides.  Its call of
  \<open>updateAudioTrack\<close> passes \<open>mediaConstraints\<close> where the callback is expected and
  is not awaited.
\<close>

definition setAudioInputSource_resumed ::
  "string option \<Rightarrow> stream option \<Rightarrow> mm \<Rightarrow> stream option outcome \<times> mm" where
  "setAudioInputSource_resumed streamId audioStream s1 =
     (Returned audioStream,
      updateAudioTrack_unawaited audioStream streamId (Some ConstraintsObject) s1)"

definition setAudioInputSource ::
  "string option \<Rightarrow> constraints \<Rightarrow> handler option \<Rightarrow> mm \<Rightarrow> stream option outcome \<times> mm" where
  "setAudioInputSource streamId mConstraints onEndedCallback s =
     (if \<not> truthy (audio mConstraints)
      then with_stream (devices s) (\<lambda>d s.
             case localStream s of
               Some ls \<Rightarrow>
                 then_do (updateLocalAudioStream ls onEndedCallback
                            (fold (\<lambda>t s'. removeTrack ls t (stop t s')) (getAudioTracks s d) s))
                   (\<lambda>_ s1. (Returned None, s1))
             | None \<Rightarrow>
                 (case getAudioTracks s d of
                    [] \<Rightarrow> (Threw TypeError, s)
                  | t # _ \<Rightarrow> (Threw TypeError, stop t s))) s
      else (case global_deviceStream s of
              None \<Rightarrow> (Threw (ReferenceError ''deviceStream''), s)
            | Some deviceStream \<Rightarrow>
                then_do (prepareAudioStream (Some deviceStream) (audio mConstraints) s)
                  (setAudioInputSource_resumed streamId)))"

text \<open>
  The same call when the caller does not await it.  The method reaches an \<open>await\<close> of
  the platform only through \<open>prepareAudioStream\<close>, in the two audio modes that ask
  for the microphone; there it is suspended.  On every other way it runs to its end
  in the caller's turn.
\<close>

definition setAudioInputSource_unawaited ::
  "string option \<Rightarrow> constraints \<Rightarrow> handler option \<Rightarrow> mm \<Rightarrow> mm" where
  "setAudioInputSource_unawaited streamId mConstraints onEndedCallback s =
     (case (if truthy (audio mConstraints)
               \<and> (audioMode s = ''microphone'' \<or> audioMode s = ''system+microphone'')
            then global_deviceStream s else None) of
        Some deviceStream \<Rightarrow>
          (case request_getUserMedia \<lparr>video = None, audio = audio mConstraints\<rparr> s of
             (Returned r, s1) \<Rightarrow>
               suspend (Resume_setAudioInputSource streamId deviceStream (audioMode s) r) s1
           | (Pending, s1) \<Rightarrow> s1
           | (Threw e, s1) \<Rightarrow>
               detached
                 (then_do
                    (then_do (getUserMedia_settled True (Threw e, s1))
                       (prepareAudioStream_resumed (audioMode s) (Some deviceStream)))
                    (setAudioInputSource_resumed streamId)))
      | None \<Rightarrow> detached (setAudioInputSource streamId mConstraints onEndedCallback s))"

definition switchAudioInputSource ::
  "string option \<Rightarrow> string option \<Rightarrow> mm \<Rightarrow> unit outcome \<times> mm" where
  "switchAudioInputSource streamId deviceId s =
     (case localStream s of
        None \<Rightarrow> (Threw TypeError, s)
      | Some ls \<Rightarrow>
          (let s1 = (case index0 (getAudioTracks s ls) of Some a \<Rightarrow> stop a s | None \<Rightarrow> s);
               tempMediaConstraints = (\<lambda>d. \<lparr>video = Some (CBool False),
                                            audio = Some (CObj (Some (Plain d)) None)\<rparr>)
           in case deviceId of
                None \<Rightarrow>
                  (Returned (),
                   setAudioInputSource_unawaited streamId (getMediaConstraints s1) None s1)
              | Some d \<Rightarrow>
                  (case mediaConstraints s1 of
                     None \<Rightarrow> (Threw TypeError, s1)
                   | Some mc \<Rightarrow>
                       (case audio mc of
                          Some (CBool True) \<Rightarrow>
                            (Returned (),
                             setAudioInputSource_unawaited streamId (tempMediaConstraints d) None
                               (s1\<lparr>mediaConstraints :=
                                     Some (mc\<lparr>audio := Some (CObj (Some (Plain d)) None)\<rparr>)\<rparr>))
                        | Some (CObj _ f) \<Rightarrow>
                            (Returned (),
                             setAudioInputSource_unawaited streamId (tempMediaConstraints d) None
                               (s1\<lparr>mediaConstraints :=
                                     Some (mc\<lparr>audio := Some (CObj (Some (Plain d)) f)\<rparr>)\<rparr>))
                        | _ \<Rightarrow> (Threw TypeError, s1)))))"

section \<open>Opening a stream\<close>

text \<open>
  \<open>prepareStreamTracks(mediaConstraints, audioConstraint, deviceStream, streamId)\<close>.
  \<open>deviceStream\<close> is \<open>None\<close> when the caller got no stream object.  The calls of
  \<open>updateVideoTrack\<close>, \<open>setDesktopWithCameraSource\<close> and \<open>updateAudioTrack\<close> are not
  awaited: what they suspend runs in a later turn.
\<close>

definition prepareStreamTracks ::
  "media_constraint option \<Rightarrow> stream option \<Rightarrow> string option \<Rightarrow> mm \<Rightarrow> stream option outcome \<times> mm" where
  "prepareStreamTracks audioConstraint deviceStream streamId s =
     with_stream deviceStream (\<lambda>ds s.
       let s1 = (case index0 (getAudioTracks s ds) of
                   Some a \<Rightarrow> if publishMode s = ''camera'' then removeTrack ds a (stop a s) else s
                 | None \<Rightarrow> s);
           s2 = (if publishMode s1 = ''screen''
                 then updateVideoTrack_unawaited (Some ds) streamId (Some OnScreenShareStopped)
                        True s1
                 else if publishMode s1 = ''screen+camera''
                 then setDesktopWithCameraSource_unawaited ds streamId
                        (Some OnScreenShareStopped) s1
                 else s1)
       in then_do
            (if truthy audioConstraint
             then then_do (prepareAudioStream (Some ds) audioConstraint s2) (\<lambda>audioStream s3.
                    if publishMode s3 \<noteq> ''camera''
                    then (Returned (), updateAudioTrack_unawaited audioStream streamId None s3)
                    else with_stream audioStream (\<lambda>x s4.
                           case index0 (getAudioTracks s4 x) of
                             None \<Rightarrow> (Threw TypeError, s4)
                           | Some t \<Rightarrow> (Returned (), addTrack ds t s4)) s3)
             else (Returned (), s2))
            (\<lambda>_ s5. (Returned (Some ds), gotStream ds s5))) s"

definition prepareStream :: "stream option \<Rightarrow> string option \<Rightarrow> mm \<Rightarrow> stream option outcome \<times> mm" where
  "prepareStream stream streamId s =
     prepareStreamTracks (audio (getMediaConstraints s)) stream streamId
       (stop_opt (smallVideoTrack s) s)"

text \<open>
  A refused display capture has taken one answer off the script of display-capture
  answers: this is what bounds the recursion of the next methods.
\<close>

lemma display_script_denied:
  assumes "navigator_getDisplayMedia c s = (Threw e, s1)" and "error_name e = ''NotAllowedError''"
  shows "length (display_script s1) < length (display_script s)"
  using assms
  by (auto simp: navigator_getDisplayMedia_def request_getDisplayMedia_def then_do_def
        answer_def new_stream_def emit_def TypeError_def
        Let_def split: if_splits list.splits media_response.splits prod.splits)

lemma display_script_callbackError [simp]:
  "display_script (callbackError n s) = display_script s"
  by (simp add: callbackError_def emit_def)

text \<open>
  \<open>getDisplayMedia\<close>, \<open>getMedia\<close> and \<open>openStream\<close> call each other;
  \<open>getDisplayMedia_denied\<close> is the \<open>catch\<close> block of \<open>getDisplayMedia\<close> on a
  \<open>NotAllowedError\<close>.  Its fallback reads the identifier \<open>streamId\<close>, which the
  method declares nowhere: \<open>global_streamId\<close> is \<open>None\<close> when the global scope has no
  such variable.  A result \<open>None\<close> is a value that is no stream.
\<close>

function getDisplayMedia_denied :: "js_error \<Rightarrow> mm \<Rightarrow> stream option outcome \<times> mm"
  and getDisplayMedia :: "constraints \<Rightarrow> mm \<Rightarrow> stream option outcome \<times> mm"
  and getMedia :: "constraints \<Rightarrow> mm \<Rightarrow> stream option outcome \<times> mm"
  and openStream :: "constraints \<Rightarrow> string option \<Rightarrow> mm \<Rightarrow> stream option outcome \<times> mm"
where
  "getDisplayMedia_denied error s1 =
     (let s2 = callbackError ''ScreenSharePermissionDenied'' s1
      in if \<not> callbackError_returns_false s2 ''ScreenSharePermissionDenied''
         then (case localStream s2 of
                 None \<Rightarrow>
                   openStream \<lparr>video = Some (CBool True), audio = Some (CBool True)\<rparr> None s2
               | Some _ \<Rightarrow>
                   (case global_streamId s2 of
                      None \<Rightarrow> (Threw (ReferenceError ''streamId''), s2)
                    | Some sid \<Rightarrow>
                        then_do (switchVideoCameraCapture sid None s2)
                          (\<lambda>_ s3. (Returned None, s3))))
         else (Threw error, s2))"
| "getDisplayMedia c s =
     (case navigator_getDisplayMedia c s of
        (Returned st, s1) \<Rightarrow> (Returned (Some st), s1)
      | (Pending, s1) \<Rightarrow> (Pending, s1)
      | (Threw error, s1) \<Rightarrow>
          if error_name error = ''NotAllowedError''
          then getDisplayMedia_denied error s1
          else (Threw error, s1))"
| "getMedia c s =
     (if publishMode s = ''screen+camera'' \<or> publishMode s = ''screen''
      then getDisplayMedia c s
      else getUserMedia c True s)"
| "openStream c streamId s =
     (let s1 = s\<lparr>mediaConstraints := Some c\<rparr>;
          mConstraints = getMediaConstraints s1
      in if video mConstraints \<noteq> None
         then then_do (getMedia mConstraints s1) (\<lambda>stream. prepareStream stream streamId)
         else (Returned None,
               callbackError ''media_constraint_video_not_defined'' (s1\<lparr>localStream := None\<rparr>)))"
  by pat_completeness auto

termination
  apply (relation "measures [\<lambda>x. case x of
            Inl (Inl (e, s)) \<Rightarrow> length (display_script s)
          | Inl (Inr (c, s)) \<Rightarrow> length (display_script s)
          | Inr (Inl (c, s)) \<Rightarrow> length (display_script s)
          | Inr (Inr (c, i, s)) \<Rightarrow> length (display_script s),
        \<lambda>x. case x of Inl (Inl _) \<Rightarrow> 3 | Inl (Inr _) \<Rightarrow> 0 | Inr (Inl _) \<Rightarrow> 1 | Inr (Inr _) \<Rightarrow> 2]")
      apply (auto dest: display_script_denied [OF sym])
  done

declare getDisplayMedia_denied.simps [simp del] getDisplayMedia.simps [simp del]
  getMedia.simps [simp del] openStream.simps [simp del]

text \<open>
  What \<open>getDisplayMedia\<close> does once the platform has settled its request, for a call
  that was suspended there.
\<close>

definition getDisplayMedia_settled :: "stream outcome \<times> mm \<Rightarrow> stream option outcome \<times> mm" where
  "getDisplayMedia_settled r =
     (case r of
        (Returned st, s1) \<Rightarrow> (Returned (Some st), s1)
      | (Pending, s1) \<Rightarrow> (Pending, s1)
      | (Threw error, s1) \<Rightarrow>
          if error_name error = ''NotAllowedError''
          then getDisplayMedia_denied error s1
          else (Threw error, s1))"

text \<open>\<open>switchDesktopCapture(streamId)\<close> and \<open>switchDesktopCaptureWithCamera(streamId)\<close>.\<close>

definition switchDesktopCapture :: "string option \<Rightarrow> mm \<Rightarrow> stream option outcome \<times> mm" where
  "switchDesktopCapture streamId s =
     (let s1 = s\<lparr>publishMode := ''screen''\<rparr>
      in then_do (getMedia (getMediaConstraints s1) s1)
           (\<lambda>stream. prepareStream stream streamId))"

definition switchDesktopCaptureWithCamera ::
  "string option \<Rightarrow> mm \<Rightarrow> stream option outcome \<times> mm" where
  "switchDesktopCaptureWithCamera streamId s =
     (let s1 = s\<lparr>publishMode := ''screen+camera''\<rparr>
      in then_do (getMedia (getMediaConstraints s1) s1)
           (\<lambda>stream. prepareStream stream streamId))"

section \<open>Resuming suspended methods\<close>

text \<open>
  The platform settles the request a suspended method awaits and the method runs on
  from there, in a turn of its own.  Nobody awaits its promise.
\<close>

fun resume :: "job \<Rightarrow> mm \<Rightarrow> mm" where
  "resume (Resume_updateAudioTrack stream onEndedCallback err) s =
     detached (updateAudioTrack_resumed stream onEndedCallback err s)"
| "resume (Resume_updateVideoTrack stream onEndedCallback stopDesktop err) s =
     detached (updateVideoTrack_resumed stream onEndedCallback stopDesktop err s)"
| "resume (Resume_getDevices r) s =
     (case r of Inl e \<Rightarrow> s | Inr ds \<Rightarrow> getDevices_resumed ds s)"
| "resume (Resume_openStream streamId src r) s =
     detached
       (then_do (case src of
                   UserMedia \<Rightarrow> getUserMedia_settled True (answer r s)
                 | DisplayMedia \<Rightarrow> getDisplayMedia_settled (answer r s))
          (\<lambda>stream. prepareStream stream streamId))"
| "resume (Resume_setDesktopWithCameraSource stream streamId onEndedCallback r) s =
     detached
       (then_do (getUserMedia_settled True (answer r s))
          (setDesktopWithCameraSource_resumed stream streamId onEndedCallback))"
| "resume (Resume_setVideoCameraSource streamId onEndedCallback stopDesktop r) s =
     detached
       (then_do (getUserMedia_settled True (answer r s))
          (setVideoCameraSource_resumed streamId onEndedCallback stopDesktop))"
| "resume (Resume_setAudioInputSource streamId deviceStream mode r) s =
     detached
       (then_do
          (then_do (getUserMedia_settled True (answer r s))
             (prepareAudioStream_resumed mode (Some deviceStream)))
          (setAudioInputSource_resumed streamId))"

text \<open>
  The platform settles the request of the \<open>n\<close>-th suspended method (the order in which
  pending requests are answered is the platform's): the method leaves the list and
  runs on.
\<close>

definition settle :: "nat \<Rightarrow> mm \<Rightarrow> mm" where
  "settle n s =
     (if n < length (pending s)
      then resume (pending s ! n)
             (s\<lparr>pending := take n (pending s) @ drop (Suc n) (pending s)\<rparr>)
      else s)"

section \<open>The component as a state machine\<close>

text \<open>
  The calls a user of the class makes, the ticks of the platform's timers, the
  platform answering the request of a suspended method, and the platform receiving the
  answers it will give to the next requests.
\<close>

datatype operation =
    Initialize
  | OpenStream constraints "string option"
  | CloseStream
  | MuteLocalMic
  | UnmuteLocalMic
  | TurnOffLocalCamera "string option option"
  | TurnOnLocalCamera "string option option"
  | SwitchAudioInputSource "string option" "string option"
  | SwitchVideoCameraCapture "string option" "string option"
  | SwitchVideoCameraFacingMode "string option" string
  | SwitchDesktopCapture "string option"
  | SwitchDesktopCaptureWithCamera "string option"
  | SetAudioInputSource "string option" constraints "handler option"
  | UpdateAudioTrack stream "string option" "handler option"
  | UpdateVideoTrack stream "string option" "handler option" bool
  | SetVolumeLevel jsnum
  | EnableAudioLevelForLocalStream nat
  | Tick int
  | Settle nat
  | Answers "media_response list" "media_response list" "(js_error + device list) list"

fun step :: "operation \<Rightarrow> mm \<Rightarrow> mm" where
  "step Initialize s = snd (initialize s)"
| "step (OpenStream c streamId) s = snd (openStream c streamId s)"
| "step CloseStream s = closeStream s"
| "step MuteLocalMic s = muteLocalMic s"
| "step UnmuteLocalMic s = unmuteLocalMic s"
| "step (TurnOffLocalCamera streamId) s = turnOffLocalCamera streamId s"
| "step (TurnOnLocalCamera streamId) s = snd (turnOnLocalCamera streamId s)"
| "step (SwitchAudioInputSource streamId deviceId) s = snd (switchAudioInputSource streamId deviceId s)"
| "step (SwitchVideoCameraCapture streamId deviceId) s = snd (switchVideoCameraCapture streamId deviceId s)"
| "step (SwitchVideoCameraFacingMode streamId facingMode) s =
     snd (switchVideoCameraFacingMode streamId facingMode s)"
| "step (SwitchDesktopCapture streamId) s = snd (switchDesktopCapture streamId s)"
| "step (SwitchDesktopCaptureWithCamera streamId) s =
     snd (switchDesktopCaptureWithCamera streamId s)"
| "step (SetAudioInputSource streamId c cb) s = snd (setAudioInputSource streamId c cb s)"
| "step (UpdateAudioTrack stream streamId cb) s = snd (updateAudioTrack stream streamId cb s)"
| "step (UpdateVideoTrack stream streamId cb stopDesktop) s =
     snd (updateVideoTrack stream streamId cb stopDesktop s)"
| "step (SetVolumeLevel v) s = setVolumeLevel v s"
| "step (EnableAudioLevelForLocalStream period) s = enableAudioLevelForLocalStream period s"
| "step (Tick i) s = tick i s"
| "step (Settle n) s = settle n s"
| "step (Answers g d e) s = s\<lparr>gum_script := g, display_script := d, enum_script := e\<rparr>"

definition run :: "operation list \<Rightarrow> mm \<Rightarrow> mm" where
  "run ops s = fold step ops s"

subsection \<open>Timers of the component\<close>

definition black_timers :: "mm \<Rightarrow> (int \<times> nat \<times> task) list" where
  "black_timers s = filter (\<lambda>t. snd (snd t) = BlackFrame) (timers s)"

text \<open>
  The bookkeeping of timers: ids are the ones handed out so far and are distinct, the
  blank-frame timers are exactly the one \<open>blackFrameTimer\<close> names, with period 3000
  (none when it is \<open>null\<close>), and \<open>soundLevelProviderId\<close> is \<open>-1\<close> or names a running
  sound-level timer.
\<close>

definition timers_ok :: "mm \<Rightarrow> bool" where
  "timers_ok s \<longleftrightarrow>
     list_all (\<lambda>t. fst t \<le> int (next_id s)) (timers s)
   \<and> distinct (map fst (timers s))
   \<and> black_timers s = (case blackFrameTimer s of None \<Rightarrow> [] | Some i \<Rightarrow> [(i, 3000, BlackFrame)])
   \<and> (soundLevelProviderId s = - 1
        \<or> list_ex (\<lambda>t. fst t = soundLevelProviderId s \<and> snd (snd t) = SoundLevel) (timers s))"

text \<open>No running timer is cancelled.\<close>

definition keeps_timers :: "mm \<Rightarrow> mm \<Rightarrow> bool" where
  "keeps_timers s s' \<longleftrightarrow> list_all (\<lambda>t. t \<in> set (timers s')) (timers s)"

text \<open>The \<open>clearInterval\<close> calls in a trace.\<close>

fun is_cancel :: "event \<Rightarrow> bool" where
  "is_cancel (EvClearInterval i) = True"
| "is_cancel _ = False"

definition cancels :: "mm \<Rightarrow> event list" where
  "cancels s = filter is_cancel (trace s)"

text \<open>
  What every call but \<open>turnOnLocalCamera\<close> and \<open>closeStream\<close> does: the trace only
  grows, and by no \<open>clearInterval\<close>; ids are only handed out; the flag \<open>initialized\<close>
  keeps its value; the bookkeeping of timers stays right; no running timer is cancelled.
\<close>

definition evolves :: "mm \<Rightarrow> mm \<Rightarrow> bool" where
  "evolves s s' \<longleftrightarrow>
     prefix (trace s) (trace s') \<and> cancels s' = cancels s \<and> next_id s \<le> next_id s'
   \<and> initialized s' = initialized s \<and> (timers_ok s \<longrightarrow> timers_ok s')
   \<and> keeps_timers s s'"

text \<open>A call that leaves the timers and the fields naming them alone.\<close>

definition quiet :: "mm \<Rightarrow> mm \<Rightarrow> bool" where
  "quiet s s' \<longleftrightarrow>
     timers s' = timers s \<and> blackFrameTimer s' = blackFrameTimer s
   \<and> soundLevelProviderId s' = soundLevelProviderId s"

section \<open>Example states\<close>

text \<open>
  A page with no media objects yet, whose transport has no sender and whose platform
  answers no request; the instance fields are placeholders that the constructor
  overwrites.
\<close>

definition empty_world :: mm where
  "empty_world =
     \<lparr>camera_location = '''', camera_margin = Finite 0, camera_percent = Finite 0,
      mediaConstraints = None, getSender = (\<lambda>_ _. None), publishStreamId = None,
      localStream = None, publishMode = '''', audioMode = '''',
      currentVolume = None, previousAudioTrack = None, desktopStream = None,
      smallVideoTrack = None, primaryAudioTrackGainNode = None,
      secondaryAudioTrackGainNode = None, localStreamSoundMeter = False,
      blackFrameTimer = None, isMuted = False, cameraEnabled = False, localVideo = False,
      replacementStream = None, soundLevelProviderId = 0, tempTracks = [],
      initialized = False,
      localVideoId = None, devices = None, videoTrack = None, audioTrack = None,
      inputDeviceNotFoundLimit = None, callbackError_returns_false = (\<lambda>_. False),
      pending = [],
      streams = (\<lambda>_. []), ended = (\<lambda>_. False), enabled = (\<lambda>_. True),
      onended = (\<lambda>_. None), gain_value = (\<lambda>_. Finite 1), srcObject = None,
      videoSize = (\<lambda>_. (0, 0)), timers = [], next_id = 0,
      gum_script = [], display_script = [], enum_script = [],
      replaceTrack_error = (\<lambda>_ _. None), screenShareSupported = True,
      hasWebSocket = True, hasMediaDevices = True,
      elements = (\<lambda>_. False), global_streamId = None, global_deviceStream = None,
      trace = []\<rparr>"

text \<open>A transport session \<open>''stream1''\<close> with an audio sender 7 and a video sender 8.\<close>

definition session_senders :: "string option \<Rightarrow> kind \<Rightarrow> nat option" where
  "session_senders streamId k =
     (if streamId = Some ''stream1'' then Some (case k of Audio \<Rightarrow> 7 | Video \<Rightarrow> 8) else None)"

definition fresh_manager :: mm where
  "fresh_manager =
     constructor \<lparr>iv_getSender = session_senders, iv_userParameters = []\<rparr> empty_world"

text \<open>
  The same manager once a capture with one audio and one video track has become its
  Local Stream: stream 0 with the tracks \<open>(Audio, 1)\<close> and \<open>(Video, 2)\<close>.
\<close>

definition live_manager :: mm where
  "live_manager = (case new_stream [Audio, Video] fresh_manager of (st, s) \<Rightarrow> gotStream st s)"

text \<open>The live manager after a call of \<open>muteLocalMic\<close>: its audio track is disabled.\<close>

definition muted_manager :: mm where
  "muted_manager = muteLocalMic live_manager"

text \<open>
  The live manager with a second capture (stream 3 with the tracks \<open>(Audio, 4)\<close> and
  \<open>(Video, 5)\<close>) ready to replace the first, and the same state on a transport whose
  senders refuse every replacement.
\<close>

definition switching_manager :: mm where
  "switching_manager = snd (new_stream [Audio, Video] live_manager)"

definition refusing_manager :: mm where
  "refusing_manager =
     switching_manager\<lparr>replaceTrack_error := (\<lambda>_ _. Some (JsError ''InvalidModificationError'' ''''))\<rparr>"

text \<open>
  A manager whose \<open>userParameters\<close> ask for \<open>initialized = true\<close>, and, for contrast, a
  state in which the flag has been forced to \<open>true\<close> behind the constructor's back.
\<close>

definition eager_manager :: mm where
  "eager_manager =
     constructor \<lparr>iv_getSender = session_senders, iv_userParameters = [P_initialized True]\<rparr>
       (empty_world\<lparr>enum_script := [Inr [Device ''audioinput'' ''mic'']]\<rparr>)"

definition forced_manager :: mm where
  "forced_manager = eager_manager\<lparr>initialized := True\<rparr>"

text \<open>
  The live manager with the camera turned off, on a platform that will refuse the next
  capture request (the camera is busy), and the outcome of turning the camera on there.
\<close>

definition dark_manager :: mm where
  "dark_manager =
     turnOffLocalCamera None
       (live_manager\<lparr>gum_script := [MediaError (JsError ''NotReadableError'' '''')]\<rparr>)"

definition relit_manager :: mm where
  "relit_manager = snd (turnOnLocalCamera None dark_manager)"

text \<open>
  Screen with camera.  The live manager, about to publish, holds a display capture
  (stream 3, 1280 by 720) and the platform will grant two camera requests (640 by 480).
  \<open>composing_manager\<close> is the state after \<open>setDesktopWithCameraSource\<close>: the camera
  is stream 5, the canvas capture is stream 7, the draw timer has id 10.
  \<open>camera_again_manager\<close> is the state after the switch back to camera capture,
  once the platform has granted the camera that the switch requests.
\<close>

definition sharing_manager :: mm where
  "sharing_manager =
     (snd (new_stream [Video] live_manager))
       \<lparr>publishMode := ''screen+camera'',
        mediaConstraints := Some \<lparr>video = Some (CBool True), audio = Some (CBool True)\<rparr>,
        gum_script := [MediaStream [Video], MediaStream [Video]],
        enum_script := [Inr [Device ''videoinput'' ''cam1'']],
        videoSize := (\<lambda>st. if st = 3 then (1280, 720) else (640, 480))\<rparr>"

definition composing_manager :: mm where
  "composing_manager = snd (setDesktopWithCameraSource 3 None None sharing_manager)"

definition camera_again_manager :: mm where
  "camera_again_manager =
     run [SwitchVideoCameraCapture None None, Settle 0] composing_manager"

text \<open>
  The number the literal \<open>0.4\<close> denotes, and two states in which the user has set
  that volume before any audio graph exists: one about to wrap a microphone stream,
  one about to mix two streams that both carry audio.
\<close>

definition volume_0_4 :: jsnum where
  "volume_0_4 = Finite (3602879701896397 / 2 ^ 53)"

definition quiet_voice_manager :: mm where
  "quiet_voice_manager = setVolumeLevel volume_0_4 sharing_manager"

definition quiet_mix_manager :: mm where
  "quiet_mix_manager =
     setVolumeLevel volume_0_4
       (switching_manager\<lparr>mediaConstraints :=
          Some \<lparr>video = Some (CBool True), audio = Some (CBool True)\<rparr>\<rparr>)"

text \<open>
  The live manager after \<open>turnOffLocalCamera(''stream1'')\<close>, on the transport session
  that has a video sender.
\<close>

definition dimmed_manager :: mm where
  "dimmed_manager = turnOffLocalCamera (Some (Some ''stream1'')) live_manager"

text \<open>
  The live manager publishing on the transport session \<open>''stream1''\<close>, with media
  constraints \<open>{video: true, audio: true}\<close>, on a platform with a second camera and a
  second microphone that will grant one camera capture.
\<close>

definition publishing_manager :: mm where
  "publishing_manager =
     live_manager
       \<lparr>mediaConstraints := Some \<lparr>video = Some (CBool True), audio = Some (CBool True)\<rparr>,
        gum_script := [MediaStream [Video]],
        enum_script := [Inr [Device ''videoinput'' ''cam2'', Device ''audioinput'' ''mic2'']]\<rparr>"

text \<open>
  Screen sharing that the user refuses.  The publish mode is \<open>screen\<close>, the platform
  will answer the next display capture with a \<open>NotAllowedError\<close> and would grant a
  camera capture, the caller's error callback does not return \<open>false\<close>, and the
  global scope has no variable \<open>streamId\<close>: once with no Local Stream, once with the
  Local Stream of the live manager.
\<close>

definition denied_idle_manager :: mm where
  "denied_idle_manager =
     fresh_manager
       \<lparr>publishMode := ''screen'',
        display_script := [MediaError (JsError ''NotAllowedError'' '''')],
        gum_script := [MediaStream [Audio, Video]]\<rparr>"

definition denied_live_manager :: mm where
  "denied_live_manager =
     live_manager
       \<lparr>mediaConstraints := Some \<lparr>video = Some (CBool True), audio = Some (CBool True)\<rparr>,
        display_script := [MediaError (JsError ''NotAllowedError'' '''')],
        gum_script := [MediaStream [Video]],
        enum_script := [Inr [Device ''videoinput'' ''cam1'']]\<rparr>"

text \<open>
  A manager constructed with the media constraints \<open>{video: true, audio: true}\<close> that
  has turned its camera on with no stream open: its Local Stream holds a video track
  only (stream 0 with the track \<open>(Video, 1)\<close>).  The platform would grant a microphone
  capture next.
\<close>

definition video_only_manager :: mm where
  "video_only_manager =
     run [Answers [MediaStream [Video], MediaStream [Audio]] [] [], TurnOnLocalCamera None]
       (constructor
          \<lparr>iv_getSender = session_senders,
           iv_userParameters =
             [P_mediaConstraints (Some \<lparr>video = Some (CBool True), audio = Some (CBool True)\<rparr>)]\<rparr>
          empty_world)"

section \<open>Facts about the example states\<close>

lemmas example_defs = live_manager_def fresh_manager_def constructor_def empty_world_def
  new_stream_def gotStream_def fresh_tracks_def checkBrowserScreenShareSupported_def
  callback_def emit_def session_senders_def

lemma live_manager_localStream: "localStream live_manager = Some 0"
  by (simp add: example_defs Let_def)

lemma live_manager_streams: "streams live_manager 0 = [(Audio, 1), (Video, 2)]"
  by (simp add: example_defs Let_def upt_rec)

lemma live_manager_enabled: "enabled live_manager (Audio, 1)"
  by (simp add: example_defs Let_def upt_rec)

section \<open>Mute and unmute: C10\<close>

lemma muteLocalMic_frame:
  "streams (muteLocalMic s) = streams s \<and> ended (muteLocalMic s) = ended s
   \<and> onended (muteLocalMic s) = onended s \<and> localStream (muteLocalMic s) = localStream s
   \<and> next_id (muteLocalMic s) = next_id s \<and> tempTracks (muteLocalMic s) = tempTracks s"
  by (simp add: muteLocalMic_def set_audio_enabled_def callbackError_def emit_def Let_def
           split: option.splits)

lemma unmuteLocalMic_frame:
  "streams (unmuteLocalMic s) = streams s \<and> ended (unmuteLocalMic s) = ended s
   \<and> onended (unmuteLocalMic s) = onended s \<and> localStream (unmuteLocalMic s) = localStream s
   \<and> next_id (unmuteLocalMic s) = next_id s \<and> tempTracks (unmuteLocalMic s) = tempTracks s"
  by (simp add: unmuteLocalMic_def set_audio_enabled_def callbackError_def emit_def Let_def
           split: option.splits)

lemma mute_enabled:
  "localStream s = Some ls \<Longrightarrow>
   enabled (muteLocalMic s) t = (if t \<in> set (getAudioTracks s ls) then False else enabled s t)"
  by (simp add: muteLocalMic_def set_audio_enabled_def getAudioTracks_def Let_def)

lemma unmute_enabled:
  "localStream s = Some ls \<Longrightarrow>
   enabled (unmuteLocalMic s) t = (if t \<in> set (getAudioTracks s ls) then True else enabled s t)"
  by (simp add: unmuteLocalMic_def set_audio_enabled_def getAudioTracks_def Let_def)

lemma mute_trace: "localStream s = Some ls \<Longrightarrow> trace (muteLocalMic s) = trace s"
  by (simp add: muteLocalMic_def set_audio_enabled_def Let_def)

lemma unmute_trace: "localStream s = Some ls \<Longrightarrow> trace (unmuteLocalMic s) = trace s"
  by (simp add: unmuteLocalMic_def set_audio_enabled_def Let_def)

text \<open>
  C10 (as amended).  With a Local Stream, \<open>muteLocalMic\<close> followed by \<open>unmuteLocalMic\<close>
  leaves every audio track of the Local Stream enabled and every other track as it was:
  the original enabled state is restored for the audio tracks that were enabled before.
  Neither call stops, removes, replaces or allocates a track: the Local Stream, the
  tracks of every stream, their ended flags and handlers, the tracks awaiting disposal
  and the effect trace are unchanged.
\<close>

theorem mute_then_unmute:
  assumes "localStream s = Some ls"
  shows "(\<forall>t. enabled (unmuteLocalMic (muteLocalMic s)) t =
              (if t \<in> set (getAudioTracks s ls) then True else enabled s t))
       \<and> (\<forall>t \<in> set (getAudioTracks s ls).
              enabled s t \<longrightarrow> enabled (unmuteLocalMic (muteLocalMic s)) t = enabled s t)
       \<and> (\<forall>s' \<in> {muteLocalMic s, unmuteLocalMic (muteLocalMic s)}.
              localStream s' = localStream s \<and> streams s' = streams s \<and> ended s' = ended s
            \<and> onended s' = onended s \<and> tempTracks s' = tempTracks s
            \<and> next_id s' = next_id s \<and> trace s' = trace s)"
proof -
  let ?m = "muteLocalMic s"
  have ls: "localStream ?m = Some ls"
    using assms muteLocalMic_frame by simp
  have tracks: "getAudioTracks ?m ls = getAudioTracks s ls"
    using muteLocalMic_frame by (simp add: getAudioTracks_def)
  have en: "enabled (unmuteLocalMic ?m) t =
              (if t \<in> set (getAudioTracks s ls) then True else enabled s t)" for t
    using unmute_enabled [OF ls, of t] mute_enabled [OF assms, of t] tracks by simp
  have frame: "localStream s' = localStream s \<and> streams s' = streams s \<and> ended s' = ended s
            \<and> onended s' = onended s \<and> tempTracks s' = tempTracks s
            \<and> next_id s' = next_id s \<and> trace s' = trace s"
    if "s' \<in> {?m, unmuteLocalMic ?m}" for s'
    using that muteLocalMic_frame [of s] unmuteLocalMic_frame [of ?m]
      mute_trace [OF assms] unmute_trace [OF ls] by auto
  show ?thesis using en frame by simp
qed

text \<open>
  C10 as stated fails from a state whose audio track is disabled (the muted manager):
  after \<open>muteLocalMic\<close> and \<open>unmuteLocalMic\<close> the track is enabled, not restored.
\<close>

theorem mute_then_unmute_counterexample:
  "\<not> (\<forall>t \<in> set (getAudioTracks muted_manager 0).
         enabled (unmuteLocalMic (muteLocalMic muted_manager)) t = enabled muted_manager t)"
proof -
  have ls: "localStream muted_manager = Some 0"
    using muteLocalMic_frame [of live_manager] live_manager_localStream
    by (simp add: muted_manager_def)
  have tr: "getAudioTracks muted_manager 0 = [(Audio, 1)]"
    using muteLocalMic_frame [of live_manager] live_manager_streams
    by (simp add: muted_manager_def getAudioTracks_def)
  have off: "\<not> enabled muted_manager (Audio, 1)"
    using mute_enabled [OF live_manager_localStream, of "(Audio, 1)"] live_manager_streams
    by (simp add: muted_manager_def getAudioTracks_def)
  have ls': "localStream (muteLocalMic muted_manager) = Some 0"
    using muteLocalMic_frame [of muted_manager] ls by simp
  have tr': "getAudioTracks (muteLocalMic muted_manager) 0 = [(Audio, 1)]"
    using muteLocalMic_frame [of muted_manager] tr by (simp add: getAudioTracks_def)
  have on: "enabled (unmuteLocalMic (muteLocalMic muted_manager)) (Audio, 1)"
    using unmute_enabled [OF ls', of "(Audio, 1)"] tr' by simp
  show ?thesis using tr off on by simp
qed

theorem mute_then_unmute_witness:
  "localStream live_manager = Some 0
   \<and> getAudioTracks live_manager 0 = [(Audio, 1)]
   \<and> enabled live_manager (Audio, 1)
   \<and> enabled (unmuteLocalMic (muteLocalMic live_manager)) (Audio, 1)
   \<and> streams (unmuteLocalMic (muteLocalMic live_manager)) 0 = [(Audio, 1), (Video, 2)]
   \<and> ended (unmuteLocalMic (muteLocalMic live_manager)) (Audio, 1) = ended live_manager (Audio, 1)"
  using mute_then_unmute [OF live_manager_localStream] live_manager_streams live_manager_enabled
    live_manager_localStream
  by (simp add: getAudioTracks_def)

section \<open>Effect traces only grow\<close>

lemma trace_emit [simp]: "trace (emit e s) = trace s @ [e]"
  by (simp add: emit_def)

lemma trace_addTrack [simp]: "trace (addTrack st t s) = trace s"
  by (simp add: addTrack_def)

lemma trace_removeTrack [simp]: "trace (removeTrack st t s) = trace s"
  by (simp add: removeTrack_def)

lemma trace_stop [simp]: "trace (stop t s) = trace s @ [EvStop t]"
  by (simp add: stop_def)

lemma prefix_snoc_right: "prefix xs ys \<Longrightarrow> prefix xs (ys @ zs)"
  by (metis prefix_order.trans prefixI)

lemma grows_mute: "prefix xs (trace s) \<Longrightarrow> prefix xs (trace (muteLocalMic s))"
  by (auto simp: muteLocalMic_def set_audio_enabled_def callbackError_def Let_def
           split: option.splits intro: prefix_snoc_right)

lemma grows_unmute: "prefix xs (trace s) \<Longrightarrow> prefix xs (trace (unmuteLocalMic s))"
  by (auto simp: unmuteLocalMic_def set_audio_enabled_def callbackError_def Let_def
           split: option.splits intro: prefix_snoc_right)

lemma trace_updateLocalAudioStream_swap [simp]:
  "trace (updateLocalAudioStream_swap st s) = trace s"
  by (simp add: updateLocalAudioStream_swap_def Let_def split: option.splits)

lemma grows_updateLocalAudioStream_tail:
  "prefix xs (trace s) \<Longrightarrow> prefix xs (trace (snd (updateLocalAudioStream_tail s)))"
  by (auto simp: updateLocalAudioStream_tail_def connectSoundMeterToLocalStream_def Let_def
           intro: prefix_snoc_right grows_mute grows_unmute)

lemma grows_updateLocalAudioStream_finish:
  "prefix xs (trace s) \<Longrightarrow> prefix xs (trace (snd (updateLocalAudioStream_finish st cb s)))"
  by (auto simp: updateLocalAudioStream_finish_def Let_def split: option.splits
           intro!: grows_updateLocalAudioStream_tail)

lemma grows_updateLocalAudioStream:
  "prefix xs (trace s) \<Longrightarrow> prefix xs (trace (snd (updateLocalAudioStream st cb s)))"
  by (simp add: updateLocalAudioStream_def grows_updateLocalAudioStream_finish)

lemma grows_updateLocalVideoStream_finish:
  "prefix xs (trace s) \<Longrightarrow> prefix xs (trace (snd (updateLocalVideoStream_finish st cb s)))"
  by (auto simp: updateLocalVideoStream_finish_def Let_def split: option.splits)

lemma grows_updateLocalVideoStream_swap:
  "prefix xs (trace s) \<Longrightarrow> prefix xs (trace (snd (updateLocalVideoStream_swap st cb s)))"
  by (auto simp: updateLocalVideoStream_swap_def Let_def split: option.splits
           intro!: grows_updateLocalVideoStream_finish intro: prefix_snoc_right)

lemma grows_updateLocalVideoStream:
  "prefix xs (trace s) \<Longrightarrow> prefix xs (trace (snd (updateLocalVideoStream st cb sd s)))"
  by (auto simp: updateLocalVideoStream_def split: option.splits if_splits
           intro!: grows_updateLocalVideoStream_swap intro: prefix_snoc_right)

lemma grows_updateAudioTrack:
  "prefix xs (trace s) \<Longrightarrow> prefix xs (trace (snd (updateAudioTrack st sid cb s)))"
  by (auto simp: updateAudioTrack_def Let_def split: option.splits
           intro!: grows_updateLocalAudioStream intro: prefix_snoc_right)

lemma grows_updateVideoTrack:
  "prefix xs (trace s) \<Longrightarrow> prefix xs (trace (snd (updateVideoTrack st sid cb sd s)))"
  by (auto simp: updateVideoTrack_def Let_def split: option.splits
           intro!: grows_updateLocalVideoStream intro: prefix_snoc_right)

section \<open>Track replacement: C1\<close>

text \<open>
  C1.  Track replacement is all-or-nothing per track.  When \<open>getSender\<close> yields a sender
  for the stream id and the kind, \<open>updateAudioTrack\<close> / \<open>updateVideoTrack\<close> first ask the
  sender to replace its track: if that is rejected, the error is the method's own
  outcome and the state is the one before the call but for the recorded request (the
  Local Stream is not touched); if it is fulfilled, the result is that of the local
  update run afterwards, so the request precedes every effect of the update in the
  trace.  With no sender the result is that of the local update alone.
\<close>

theorem track_replacement_all_or_nothing:
  "(\<forall>a e. getSender s sid Audio = Some a
          \<and> replaceTrack_error s a (index0 (getAudioTracks s st)) = Some e \<longrightarrow>
      updateAudioTrack st sid cb s =
        (Threw e, s\<lparr>trace := trace s @ [EvReplaceTrack a (index0 (getAudioTracks s st))]\<rparr>))
 \<and> (\<forall>a. getSender s sid Audio = Some a
          \<and> replaceTrack_error s a (index0 (getAudioTracks s st)) = None \<longrightarrow>
      updateAudioTrack st sid cb s =
        updateLocalAudioStream st cb
          (s\<lparr>trace := trace s @ [EvReplaceTrack a (index0 (getAudioTracks s st))]\<rparr>)
      \<and> prefix (trace s @ [EvReplaceTrack a (index0 (getAudioTracks s st))])
               (trace (snd (updateAudioTrack st sid cb s))))
 \<and> (getSender s sid Audio = None \<longrightarrow>
      updateAudioTrack st sid cb s = updateLocalAudioStream st cb s)
 \<and> (\<forall>v e. getSender s sid Video = Some v
          \<and> replaceTrack_error s v (index0 (getVideoTracks s st)) = Some e \<longrightarrow>
      updateVideoTrack st sid cb sd s =
        (Threw e, s\<lparr>trace := trace s @ [EvReplaceTrack v (index0 (getVideoTracks s st))]\<rparr>))
 \<and> (\<forall>v. getSender s sid Video = Some v
          \<and> replaceTrack_error s v (index0 (getVideoTracks s st)) = None \<longrightarrow>
      updateVideoTrack st sid cb sd s =
        updateLocalVideoStream st cb sd
          (s\<lparr>trace := trace s @ [EvReplaceTrack v (index0 (getVideoTracks s st))]\<rparr>)
      \<and> prefix (trace s @ [EvReplaceTrack v (index0 (getVideoTracks s st))])
               (trace (snd (updateVideoTrack st sid cb sd s))))
 \<and> (getSender s sid Video = None \<longrightarrow>
      updateVideoTrack st sid cb sd s = updateLocalVideoStream st cb sd s)"
proof -
  have audio_ok: "prefix (trace s @ [EvReplaceTrack a t])
       (trace (snd (updateLocalAudioStream st cb (s\<lparr>trace := trace s @ [EvReplaceTrack a t]\<rparr>))))"
    for a t
    by (rule grows_updateLocalAudioStream) simp
  have video_ok: "prefix (trace s @ [EvReplaceTrack a t])
       (trace (snd (updateLocalVideoStream st cb sd (s\<lparr>trace := trace s @ [EvReplaceTrack a t]\<rparr>))))"
    for a t
    by (rule grows_updateLocalVideoStream) simp
  show ?thesis
    using audio_ok video_ok
    by (simp add: updateAudioTrack_def updateVideoTrack_def emit_def Let_def)
qed

lemma switching_manager_facts:
  "getSender switching_manager = session_senders"
  "localStream switching_manager = Some 0"
  "streams switching_manager 0 = [(Audio, 1), (Video, 2)]"
  "streams switching_manager 3 = [(Audio, 4), (Video, 5)]"
  "replaceTrack_error switching_manager = (\<lambda>_ _. None)"
  "trace switching_manager = [EvCallback ''browser_screen_share_supported'']"
  "isMuted switching_manager = False"
  "localVideo switching_manager = False"
  "localStreamSoundMeter switching_manager = False"
  "desktopStream switching_manager = None"
  "tempTracks switching_manager = []"
  by (simp_all add: switching_manager_def example_defs Let_def upt_rec)

lemma refusing_manager_facts:
  "getSender refusing_manager = session_senders"
  "localStream refusing_manager = Some 0"
  "streams refusing_manager 0 = [(Audio, 1), (Video, 2)]"
  "streams refusing_manager 3 = [(Audio, 4), (Video, 5)]"
  "replaceTrack_error refusing_manager = (\<lambda>_ _. Some (JsError ''InvalidModificationError'' ''''))"
  by (simp_all add: refusing_manager_def switching_manager_facts)

theorem track_replacement_all_or_nothing_witness:
  "fst (updateAudioTrack 3 (Some ''stream1'') None refusing_manager)
     = Threw (JsError ''InvalidModificationError'' '''')
 \<and> streams (snd (updateAudioTrack 3 (Some ''stream1'') None refusing_manager)) 0
     = [(Audio, 1), (Video, 2)]
 \<and> fst (updateVideoTrack 3 (Some ''stream1'') None True refusing_manager)
     = Threw (JsError ''InvalidModificationError'' '''')
 \<and> streams (snd (updateVideoTrack 3 (Some ''stream1'') None True refusing_manager)) 0
     = [(Audio, 1), (Video, 2)]
 \<and> streams (snd (updateAudioTrack 3 (Some ''stream1'') None switching_manager)) 0
     = [(Video, 2), (Audio, 4)]
 \<and> trace (snd (updateAudioTrack 3 (Some ''stream1'') None switching_manager))
     = [EvCallback ''browser_screen_share_supported'', EvReplaceTrack 7 (Some (Audio, 4))]
 \<and> streams (snd (updateVideoTrack 3 (Some ''stream1'') None True switching_manager)) 0
     = [(Audio, 1), (Video, 5)]
 \<and> trace (snd (updateVideoTrack 3 (Some ''stream1'') None True switching_manager))
     = [EvCallback ''browser_screen_share_supported'', EvReplaceTrack 8 (Some (Video, 5)),
        EvStop (Video, 2)]
 \<and> streams (snd (updateAudioTrack 3 None None switching_manager)) 0 = [(Video, 2), (Audio, 4)]
 \<and> trace (snd (updateAudioTrack 3 None None switching_manager))
     = [EvCallback ''browser_screen_share_supported'']"
proof -
  note defs = updateLocalAudioStream_def updateLocalAudioStream_swap_def
    updateLocalAudioStream_finish_def updateLocalAudioStream_tail_def
    updateLocalVideoStream_def updateLocalVideoStream_swap_def updateLocalVideoStream_finish_def
    unmuteLocalMic_def set_audio_enabled_def addTrack_def removeTrack_def stop_def emit_def
    getAudioTracks_def getVideoTracks_def index0_def session_senders_def Let_def
  have a_fail: "updateAudioTrack 3 (Some ''stream1'') None refusing_manager =
      (Threw (JsError ''InvalidModificationError'' ''''),
       refusing_manager\<lparr>trace := trace refusing_manager @ [EvReplaceTrack 7 (Some (Audio, 4))]\<rparr>)"
    using track_replacement_all_or_nothing [of refusing_manager "Some ''stream1''" 3 None True]
    by (simp add: refusing_manager_facts defs)
  have v_fail: "updateVideoTrack 3 (Some ''stream1'') None True refusing_manager =
      (Threw (JsError ''InvalidModificationError'' ''''),
       refusing_manager\<lparr>trace := trace refusing_manager @ [EvReplaceTrack 8 (Some (Video, 5))]\<rparr>)"
    using track_replacement_all_or_nothing [of refusing_manager "Some ''stream1''" 3 None True]
    by (simp add: refusing_manager_facts defs)
  have a_ok: "updateAudioTrack 3 (Some ''stream1'') None switching_manager =
      updateLocalAudioStream 3 None
        (switching_manager\<lparr>trace := trace switching_manager @ [EvReplaceTrack 7 (Some (Audio, 4))]\<rparr>)"
    using track_replacement_all_or_nothing [of switching_manager "Some ''stream1''" 3 None True]
    by (simp add: switching_manager_facts defs)
  have v_ok: "updateVideoTrack 3 (Some ''stream1'') None True switching_manager =
      updateLocalVideoStream 3 None True
        (switching_manager\<lparr>trace := trace switching_manager @ [EvReplaceTrack 8 (Some (Video, 5))]\<rparr>)"
    using track_replacement_all_or_nothing [of switching_manager "Some ''stream1''" 3 None True]
    by (simp add: switching_manager_facts defs)
  have a_none: "updateAudioTrack 3 None None switching_manager =
      updateLocalAudioStream 3 None switching_manager"
    using track_replacement_all_or_nothing [of switching_manager None 3 None True]
    by (simp add: switching_manager_facts defs)
  show ?thesis
    unfolding a_fail v_fail a_ok v_ok a_none
    by (simp add: switching_manager_facts refusing_manager_facts defs)
qed

section \<open>Calls evolve the state\<close>

lemma evolves_refl [simp]: "evolves s s"
  by (simp add: evolves_def keeps_timers_def list_all_iff)

lemma evolves_trans: "evolves a b \<Longrightarrow> evolves b c \<Longrightarrow> evolves a c"
  unfolding evolves_def keeps_timers_def list_all_iff
  by (auto dest: prefix_order.trans)

lemma evolves_update [simp]:
  "evolves s0 (s\<lparr>localStream := x1\<rparr>) = evolves s0 s"
  "evolves s0 (s\<lparr>publishMode := x2\<rparr>) = evolves s0 s"
  "evolves s0 (s\<lparr>mediaConstraints := x3\<rparr>) = evolves s0 s"
  "evolves s0 (s\<lparr>currentVolume := x4\<rparr>) = evolves s0 s"
  "evolves s0 (s\<lparr>previousAudioTrack := x5\<rparr>) = evolves s0 s"
  "evolves s0 (s\<lparr>desktopStream := x6\<rparr>) = evolves s0 s"
  "evolves s0 (s\<lparr>smallVideoTrack := x7\<rparr>) = evolves s0 s"
  "evolves s0 (s\<lparr>primaryAudioTrackGainNode := x8\<rparr>) = evolves s0 s"
  "evolves s0 (s\<lparr>secondaryAudioTrackGainNode := x9\<rparr>) = evolves s0 s"
  "evolves s0 (s\<lparr>localStreamSoundMeter := y1\<rparr>) = evolves s0 s"
  "evolves s0 (s\<lparr>isMuted := y2\<rparr>) = evolves s0 s"
  "evolves s0 (s\<lparr>cameraEnabled := y3\<rparr>) = evolves s0 s"
  "evolves s0 (s\<lparr>replacementStream := y4\<rparr>) = evolves s0 s"
  "evolves s0 (s\<lparr>tempTracks := y5\<rparr>) = evolves s0 s"
  "evolves s0 (s\<lparr>inputDeviceNotFoundLimit := y6\<rparr>) = evolves s0 s"
  "evolves s0 (s\<lparr>streams := y7\<rparr>) = evolves s0 s"
  "evolves s0 (s\<lparr>ended := y8\<rparr>) = evolves s0 s"
  "evolves s0 (s\<lparr>enabled := y9\<rparr>) = evolves s0 s"
  "evolves s0 (s\<lparr>onended := z1\<rparr>) = evolves s0 s"
  "evolves s0 (s\<lparr>gain_value := z2\<rparr>) = evolves s0 s"
  "evolves s0 (s\<lparr>srcObject := z3\<rparr>) = evolves s0 s"
  "evolves s0 (s\<lparr>gum_script := z4\<rparr>) = evolves s0 s"
  "evolves s0 (s\<lparr>display_script := z5\<rparr>) = evolves s0 s"
  "evolves s0 (s\<lparr>enum_script := z6\<rparr>) = evolves s0 s"
  "evolves s0 (s\<lparr>pending := z7\<rparr>) = evolves s0 s"
  by (simp_all add: evolves_def keeps_timers_def timers_ok_def black_timers_def cancels_def)

lemma timers_ok_next_id:
  "timers_ok s \<Longrightarrow> next_id s \<le> n \<Longrightarrow> timers_ok (s\<lparr>next_id := n\<rparr>)"
  by (auto simp: timers_ok_def black_timers_def list_all_iff)

lemma evolves_next_id:
  "evolves s0 s \<Longrightarrow> next_id s \<le> n \<Longrightarrow> evolves s0 (s\<lparr>next_id := n\<rparr>)"
  using timers_ok_next_id [of s n]
  by (auto simp: evolves_def keeps_timers_def cancels_def)

lemma evolves_emit: "evolves s0 s \<Longrightarrow> \<not> is_cancel e \<Longrightarrow> evolves s0 (emit e s)"
  by (auto simp: evolves_def keeps_timers_def timers_ok_def black_timers_def emit_def cancels_def
           intro: prefix_snoc_right)

lemma evolves_callback: "evolves s0 s \<Longrightarrow> evolves s0 (callback n s)"
  by (simp add: callback_def evolves_emit)

lemma evolves_callbackError: "evolves s0 s \<Longrightarrow> evolves s0 (callbackError n s)"
  by (simp add: callbackError_def evolves_emit)

lemma evolves_stop: "evolves s0 s \<Longrightarrow> evolves s0 (stop t s)"
  by (simp add: stop_def evolves_emit)

lemma evolves_stop_opt: "evolves s0 s \<Longrightarrow> evolves s0 (stop_opt t s)"
  by (simp add: stop_opt_def evolves_stop split: option.splits)

lemma evolves_stop_all: "evolves s0 s \<Longrightarrow> evolves s0 (stop_all ts s)"
  unfolding stop_all_def by (induction ts arbitrary: s) (simp_all add: evolves_stop)

lemma evolves_addTrack: "evolves s0 s \<Longrightarrow> evolves s0 (addTrack st t s)"
  by (simp add: addTrack_def)

lemma evolves_removeTrack: "evolves s0 s \<Longrightarrow> evolves s0 (removeTrack st t s)"
  by (simp add: removeTrack_def)

lemma evolves_fold_addTrack: "evolves s0 s \<Longrightarrow> evolves s0 (fold (addTrack st) ts s)"
  by (induction ts arbitrary: s) (simp_all add: evolves_addTrack)

lemma evolves_new_stream: "evolves s0 s \<Longrightarrow> evolves s0 (snd (new_stream ks s))"
  by (simp add: new_stream_def Let_def evolves_next_id)

lemma evolves_createGain: "evolves s0 s \<Longrightarrow> evolves s0 (snd (createGain s))"
  by (simp add: createGain_def evolves_next_id)

lemma evolves_set_gain: "evolves s0 s \<Longrightarrow> evolves s0 (set_gain g v s)"
  by (simp add: set_gain_def)

lemma evolves_gotStream: "evolves s0 s \<Longrightarrow> evolves s0 (gotStream st s)"
  by (simp add: gotStream_def Let_def)

text \<open>A new timer that is no blank-frame timer.\<close>

lemma evolves_setInterval:
  assumes "evolves s0 s" and "f \<noteq> BlackFrame"
  shows "evolves s0 (snd (setInterval f ms s))"
proof -
  let ?s' = "snd (setInterval f ms s)"
  have ok: "timers_ok ?s'" if "timers_ok s"
    using that assms(2)
    by (fastforce simp: timers_ok_def black_timers_def setInterval_def emit_def Let_def
          list_all_iff list_ex_iff)
  have "evolves s ?s'"
    using ok by (auto simp: evolves_def keeps_timers_def setInterval_def emit_def Let_def
        list_all_iff cancels_def)
  with assms(1) show ?thesis by (rule evolves_trans)
qed

section \<open>Higher-order structure\<close>

lemma evolves_then_do:
  assumes "evolves s0 (snd r)" and "\<And>x s. evolves s0 s \<Longrightarrow> evolves s0 (snd (f x s))"
  shows "evolves s0 (snd (then_do r f))"
  using assms by (auto simp: then_do_def split: prod.splits outcome.splits)

lemma evolves_with_stream:
  assumes "evolves s0 s" and "\<And>x s. evolves s0 s \<Longrightarrow> evolves s0 (snd (f x s))"
  shows "evolves s0 (snd (with_stream st f s))"
  using assms by (auto simp: with_stream_def split: option.splits)

lemma evolves_detached: "evolves s0 (snd r) \<Longrightarrow> evolves s0 (detached r)"
  by (auto simp: detached_def evolves_emit split: outcome.splits)

lemma evolves_suspend: "evolves s0 s \<Longrightarrow> evolves s0 (suspend j s)"
  by (simp add: suspend_def)

section \<open>The methods evolve the state\<close>

lemmas evolves_intros =
  evolves_emit evolves_callback evolves_callbackError evolves_stop evolves_stop_opt
  evolves_stop_all evolves_addTrack evolves_removeTrack evolves_fold_addTrack
  evolves_new_stream evolves_createGain evolves_set_gain evolves_gotStream
  evolves_then_do evolves_with_stream evolves_detached evolves_suspend

lemma evolves_muteLocalMic: "evolves s0 s \<Longrightarrow> evolves s0 (muteLocalMic s)"
  by (auto simp: muteLocalMic_def set_audio_enabled_def Let_def split: option.splits
           intro!: evolves_intros)

lemma evolves_unmuteLocalMic: "evolves s0 s \<Longrightarrow> evolves s0 (unmuteLocalMic s)"
  by (auto simp: unmuteLocalMic_def set_audio_enabled_def Let_def split: option.splits
           intro!: evolves_intros)

lemma evolves_connectSoundMeter:
  "evolves s0 s \<Longrightarrow> evolves s0 (connectSoundMeterToLocalStream s)"
  by (simp add: connectSoundMeterToLocalStream_def evolves_emit)

lemma evolves_updateLocalAudioStream_swap:
  "evolves s0 s \<Longrightarrow> evolves s0 (updateLocalAudioStream_swap st s)"
  by (auto simp: updateLocalAudioStream_swap_def Let_def split: option.splits
           intro!: evolves_intros)

lemma evolves_updateLocalAudioStream_tail:
  "evolves s0 s \<Longrightarrow> evolves s0 (snd (updateLocalAudioStream_tail s))"
  by (auto simp: updateLocalAudioStream_tail_def Let_def
           intro!: evolves_connectSoundMeter evolves_muteLocalMic evolves_unmuteLocalMic)

lemma evolves_updateLocalAudioStream_finish:
  "evolves s0 s \<Longrightarrow> evolves s0 (snd (updateLocalAudioStream_finish st cb s))"
  by (auto simp: updateLocalAudioStream_finish_def Let_def split: option.splits
           intro!: evolves_updateLocalAudioStream_tail)

lemma evolves_updateLocalAudioStream:
  "evolves s0 s \<Longrightarrow> evolves s0 (snd (updateLocalAudioStream st cb s))"
  by (simp add: updateLocalAudioStream_def evolves_updateLocalAudioStream_finish
        evolves_updateLocalAudioStream_swap)

lemma evolves_updateLocalVideoStream_finish:
  "evolves s0 s \<Longrightarrow> evolves s0 (snd (updateLocalVideoStream_finish st cb s))"
  by (auto simp: updateLocalVideoStream_finish_def Let_def split: option.splits)

lemma evolves_updateLocalVideoStream_swap:
  "evolves s0 s \<Longrightarrow> evolves s0 (snd (updateLocalVideoStream_swap st cb s))"
  by (auto simp: updateLocalVideoStream_swap_def Let_def split: option.splits
           intro!: evolves_updateLocalVideoStream_finish evolves_intros)

lemma evolves_updateLocalVideoStream:
  "evolves s0 s \<Longrightarrow> evolves s0 (snd (updateLocalVideoStream st cb sd s))"
  by (auto simp: updateLocalVideoStream_def split: option.splits if_splits
           intro!: evolves_updateLocalVideoStream_swap evolves_intros)

lemma evolves_updateAudioTrack:
  "evolves s0 s \<Longrightarrow> evolves s0 (snd (updateAudioTrack st sid cb s))"
  by (auto simp: updateAudioTrack_def Let_def split: option.splits
           intro!: evolves_updateLocalAudioStream evolves_intros)

lemma evolves_updateVideoTrack:
  "evolves s0 s \<Longrightarrow> evolves s0 (snd (updateVideoTrack st sid cb sd s))"
  by (auto simp: updateVideoTrack_def Let_def split: option.splits
           intro!: evolves_updateLocalVideoStream evolves_intros)

lemma evolves_updateLocalVideoStream_undefined:
  "evolves s0 s \<Longrightarrow> evolves s0 (snd (updateLocalVideoStream_undefined sd s))"
  by (auto simp: updateLocalVideoStream_undefined_def split: option.splits if_splits
           intro!: evolves_intros)

lemma evolves_updateAudioTrack_unawaited:
  "evolves s0 s \<Longrightarrow> evolves s0 (updateAudioTrack_unawaited st sid cb s)"
  by (auto simp: updateAudioTrack_unawaited_def Let_def split: option.splits
           intro!: evolves_updateLocalAudioStream evolves_intros)

lemma evolves_updateVideoTrack_unawaited:
  "evolves s0 s \<Longrightarrow> evolves s0 (updateVideoTrack_unawaited st sid cb sd s)"
  by (auto simp: updateVideoTrack_unawaited_def Let_def split: option.splits
           intro!: evolves_updateLocalVideoStream evolves_updateLocalVideoStream_undefined
             evolves_intros)

lemma evolves_updateAudioTrack_resumed:
  "evolves s0 s \<Longrightarrow> evolves s0 (snd (updateAudioTrack_resumed st cb err s))"
  by (auto simp: updateAudioTrack_resumed_def split: option.splits
           intro!: evolves_updateLocalAudioStream)

lemma evolves_updateVideoTrack_resumed:
  "evolves s0 s \<Longrightarrow> evolves s0 (snd (updateVideoTrack_resumed st cb sd err s))"
  by (auto simp: updateVideoTrack_resumed_def split: option.splits
           intro!: evolves_updateLocalVideoStream)

lemma evolves_answer: "evolves s0 s \<Longrightarrow> evolves s0 (snd (answer r s))"
  by (auto simp: answer_def case_prod_unfold split: media_response.splits
           intro!: evolves_new_stream)

lemma evolves_request_getUserMedia:
  "evolves s0 s \<Longrightarrow> evolves s0 (snd (request_getUserMedia c s))"
  by (auto simp: request_getUserMedia_def Let_def split: list.splits intro!: evolves_intros)

lemma evolves_request_getDisplayMedia:
  "evolves s0 s \<Longrightarrow> evolves s0 (snd (request_getDisplayMedia c s))"
  by (auto simp: request_getDisplayMedia_def Let_def split: list.splits intro!: evolves_intros)

lemma evolves_request_enumerateDevices:
  "evolves s0 s \<Longrightarrow> evolves s0 (snd (request_enumerateDevices s))"
  by (auto simp: request_enumerateDevices_def Let_def split: list.splits intro!: evolves_intros)

lemma evolves_answer_devices: "evolves s0 s \<Longrightarrow> evolves s0 (snd (answer_devices r s))"
  by (auto simp: answer_devices_def split: sum.splits)

lemma evolves_navigator_getUserMedia:
  "evolves s0 s \<Longrightarrow> evolves s0 (snd (navigator_getUserMedia c s))"
  by (auto simp: navigator_getUserMedia_def
           intro!: evolves_then_do evolves_request_getUserMedia evolves_answer)

lemma evolves_navigator_getDisplayMedia:
  "evolves s0 s \<Longrightarrow> evolves s0 (snd (navigator_getDisplayMedia c s))"
  by (auto simp: navigator_getDisplayMedia_def
           intro!: evolves_then_do evolves_request_getDisplayMedia evolves_answer)

lemma evolves_navigator_enumerateDevices:
  "evolves s0 s \<Longrightarrow> evolves s0 (snd (navigator_enumerateDevices s))"
  by (auto simp: navigator_enumerateDevices_def
           intro!: evolves_then_do evolves_request_enumerateDevices evolves_answer_devices)

lemma evolves_checkWebRTCPermissions:
  "evolves s0 s \<Longrightarrow> evolves s0 (checkWebRTCPermissions s)"
  by (auto simp: checkWebRTCPermissions_def intro!: evolves_intros)

lemma evolves_getDevices_unawaited:
  "evolves s0 s \<Longrightarrow> evolves s0 (getDevices_unawaited s)"
  using evolves_request_enumerateDevices [of s0 s]
  by (auto simp: getDevices_unawaited_def case_prod_unfold split: outcome.splits
           intro!: evolves_intros)

lemma evolves_getUserMedia_settled:
  "evolves s0 (snd r) \<Longrightarrow> evolves s0 (snd (getUserMedia_settled ce r))"
  by (auto simp: getUserMedia_settled_def case_prod_unfold split: outcome.splits
           intro!: evolves_intros evolves_getDevices_unawaited)

lemma evolves_getUserMedia:
  "evolves s0 s \<Longrightarrow> evolves s0 (snd (getUserMedia c ce s))"
  by (simp add: getUserMedia_def evolves_getUserMedia_settled evolves_navigator_getUserMedia)

lemma evolves_openStream_unawaited:
  "evolves s0 s \<Longrightarrow> evolves s0 (openStream_unawaited c sid s)"
  using evolves_request_getUserMedia [of s0 "s\<lparr>mediaConstraints := Some c\<rparr>"]
    evolves_request_getDisplayMedia [of s0 "s\<lparr>mediaConstraints := Some c\<rparr>"]
  by (auto simp: openStream_unawaited_def Let_def case_prod_unfold split: outcome.splits
           intro!: evolves_intros evolves_getUserMedia_settled)

lemma evolves_getDevices_resumed:
  "evolves s0 s \<Longrightarrow> evolves s0 (getDevices_resumed ds s)"
  by (auto simp: getDevices_resumed_def Let_def split: option.splits
           intro!: evolves_intros evolves_openStream_unawaited)

lemma evolves_getDevices: "evolves s0 s \<Longrightarrow> evolves s0 (snd (getDevices s))"
  using evolves_navigator_enumerateDevices [of s0 s]
  by (auto simp: getDevices_def case_prod_unfold split: outcome.splits
           intro!: evolves_getDevices_resumed)

lemma evolves_trackDeviceChange: "evolves s0 s \<Longrightarrow> evolves s0 (snd (trackDeviceChange s))"
  by (auto simp: trackDeviceChange_def intro!: evolves_intros)

lemma evolves_set_initialized:
  "evolves s0 s \<Longrightarrow> initialized s0 \<Longrightarrow> evolves s0 (s\<lparr>initialized := True\<rparr>)"
  by (simp add: evolves_def keeps_timers_def timers_ok_def black_timers_def cancels_def)

lemma evolves_initialize: "evolves s0 s \<Longrightarrow> evolves s0 (snd (initialize s))"
proof (cases "initialized s")
  case False
  assume "evolves s0 s"
  with False show ?thesis by (simp add: initialize_def)
next
  case True
  assume a: "evolves s0 s"
  then have "initialized s0" using True by (simp add: evolves_def)
  with a True show ?thesis
    by (auto simp: initialize_def
          intro!: evolves_then_do evolves_getDevices evolves_checkWebRTCPermissions
            evolves_trackDeviceChange evolves_set_initialized)
qed



lemma evolves_fold_stop_remove:
  "evolves s0 s \<Longrightarrow> evolves s0 (fold (\<lambda>t s'. removeTrack ls t (stop t s')) ts s)"
  by (induction ts arbitrary: s) (simp_all add: evolves_removeTrack evolves_stop)

lemma evolves_setGainNodeStream:
  "evolves s0 s \<Longrightarrow> evolves s0 (snd (setGainNodeStream st s))"
  by (auto simp: setGainNodeStream_def Let_def case_prod_unfold split: option.splits
           intro!: evolves_intros)

lemma evolves_build_branch:
  "evolves s0 s \<Longrightarrow> evolves s0 (build_primary_branch s)"
  "evolves s0 s \<Longrightarrow> evolves s0 (build_secondary_branch s)"
  by (auto simp: build_primary_branch_def build_secondary_branch_def case_prod_unfold
           intro!: evolves_intros)

lemma evolves_mixAudioStreams:
  "evolves s0 s \<Longrightarrow> evolves s0 (snd (mixAudioStreams st st2 s))"
  by (auto simp: mixAudioStreams_def Let_def case_prod_unfold
           intro!: evolves_intros evolves_build_branch)

lemma evolves_setVolumeLevel: "evolves s0 s \<Longrightarrow> evolves s0 (setVolumeLevel v s)"
  by (auto simp: setVolumeLevel_def Let_def split: option.splits intro!: evolves_intros)

lemma evolves_prepareAudioStream:
  "evolves s0 s \<Longrightarrow> evolves s0 (snd (prepareAudioStream ds ac s))"
  by (auto simp: prepareAudioStream_def
           intro!: evolves_intros evolves_getUserMedia evolves_setGainNodeStream
             evolves_mixAudioStreams)

lemma evolves_prepareAudioStream_resumed:
  "evolves s0 s \<Longrightarrow> evolves s0 (snd (prepareAudioStream_resumed m ds a s))"
  by (auto simp: prepareAudioStream_resumed_def
           intro!: evolves_intros evolves_setGainNodeStream evolves_mixAudioStreams)

lemma evolves_initializeDummyFrame: "evolves s0 s \<Longrightarrow> evolves s0 (initializeDummyFrame s)"
  by (auto simp: initializeDummyFrame_def case_prod_unfold intro!: evolves_intros)

text \<open>Arming the blank-frame timer when none is registered.\<close>

lemma evolves_arm_blackFrameTimer:
  assumes "evolves s0 s"
  shows "evolves s0 (arm_blackFrameTimer s)"
proof (cases "blackFrameTimer s")
  case (Some i)
  with assms show ?thesis by (simp add: arm_blackFrameTimer_def)
next
  case None
  let ?s' = "arm_blackFrameTimer s"
  have ok: "timers_ok ?s'" if "timers_ok s"
    using that None
    by (fastforce simp: arm_blackFrameTimer_def timers_ok_def black_timers_def setInterval_def
          emit_def Let_def list_all_iff list_ex_iff)
  have "evolves s ?s'"
    using ok None
    by (auto simp: arm_blackFrameTimer_def evolves_def keeps_timers_def setInterval_def
          emit_def Let_def list_all_iff cancels_def)
  with assms show ?thesis by (rule evolves_trans)
qed

lemma evolves_turnOffLocalCamera:
  "evolves s0 s \<Longrightarrow> evolves s0 (turnOffLocalCamera sid s)"
  unfolding turnOffLocalCamera_def Let_def
  by (intro evolves_arm_blackFrameTimer)
     (auto split: option.splits
           intro!: evolves_intros evolves_initializeDummyFrame evolves_updateVideoTrack_unawaited)

text \<open>Starting the sound-level timer.\<close>

lemma evolves_enableAudioLevelForLocalStream:
  assumes "evolves s0 s"
  shows "evolves s0 (enableAudioLevelForLocalStream period s)"
proof -
  let ?a = "connectSoundMeterToLocalStream (s\<lparr>localStreamSoundMeter := True\<rparr>)"
  let ?s' = "enableAudioLevelForLocalStream period s"
  have a: "evolves s ?a" by (simp add: evolves_connectSoundMeter)
  have ok: "timers_ok ?s'" if "timers_ok ?a"
    using that
    by (fastforce simp: enableAudioLevelForLocalStream_def timers_ok_def black_timers_def
          setInterval_def emit_def Let_def list_all_iff list_ex_iff)
  have "evolves ?a ?s'"
    using ok
    by (auto simp: enableAudioLevelForLocalStream_def evolves_def keeps_timers_def
          setInterval_def emit_def Let_def list_all_iff cancels_def)
  with a have "evolves s ?s'" by (rule evolves_trans)
  with assms show ?thesis by (rule evolves_trans)
qed

lemma evolves_compositor_draw: "evolves s0 s \<Longrightarrow> evolves s0 (compositor_draw a b s)"
  by (auto simp: compositor_draw_def Let_def intro!: evolves_intros)

lemma evolves_setDesktopWithCameraSource_resumed:
  "evolves s0 s \<Longrightarrow> evolves s0 (snd (setDesktopWithCameraSource_resumed st sid cb cam s))"
  by (auto simp: setDesktopWithCameraSource_resumed_def Let_def case_prod_unfold
           split: option.splits
           intro!: evolves_intros evolves_setInterval evolves_updateVideoTrack_unawaited)

lemma evolves_setDesktopWithCameraSource:
  "evolves s0 s \<Longrightarrow> evolves s0 (snd (setDesktopWithCameraSource st sid cb s))"
  by (auto simp: setDesktopWithCameraSource_def
           intro!: evolves_intros evolves_getUserMedia
             evolves_setDesktopWithCameraSource_resumed)

lemma evolves_setDesktopWithCameraSource_unawaited:
  "evolves s0 s \<Longrightarrow> evolves s0 (setDesktopWithCameraSource_unawaited st sid cb s)"
  using evolves_request_getUserMedia [of s0 "s\<lparr>desktopStream := Some st\<rparr>"]
  by (auto simp: setDesktopWithCameraSource_unawaited_def case_prod_unfold
           split: outcome.splits
           intro!: evolves_intros evolves_getUserMedia_settled
             evolves_setDesktopWithCameraSource_resumed)

lemma evolves_run_task: "evolves s0 s \<Longrightarrow> evolves s0 (run_task t s)"
  by (auto simp: run_task_def split: task.splits
           intro!: evolves_intros evolves_compositor_draw evolves_initializeDummyFrame)

lemma evolves_tick: "evolves s0 s \<Longrightarrow> evolves s0 (tick i s)"
  by (auto simp: tick_def split: list.splits intro!: evolves_run_task)

lemma evolves_setVideoCameraSource_resumed:
  "evolves s0 s \<Longrightarrow> evolves s0 (snd (setVideoCameraSource_resumed sid cb sd st s))"
  by (auto simp: setVideoCameraSource_resumed_def
           intro!: evolves_intros evolves_setGainNodeStream
             evolves_updateAudioTrack_unawaited evolves_updateVideoTrack_unawaited
             evolves_turnOffLocalCamera)

lemma evolves_setVideoCameraSource_unawaited:
  "evolves s0 s \<Longrightarrow> evolves s0 (setVideoCameraSource_unawaited sid c cb sd s)"
  using evolves_request_getUserMedia [of s0 s c]
  by (auto simp: setVideoCameraSource_unawaited_def case_prod_unfold split: outcome.splits
           intro!: evolves_intros evolves_getUserMedia_settled
             evolves_setVideoCameraSource_resumed)

lemma evolves_adjust_video_constraint:
  "evolves s0 s \<Longrightarrow> evolves s0 (snd (adjust_video_constraint ds d s))"
  by (auto simp: adjust_video_constraint_def
           split: option.splits media_constraint.splits bool.splits)

lemma evolves_switchVideoCameraCapture:
  "evolves s0 s \<Longrightarrow> evolves s0 (snd (switchVideoCameraCapture sid d s))"
  by (auto simp: switchVideoCameraCapture_def Let_def split: option.splits
           intro!: evolves_intros evolves_navigator_enumerateDevices
             evolves_adjust_video_constraint evolves_setVideoCameraSource_unawaited)

lemma evolves_switchVideoCameraFacingMode:
  "evolves s0 s \<Longrightarrow> evolves s0 (snd (switchVideoCameraFacingMode sid f s))"
  by (auto simp: switchVideoCameraFacingMode_def Let_def split: option.splits
           intro!: evolves_intros evolves_setVideoCameraSource_unawaited)

lemma evolves_setAudioInputSource_resumed:
  "evolves s0 s \<Longrightarrow> evolves s0 (snd (setAudioInputSource_resumed sid a s))"
  by (auto simp: setAudioInputSource_resumed_def intro!: evolves_updateAudioTrack_unawaited)

lemma evolves_setAudioInputSource:
  "evolves s0 s \<Longrightarrow> evolves s0 (snd (setAudioInputSource sid c cb s))"
  by (auto simp: setAudioInputSource_def split: option.splits list.splits
           intro!: evolves_intros evolves_updateLocalAudioStream evolves_fold_stop_remove
             evolves_prepareAudioStream evolves_setAudioInputSource_resumed)

lemma evolves_setAudioInputSource_unawaited:
  "evolves s0 s \<Longrightarrow> evolves s0 (setAudioInputSource_unawaited sid c cb s)"
  using evolves_request_getUserMedia [of s0 s "\<lparr>video = None, audio = audio c\<rparr>"]
  by (auto simp: setAudioInputSource_unawaited_def case_prod_unfold
           split: outcome.splits option.splits if_splits
           intro!: evolves_intros evolves_getUserMedia_settled evolves_setAudioInputSource
             evolves_prepareAudioStream_resumed evolves_setAudioInputSource_resumed)

lemma evolves_switchAudioInputSource:
  "evolves s0 s \<Longrightarrow> evolves s0 (snd (switchAudioInputSource sid d s))"
  by (auto simp: switchAudioInputSource_def Let_def
           split: option.splits media_constraint.splits bool.splits
           intro!: evolves_intros evolves_setAudioInputSource_unawaited)

lemma evolves_prepareStreamTracks:
  "evolves s0 s \<Longrightarrow> evolves s0 (snd (prepareStreamTracks ac ds sid s))"
  by (auto simp: prepareStreamTracks_def Let_def split: option.splits
           intro!: evolves_intros evolves_updateVideoTrack_unawaited
             evolves_setDesktopWithCameraSource_unawaited
             evolves_prepareAudioStream evolves_updateAudioTrack_unawaited)

lemma evolves_prepareStream:
  "evolves s0 s \<Longrightarrow> evolves s0 (snd (prepareStream st sid s))"
  by (simp add: prepareStream_def evolves_prepareStreamTracks evolves_stop_opt)

lemma evolves_open:
  shows evolves_getDisplayMedia_denied:
      "evolves s0 s1 \<Longrightarrow> evolves s0 (snd (getDisplayMedia_denied e s1))"
    and evolves_getDisplayMedia: "evolves s0 s \<Longrightarrow> evolves s0 (snd (getDisplayMedia c s))"
    and evolves_getMedia: "evolves s0 s' \<Longrightarrow> evolves s0 (snd (getMedia c' s'))"
    and evolves_openStream: "evolves s0 s'' \<Longrightarrow> evolves s0 (snd (openStream c'' i s''))"
proof (induction e s1 and c s and c' s' and c'' i s''
    rule: getDisplayMedia_denied_getDisplayMedia_getMedia_openStream.induct)
  case (1 e s1)
  let ?s2 = "callbackError ''ScreenSharePermissionDenied'' s1"
  have s2: "evolves s0 ?s2" using "1.prems" by (rule evolves_callbackError)
  have rec: "evolves s0 (snd (openStream \<lparr>video = Some (CBool True), audio = Some (CBool True)\<rparr> None ?s2))"
    if "\<not> callbackError_returns_false ?s2 ''ScreenSharePermissionDenied''"
      and "localStream ?s2 = None"
    using "1.IH" [OF refl that s2] .
  have sw: "evolves s0 (snd (then_do (switchVideoCameraCapture sid None ?s2)
              (\<lambda>_ s3. (Returned None, s3))))" for sid
    using s2 by (auto intro!: evolves_then_do evolves_switchVideoCameraCapture)
  show ?case
    using s2 rec sw
    by (auto simp: getDisplayMedia_denied.simps [of e s1] Let_def split: option.splits)
next
  case (2 c s)
  have nav: "evolves s0 (snd (navigator_getDisplayMedia c s))"
    using "2.prems" by (rule evolves_navigator_getDisplayMedia)
  show ?case
  proof (cases "navigator_getDisplayMedia c s")
    case (Pair r s1)
    with nav have s1: "evolves s0 s1" by simp
    show ?thesis
    proof (cases r)
      case (Returned st)
      with Pair s1 show ?thesis by (simp add: getDisplayMedia.simps [of c s])
    next
      case Pending
      with Pair s1 show ?thesis by (simp add: getDisplayMedia.simps [of c s])
    next
      case (Threw e)
      have rec: "evolves s0 (snd (getDisplayMedia_denied e s1))"
        if "error_name e = ''NotAllowedError''"
        using "2.IH" [OF Pair [symmetric] Threw that s1] .
      show ?thesis
        using Pair Threw s1 rec
        by (auto simp: getDisplayMedia.simps [of c s])
    qed
  qed
next
  case (3 c s)
  then show ?case
    by (auto simp: getMedia.simps [of c s] intro!: evolves_getUserMedia)
next
  case (4 c streamId s)
  let ?s1 = "s\<lparr>mediaConstraints := Some c\<rparr>"
  have s1: "evolves s0 ?s1" using "4.prems" by simp
  show ?case
  proof (cases "video (getMediaConstraints ?s1) = None")
    case True
    with s1 show ?thesis
      by (auto simp: openStream.simps [of c streamId s] Let_def intro!: evolves_intros)
  next
    case False
    have "evolves s0 (snd (getMedia (getMediaConstraints ?s1) ?s1))"
      using "4.IH" [OF refl refl False s1] .
    with False show ?thesis
      by (auto simp: openStream.simps [of c streamId s] Let_def
            intro!: evolves_then_do evolves_prepareStream)
  qed
qed

lemma evolves_getDisplayMedia_settled:
  "evolves s0 (snd r) \<Longrightarrow> evolves s0 (snd (getDisplayMedia_settled r))"
  by (auto simp: getDisplayMedia_settled_def case_prod_unfold split: outcome.splits
           intro!: evolves_getDisplayMedia_denied)

lemma evolves_switchDesktopCapture:
  "evolves s0 s \<Longrightarrow> evolves s0 (snd (switchDesktopCapture sid s))"
  "evolves s0 s \<Longrightarrow> evolves s0 (snd (switchDesktopCaptureWithCamera sid s))"
  by (auto simp: switchDesktopCapture_def switchDesktopCaptureWithCamera_def Let_def
           intro!: evolves_then_do evolves_getMedia evolves_prepareStream)

text \<open>Every suspended method evolves the state when it runs on.\<close>

lemma evolves_resume: "evolves s0 s \<Longrightarrow> evolves s0 (resume j s)"
proof (cases j)
  case (Resume_getDevices r)
  assume "evolves s0 s"
  then show ?thesis
    unfolding Resume_getDevices
    by (auto split: sum.splits intro!: evolves_getDevices_resumed)
next
  case (Resume_openStream streamId src r)
  assume "evolves s0 s"
  then show ?thesis
    unfolding Resume_openStream
    by (cases src)
       (auto intro!: evolves_intros evolves_getUserMedia_settled evolves_answer
          evolves_getDisplayMedia_settled evolves_prepareStream)
qed (auto intro!: evolves_intros evolves_updateAudioTrack_resumed
       evolves_updateVideoTrack_resumed evolves_getUserMedia_settled evolves_answer
       evolves_setDesktopWithCameraSource_resumed evolves_setVideoCameraSource_resumed
       evolves_prepareAudioStream_resumed evolves_setAudioInputSource_resumed)

lemma evolves_settle: "evolves s0 s \<Longrightarrow> evolves s0 (settle n s)"
  by (auto simp: settle_def intro!: evolves_resume)

section \<open>Cancelling timers\<close>

lemma timer_id_unique:
  assumes "distinct (map fst ts)" and "(i, a) \<in> set ts" and "(i, b) \<in> set ts"
  shows "a = b"
  using assms by (meson eq_key_imp_eq_value)

lemma timers_ok_clear_black:
  assumes "timers_ok s" and "blackFrameTimer s = Some i"
  shows "timers_ok ((clearInterval i s)\<lparr>blackFrameTimer := None\<rparr>)"
proof -
  have bl: "filter (\<lambda>t. snd (snd t) = BlackFrame) (timers s) = [(i, 3000, BlackFrame)]"
    using assms by (simp add: timers_ok_def black_timers_def)
  have d: "distinct (map fst (timers s))" using assms by (simp add: timers_ok_def)
  have mem: "(i, 3000, BlackFrame) \<in> set (timers s)"
  proof -
    have "(i, 3000, BlackFrame) \<in> set (filter (\<lambda>t. snd (snd t) = BlackFrame) (timers s))"
      by (simp add: bl)
    then show ?thesis by simp
  qed
  have only: "fst t = i" if "t \<in> set (timers s)" "snd (snd t) = BlackFrame" for t
  proof -
    have "t \<in> set (filter (\<lambda>t. snd (snd t) = BlackFrame) (timers s))" using that by simp
    then show ?thesis unfolding bl by simp
  qed
  have noblack: "filter (\<lambda>t. snd (snd t) = BlackFrame) (filter (\<lambda>t. fst t \<noteq> i) (timers s)) = []"
    using only by (auto simp: filter_empty_conv)
  have sound: "fst t \<noteq> i" if "t \<in> set (timers s)" "snd (snd t) = SoundLevel" for t
  proof
    assume "fst t = i"
    then have a: "(i, snd t) \<in> set (timers s)" using that(1) by (metis prod.collapse)
    from d a mem have "snd t = (3000, BlackFrame)" by (rule timer_id_unique)
    with that(2) show False by simp
  qed
  show ?thesis
    using assms(1) noblack sound d
    by (auto simp: timers_ok_def black_timers_def clearInterval_def emit_def list_all_iff
          list_ex_iff distinct_map_filter)
qed

lemma timers_ok_clear_sound:
  assumes "timers_ok s" and "soundLevelProviderId s \<noteq> - 1"
  shows "timers_ok ((clearInterval (soundLevelProviderId s) s)\<lparr>soundLevelProviderId := - 1\<rparr>)"
proof -
  let ?j = "soundLevelProviderId s"
  have d: "distinct (map fst (timers s))" using assms by (simp add: timers_ok_def)
  obtain u where u: "u \<in> set (timers s)" "fst u = ?j" "snd (snd u) = SoundLevel"
    using assms by (auto simp: timers_ok_def list_ex_iff)
  have "fst t \<noteq> ?j" if "t \<in> set (timers s)" "snd (snd t) = BlackFrame" for t
  proof
    assume "fst t = ?j"
    then have a: "(?j, snd t) \<in> set (timers s)" using that(1) by (metis prod.collapse)
    have b: "(?j, snd u) \<in> set (timers s)" using u by (metis prod.collapse)
    from d a b have "snd t = snd u" by (rule timer_id_unique)
    with that(2) u(3) show False by simp
  qed
  then have keep:
    "filter (\<lambda>t. snd (snd t) = BlackFrame) (filter (\<lambda>t. fst t \<noteq> ?j) (timers s))
      = filter (\<lambda>t. snd (snd t) = BlackFrame) (timers s)"
    unfolding filter_filter by (intro filter_cong) auto
  show ?thesis
    using assms(1) keep d
    by (auto simp: timers_ok_def black_timers_def clearInterval_def emit_def list_all_iff
          distinct_map_filter)
qed

section \<open>Calls that leave the timers alone\<close>

lemma quiet_refl [simp]: "quiet s s"
  by (simp add: quiet_def)

lemma quiet_update [simp]:
  "quiet s0 (s\<lparr>localStream := x1\<rparr>) = quiet s0 s"
  "quiet s0 (s\<lparr>cameraEnabled := x2\<rparr>) = quiet s0 s"
  "quiet s0 (s\<lparr>replacementStream := x3\<rparr>) = quiet s0 s"
  "quiet s0 (s\<lparr>tempTracks := x4\<rparr>) = quiet s0 s"
  "quiet s0 (s\<lparr>streams := x5\<rparr>) = quiet s0 s"
  "quiet s0 (s\<lparr>ended := x6\<rparr>) = quiet s0 s"
  "quiet s0 (s\<lparr>enabled := x7\<rparr>) = quiet s0 s"
  "quiet s0 (s\<lparr>onended := x8\<rparr>) = quiet s0 s"
  "quiet s0 (s\<lparr>srcObject := x9\<rparr>) = quiet s0 s"
  "quiet s0 (s\<lparr>next_id := y1\<rparr>) = quiet s0 s"
  "quiet s0 (s\<lparr>trace := y2\<rparr>) = quiet s0 s"
  "quiet s0 (s\<lparr>pending := y3\<rparr>) = quiet s0 s"
  by (simp_all add: quiet_def)

lemma quiet_emit: "quiet s0 s \<Longrightarrow> quiet s0 (emit e s)"
  by (simp add: emit_def)

lemma quiet_stop: "quiet s0 s \<Longrightarrow> quiet s0 (stop t s)"
  by (simp add: stop_def quiet_emit)

lemma quiet_stop_opt: "quiet s0 s \<Longrightarrow> quiet s0 (stop_opt t s)"
  by (simp add: stop_opt_def quiet_stop split: option.splits)

lemma quiet_stop_all: "quiet s0 s \<Longrightarrow> quiet s0 (stop_all ts s)"
  unfolding stop_all_def by (induction ts arbitrary: s) (simp_all add: quiet_stop)

lemma quiet_addTrack: "quiet s0 s \<Longrightarrow> quiet s0 (addTrack st t s)"
  by (simp add: addTrack_def)

lemma quiet_removeTrack: "quiet s0 s \<Longrightarrow> quiet s0 (removeTrack st t s)"
  by (simp add: removeTrack_def)

lemma quiet_new_stream: "quiet s0 s \<Longrightarrow> quiet s0 (snd (new_stream ks s))"
  by (simp add: new_stream_def Let_def)

lemma quiet_callbackError: "quiet s0 s \<Longrightarrow> quiet s0 (callbackError n s)"
  by (simp add: callbackError_def quiet_emit)

lemma quiet_with_stream:
  assumes "quiet s0 s" and "\<And>x s. quiet s0 s \<Longrightarrow> quiet s0 (snd (f x s))"
  shows "quiet s0 (snd (with_stream st f s))"
  using assms by (auto simp: with_stream_def split: option.splits)

lemma quiet_detached: "quiet s0 (snd r) \<Longrightarrow> quiet s0 (detached r)"
  by (auto simp: detached_def quiet_emit split: outcome.splits)

lemma quiet_suspend: "quiet s0 s \<Longrightarrow> quiet s0 (suspend j s)"
  by (simp add: suspend_def)

lemmas quiet_intros =
  quiet_emit quiet_stop quiet_stop_opt quiet_stop_all quiet_addTrack quiet_removeTrack
  quiet_new_stream quiet_callbackError quiet_with_stream quiet_detached quiet_suspend

lemma quiet_updateLocalVideoStream_finish:
  "quiet s0 s \<Longrightarrow> quiet s0 (snd (updateLocalVideoStream_finish st cb s))"
  by (auto simp: updateLocalVideoStream_finish_def Let_def split: option.splits)

lemma quiet_updateLocalVideoStream_swap:
  "quiet s0 s \<Longrightarrow> quiet s0 (snd (updateLocalVideoStream_swap st cb s))"
  by (auto simp: updateLocalVideoStream_swap_def Let_def split: option.splits
           intro!: quiet_updateLocalVideoStream_finish quiet_intros)

lemma quiet_updateLocalVideoStream:
  "quiet s0 s \<Longrightarrow> quiet s0 (snd (updateLocalVideoStream st cb sd s))"
  by (auto simp: updateLocalVideoStream_def split: option.splits if_splits
           intro!: quiet_updateLocalVideoStream_swap quiet_intros)

lemma quiet_updateVideoTrack:
  "quiet s0 s \<Longrightarrow> quiet s0 (snd (updateVideoTrack st sid cb sd s))"
  by (auto simp: updateVideoTrack_def Let_def split: option.splits
           intro!: quiet_updateLocalVideoStream quiet_intros)

lemma quiet_updateLocalVideoStream_undefined:
  "quiet s0 s \<Longrightarrow> quiet s0 (snd (updateLocalVideoStream_undefined sd s))"
  by (auto simp: updateLocalVideoStream_undefined_def split: option.splits if_splits
           intro!: quiet_intros)

lemma quiet_updateVideoTrack_unawaited:
  "quiet s0 s \<Longrightarrow> quiet s0 (updateVideoTrack_unawaited st sid cb sd s)"
  by (auto simp: updateVideoTrack_unawaited_def Let_def split: option.splits
           intro!: quiet_updateLocalVideoStream quiet_updateLocalVideoStream_undefined
             quiet_intros)

lemma quiet_initializeDummyFrame: "quiet s0 s \<Longrightarrow> quiet s0 (initializeDummyFrame s)"
  by (auto simp: initializeDummyFrame_def case_prod_unfold intro!: quiet_intros)

lemma quiet_closeStream_tracks: "quiet s (closeStream_tracks s)"
  by (auto simp: closeStream_tracks_def Let_def split: option.splits intro!: quiet_intros)

text \<open>\<open>turnOffLocalCamera\<close> is quiet up to its last step, which arms the timer.\<close>

lemma turnOffLocalCamera_arm:
  "\<exists>s1. quiet s s1 \<and> evolves s s1 \<and> turnOffLocalCamera sid s = arm_blackFrameTimer s1"
proof -
  let ?d = "initializeDummyFrame s"
  let ?s1 = "case localStream ?d of
              Some _ \<Rightarrow>
                (let s' = ?d\<lparr>cameraEnabled := False\<rparr>
                 in updateVideoTrack_unawaited (replacementStream s') (choosenId sid s')
                      None True s')
            | None \<Rightarrow> callbackError ''NoActiveConnection'' ?d"
  have "quiet s ?s1"
    by (auto simp: Let_def split: option.splits
          intro!: quiet_intros quiet_initializeDummyFrame quiet_updateVideoTrack_unawaited)
  moreover have "evolves s ?s1"
    by (auto simp: Let_def split: option.splits
          intro!: evolves_intros evolves_initializeDummyFrame evolves_updateVideoTrack_unawaited)
  moreover have "turnOffLocalCamera sid s = arm_blackFrameTimer ?s1"
    by (simp add: turnOffLocalCamera_def Let_def)
  ultimately show ?thesis by blast
qed

section \<open>The two calls that cancel a timer\<close>

lemma timers_ok_cancel_blackFrameTimer:
  "timers_ok s \<Longrightarrow> timers_ok (cancel_blackFrameTimer s)"
  by (auto simp: cancel_blackFrameTimer_def timers_ok_clear_black split: option.splits)

lemma timers_ok_cancel_soundLevelProvider:
  "timers_ok s \<Longrightarrow> timers_ok (cancel_soundLevelProvider s)"
  by (auto simp: cancel_soundLevelProvider_def timers_ok_clear_sound)

lemma turnOnLocalCamera_after_cancel:
  "evolves (cancel_blackFrameTimer s) (snd (turnOnLocalCamera sid s))"
  by (auto simp: turnOnLocalCamera_def Let_def split: option.splits
           intro!: evolves_intros evolves_getUserMedia evolves_updateVideoTrack_unawaited)

lemma timers_ok_turnOnLocalCamera:
  "timers_ok s \<Longrightarrow> timers_ok (snd (turnOnLocalCamera sid s))"
  using turnOnLocalCamera_after_cancel [of s sid] timers_ok_cancel_blackFrameTimer [of s]
  by (simp add: evolves_def)

lemma initialized_turnOnLocalCamera:
  "initialized (snd (turnOnLocalCamera sid s)) = initialized s"
  using turnOnLocalCamera_after_cancel [of s sid]
  by (simp add: evolves_def cancel_blackFrameTimer_def clearInterval_def emit_def
        split: option.splits)

lemma evolves_closeStream_tracks: "evolves s0 s \<Longrightarrow> evolves s0 (closeStream_tracks s)"
  by (auto simp: closeStream_tracks_def Let_def split: option.splits intro!: evolves_intros)

lemma timers_ok_closeStream: "timers_ok s \<Longrightarrow> timers_ok (closeStream s)"
proof -
  assume "timers_ok s"
  then have "timers_ok (closeStream_tracks s)"
    using evolves_closeStream_tracks [OF evolves_refl, of s] by (simp add: evolves_def)
  then have "timers_ok (cancel_soundLevelProvider (closeStream_tracks s))"
    by (rule timers_ok_cancel_soundLevelProvider)
  then show ?thesis by (simp add: closeStream_def timers_ok_def black_timers_def)
qed

lemma initialized_closeStream: "initialized (closeStream s) = initialized s"
  using evolves_closeStream_tracks [OF evolves_refl, of s]
  by (simp add: closeStream_def cancel_soundLevelProvider_def clearInterval_def emit_def
        evolves_def)

section \<open>Invariants of the state machine\<close>

lemma evolves_step:
  "\<lbrakk>op \<noteq> CloseStream; \<And>sid. op \<noteq> TurnOnLocalCamera sid\<rbrakk> \<Longrightarrow> evolves s (step op s)"
  by (cases op)
     (auto simp: evolves_initialize evolves_openStream evolves_muteLocalMic
        evolves_unmuteLocalMic evolves_turnOffLocalCamera evolves_switchAudioInputSource
        evolves_switchVideoCameraCapture evolves_switchVideoCameraFacingMode
        evolves_setAudioInputSource evolves_updateAudioTrack evolves_updateVideoTrack
        evolves_setVolumeLevel evolves_enableAudioLevelForLocalStream evolves_tick
        evolves_settle evolves_switchDesktopCapture)

lemma timers_ok_step: "timers_ok s \<Longrightarrow> timers_ok (step op s)"
proof (cases "op = CloseStream \<or> (\<exists>sid. op = TurnOnLocalCamera sid)")
  case True
  assume "timers_ok s"
  with True show ?thesis
    by (auto simp: timers_ok_closeStream timers_ok_turnOnLocalCamera)
next
  case False
  assume "timers_ok s"
  with False evolves_step [of op s] show ?thesis by (auto simp: evolves_def)
qed

lemma initialized_step: "initialized (step op s) = initialized s"
proof (cases "op = CloseStream \<or> (\<exists>sid. op = TurnOnLocalCamera sid)")
  case True
  then show ?thesis
    by (auto simp: initialized_closeStream initialized_turnOnLocalCamera)
next
  case False
  with evolves_step [of op s] show ?thesis by (auto simp: evolves_def)
qed

lemma timers_ok_run: "timers_ok s \<Longrightarrow> timers_ok (run ops s)"
  unfolding run_def by (induction ops arbitrary: s) (simp_all add: timers_ok_step)

lemma initialized_run: "initialized (run ops s) = initialized s"
  unfolding run_def by (induction ops arbitrary: s) (simp_all add: initialized_step)

lemma constructor_fields:
  "initialized (constructor iv w) = False"
  "blackFrameTimer (constructor iv w) = None"
  "soundLevelProviderId (constructor iv w) = - 1"
  "currentVolume (constructor iv w) = None"
  "cameraEnabled (constructor iv w) = True"
  by (simp_all add: constructor_def Let_def checkBrowserScreenShareSupported_def callback_def
        emit_def)

lemma timers_set_param [simp]: "timers (set_param p s) = timers s"
  by (cases p) simp_all

lemma timers_fold_set_param [simp]: "timers (fold set_param ps s) = timers s"
  by (induction ps arbitrary: s) simp_all

lemma constructor_timers: "timers (constructor iv w) = timers w"
  by (simp add: constructor_def Let_def checkBrowserScreenShareSupported_def callback_def
        emit_def)

lemma timers_ok_constructor: "timers w = [] \<Longrightarrow> timers_ok (constructor iv w)"
  by (simp add: timers_ok_def black_timers_def constructor_timers constructor_fields)

section \<open>Initialisation: C6\<close>

text \<open>
  C6.  For every freshly constructed \<open>MediaManager\<close>, whatever \<open>initialValues\<close> hold and
  whatever the page is, \<open>initialize()\<close> returns \<open>false\<close> and does nothing: the state,
  with its trace of effects, is the one before the call (no permission check, no device
  enumeration, no device-change listener).  The constructor leaves \<open>initialized\<close> false,
  no later call changes the flag, so the same holds after any sequence of calls; and
  \<open>initialize\<close> returns \<open>true\<close> only from a state whose flag is already \<open>true\<close>.
\<close>

theorem initialize_returns_false:
  "initialized (constructor iv w) = False
 \<and> initialize (constructor iv w) = (Returned False, constructor iv w)
 \<and> initialized (run ops (constructor iv w)) = False
 \<and> initialize (run ops (constructor iv w)) = (Returned False, run ops (constructor iv w))
 \<and> (fst (initialize s) = Returned True \<longrightarrow> initialized s)"
proof -
  have "initialized (run ops (constructor iv w)) = False"
    by (simp add: initialized_run constructor_fields)
  moreover have "fst (initialize s) = Returned True \<longrightarrow> initialized s"
    by (simp add: initialize_def)
  ultimately show ?thesis
    by (simp add: initialize_def constructor_fields)
qed

lemma eager_manager_facts:
  "trace eager_manager = [EvCallback ''browser_screen_share_supported'']"
  "enum_script eager_manager = [Inr [Device ''audioinput'' ''mic'']]"
  "hasMediaDevices eager_manager" "hasWebSocket eager_manager"
  "localStream eager_manager = None"
  by (simp_all add: eager_manager_def constructor_def empty_world_def Let_def
        checkBrowserScreenShareSupported_def callback_def emit_def)

theorem initialize_returns_false_witness:
  "fst (initialize eager_manager) = Returned False
 \<and> trace (snd (initialize eager_manager)) = [EvCallback ''browser_screen_share_supported'']
 \<and> fst (initialize forced_manager) = Returned True
 \<and> trace (snd (initialize forced_manager)) =
       [EvCallback ''browser_screen_share_supported'', EvEnumerateDevices,
        EvCallback ''available_devices'', EvAddDeviceChangeListener]"
proof -
  have "initialize eager_manager = (Returned False, eager_manager)"
    using initialize_returns_false [of "\<lparr>iv_getSender = session_senders,
        iv_userParameters = [P_initialized True]\<rparr>"
        "empty_world\<lparr>enum_script := [Inr [Device ''audioinput'' ''mic'']]\<rparr>" "[]"]
    by (simp add: eager_manager_def)
  moreover have "initialized forced_manager"
    by (simp add: forced_manager_def)
  moreover have "fst (initialize forced_manager) = Returned True
     \<and> trace (snd (initialize forced_manager)) =
       [EvCallback ''browser_screen_share_supported'', EvEnumerateDevices,
        EvCallback ''available_devices'', EvAddDeviceChangeListener]"
    by (simp add: forced_manager_def initialize_def then_do_def getDevices_def
          getDevices_resumed_def navigator_enumerateDevices_def request_enumerateDevices_def
          answer_devices_def checkWebRTCPermissions_def trackDeviceChange_def
          callback_def emit_def Let_def eager_manager_facts)
  ultimately show ?thesis by (simp add: eager_manager_facts)
qed

section \<open>The blank-frame timer: C9\<close>

lemma quiet_trans: "quiet a b \<Longrightarrow> quiet b c \<Longrightarrow> quiet a c"
  by (simp add: quiet_def)

lemma quiet_update2 [simp]:
  "quiet s0 (s\<lparr>gum_script := x1\<rparr>) = quiet s0 s"
  "quiet s0 (s\<lparr>enum_script := x2\<rparr>) = quiet s0 s"
  "quiet s0 (s\<lparr>inputDeviceNotFoundLimit := x3\<rparr>) = quiet s0 s"
  by (simp_all add: quiet_def)

lemma quiet_callback: "quiet s0 s \<Longrightarrow> quiet s0 (callback n s)"
  by (simp add: callback_def quiet_emit)

lemma quiet_gotStream: "quiet s0 s \<Longrightarrow> quiet s0 (gotStream st s)"
  by (simp add: gotStream_def Let_def)

lemma quiet_then_do:
  assumes "quiet s0 (snd r)" and "\<And>x s. quiet s0 s \<Longrightarrow> quiet s0 (snd (f x s))"
  shows "quiet s0 (snd (then_do r f))"
  using assms by (auto simp: then_do_def split: prod.splits outcome.splits)

lemma quiet_answer: "quiet s0 s \<Longrightarrow> quiet s0 (snd (answer r s))"
  by (auto simp: answer_def case_prod_unfold split: media_response.splits
           intro!: quiet_new_stream)

lemma quiet_request_getUserMedia:
  "quiet s0 s \<Longrightarrow> quiet s0 (snd (request_getUserMedia c s))"
  by (auto simp: request_getUserMedia_def Let_def split: list.splits intro!: quiet_intros)

lemma quiet_request_enumerateDevices:
  "quiet s0 s \<Longrightarrow> quiet s0 (snd (request_enumerateDevices s))"
  by (auto simp: request_enumerateDevices_def Let_def split: list.splits intro!: quiet_intros)

lemma quiet_navigator_getUserMedia:
  "quiet s0 s \<Longrightarrow> quiet s0 (snd (navigator_getUserMedia c s))"
  by (auto simp: navigator_getUserMedia_def
           intro!: quiet_then_do quiet_request_getUserMedia quiet_answer)

lemma quiet_getDevices_unawaited: "quiet s0 s \<Longrightarrow> quiet s0 (getDevices_unawaited s)"
  using quiet_request_enumerateDevices [of s0 s]
  by (auto simp: getDevices_unawaited_def case_prod_unfold split: outcome.splits
           intro!: quiet_intros)

lemma quiet_getUserMedia: "quiet s0 s \<Longrightarrow> quiet s0 (snd (getUserMedia c ce s))"
  using quiet_navigator_getUserMedia [of s0 s c]
  by (auto simp: getUserMedia_def getUserMedia_settled_def case_prod_unfold
           split: outcome.splits
           intro!: quiet_intros quiet_getDevices_unawaited)

lemma turnOnLocalCamera_quiet_after_cancel:
  "quiet (cancel_blackFrameTimer s) (snd (turnOnLocalCamera sid s))"
  by (auto simp: turnOnLocalCamera_def Let_def split: option.splits
           intro!: quiet_then_do quiet_intros quiet_getUserMedia
             quiet_updateVideoTrack_unawaited quiet_gotStream)

lemma black_timers_ok:
  "timers_ok s \<Longrightarrow>
   black_timers s = (case blackFrameTimer s of None \<Rightarrow> [] | Some i \<Rightarrow> [(i, 3000, BlackFrame)])"
  by (simp add: timers_ok_def)

lemma arm_blackFrameTimer_unarmed:
  assumes "blackFrameTimer s = None"
  shows "arm_blackFrameTimer s =
      s\<lparr>timers := timers s @ [(int (Suc (next_id s)), 3000, BlackFrame)],
         next_id := Suc (next_id s),
         trace := trace s @ [EvSetInterval (int (Suc (next_id s))) 3000],
         blackFrameTimer := Some (int (Suc (next_id s)))\<rparr>"
  using assms by (simp add: arm_blackFrameTimer_def setInterval_def emit_def Let_def)

lemma arm_blackFrameTimer_armed:
  "blackFrameTimer s = Some i \<Longrightarrow> arm_blackFrameTimer s = s"
  by (simp add: arm_blackFrameTimer_def)

text \<open>A running blank-frame timer survives every call but \<open>turnOnLocalCamera\<close>.\<close>

lemma black_timer_kept:
  assumes ok: "timers_ok s" and ok': "timers_ok s'" and b: "blackFrameTimer s = Some i"
    and kept: "(i, 3000, BlackFrame) \<in> set (timers s')"
  shows "blackFrameTimer s' = Some i \<and> black_timers s' = [(i, 3000, BlackFrame)]"
proof -
  have "(i, 3000, BlackFrame) \<in> set (black_timers s')"
    using kept by (simp add: black_timers_def)
  then show ?thesis
    using black_timers_ok [OF ok'] by (cases "blackFrameTimer s'") auto
qed

lemma black_timer_in_timers:
  assumes "timers_ok s" and "blackFrameTimer s = Some i"
  shows "(i, 3000, BlackFrame) \<in> set (timers s)"
proof -
  have "(i, 3000, BlackFrame) \<in> set (black_timers s)"
    using black_timers_ok [OF assms(1)] assms(2) by simp
  then show ?thesis by (simp add: black_timers_def)
qed

lemma closeStream_timers:
  "timers (closeStream s) =
     (if soundLevelProviderId s \<noteq> - 1
      then filter (\<lambda>t. fst t \<noteq> soundLevelProviderId s) (timers s) else timers s)"
  using quiet_closeStream_tracks [of s]
  by (simp add: closeStream_def cancel_soundLevelProvider_def clearInterval_def emit_def
        quiet_def)

lemma closeStream_keeps_black:
  assumes ok: "timers_ok s" and b: "blackFrameTimer s = Some i"
  shows "(i, 3000, BlackFrame) \<in> set (timers (closeStream s))"
proof (cases "soundLevelProviderId s = - 1")
  case True
  with black_timer_in_timers [OF ok b] show ?thesis by (simp add: closeStream_timers)
next
  case False
  let ?j = "soundLevelProviderId s"
  obtain u where u: "u \<in> set (timers s)" "fst u = ?j" "snd (snd u) = SoundLevel"
    using ok False by (auto simp: timers_ok_def list_ex_iff)
  have d: "distinct (map fst (timers s))" using ok by (simp add: timers_ok_def)
  have m: "(i, 3000, BlackFrame) \<in> set (timers s)" by (rule black_timer_in_timers [OF ok b])
  have "i \<noteq> ?j"
  proof
    assume "i = ?j"
    then have a: "(i, snd u) \<in> set (timers s)" using u by (metis prod.collapse)
    from d a m have "snd u = (3000, BlackFrame)" by (rule timer_id_unique)
    with u(3) show False by simp
  qed
  with m False show ?thesis by (simp add: closeStream_timers)
qed

lemma step_keeps_black:
  assumes ok: "timers_ok s" and b: "blackFrameTimer s = Some i"
    and op: "\<And>sid. op \<noteq> TurnOnLocalCamera sid"
  shows "blackFrameTimer (step op s) = Some i \<and> black_timers (step op s) = [(i, 3000, BlackFrame)]"
proof -
  have "(i, 3000, BlackFrame) \<in> set (timers (step op s))"
  proof (cases "op = CloseStream")
    case True
    with closeStream_keeps_black [OF ok b] show ?thesis by simp
  next
    case False
    then have "keeps_timers s (step op s)"
      using evolves_step [of op s] op by (simp add: evolves_def)
    with black_timer_in_timers [OF ok b] show ?thesis
      by (simp add: keeps_timers_def list_all_iff)
  qed
  with ok timers_ok_step [OF ok, of op] b show ?thesis
    by (intro black_timer_kept)
qed

lemma turnOn_cancels:
  assumes ok: "timers_ok s" and b: "blackFrameTimer s = Some i"
  shows "cancels (snd (turnOnLocalCamera sid s)) = cancels s @ [EvClearInterval i]
       \<and> blackFrameTimer (snd (turnOnLocalCamera sid s)) = None
       \<and> black_timers (snd (turnOnLocalCamera sid s)) = []"
proof -
  let ?c = "cancel_blackFrameTimer s"
  let ?s' = "snd (turnOnLocalCamera sid s)"
  have c: "cancels ?c = cancels s @ [EvClearInterval i]" "blackFrameTimer ?c = None"
    using b by (simp_all add: cancel_blackFrameTimer_def clearInterval_def emit_def cancels_def)
  have q: "quiet ?c ?s'" by (rule turnOnLocalCamera_quiet_after_cancel)
  have e: "evolves ?c ?s'" by (rule turnOnLocalCamera_after_cancel)
  have n: "blackFrameTimer ?s' = None" using q c(2) by (simp add: quiet_def)
  have "timers_ok ?s'" using ok by (rule timers_ok_turnOnLocalCamera)
  from black_timers_ok [OF this] n have "black_timers ?s' = []" by simp
  with n e c(1) show ?thesis by (simp add: evolves_def)
qed

lemma turnOn_unarmed:
  assumes "blackFrameTimer s = None"
  shows "cancels (snd (turnOnLocalCamera sid s)) = cancels s"
  using turnOnLocalCamera_after_cancel [of s sid] assms
  by (simp add: evolves_def cancel_blackFrameTimer_def)

lemma evolves_prefixD:
  "evolves s0 s \<Longrightarrow> \<exists>es. trace s = trace s0 @ es \<and> \<not> list_ex is_cancel es"
proof -
  assume e: "evolves s0 s"
  then obtain es where es: "trace s = trace s0 @ es"
    by (auto simp: evolves_def prefix_def)
  from e have "filter is_cancel (trace s) = filter is_cancel (trace s0)"
    by (simp add: evolves_def cancels_def)
  with es have "filter is_cancel es = []" by simp
  then have "\<not> list_ex is_cancel es" by (simp add: filter_empty_conv list_ex_iff)
  with es show ?thesis by blast
qed

text \<open>With \<open>navigator.mediaDevices\<close>, the request is the first effect of \<open>getUserMedia\<close>.\<close>

lemma getUserMedia_requests_first:
  assumes "hasMediaDevices s"
  shows "evolves (emit (EvGetUserMedia c) s) (snd (getUserMedia c ce s))"
proof -
  have "evolves (emit (EvGetUserMedia c) s) (snd (request_getUserMedia c s))"
    using assms by (auto simp: request_getUserMedia_def Let_def split: list.splits)
  then have "evolves (emit (EvGetUserMedia c) s) (snd (navigator_getUserMedia c s))"
    unfolding navigator_getUserMedia_def by (intro evolves_then_do evolves_answer)
  then show ?thesis
    by (simp add: getUserMedia_def evolves_getUserMedia_settled)
qed

lemma turnOnLocalCamera_requests_after_cancel:
  assumes "hasMediaDevices s"
  shows "evolves (emit (EvGetUserMedia \<lparr>video = video (getMediaConstraints s), audio = None\<rparr>)
                    (cancel_blackFrameTimer s))
                 (snd (turnOnLocalCamera sid s))"
proof -
  have h: "hasMediaDevices (cancel_blackFrameTimer s)"
    using assms by (simp add: cancel_blackFrameTimer_def clearInterval_def emit_def
        split: option.splits)
  show ?thesis
    using getUserMedia_requests_first [OF h]
    by (auto simp: turnOnLocalCamera_def Let_def split: option.splits
          intro!: evolves_then_do evolves_with_stream evolves_gotStream
            evolves_updateVideoTrack_unawaited)
qed

lemma turnOn_order:
  assumes b: "blackFrameTimer s = Some i"
  shows "\<exists>es. trace (snd (turnOnLocalCamera sid s)) = trace s @ EvClearInterval i # es
            \<and> \<not> list_ex is_cancel es
            \<and> (hasMediaDevices s \<longrightarrow>
                 (\<exists>es'. es = EvGetUserMedia \<lparr>video = video (getMediaConstraints s), audio = None\<rparr> # es'))"
proof -
  let ?c = "cancel_blackFrameTimer s"
  let ?s' = "snd (turnOnLocalCamera sid s)"
  let ?g = "EvGetUserMedia \<lparr>video = video (getMediaConstraints s), audio = None\<rparr>"
  have c: "trace ?c = trace s @ [EvClearInterval i]"
    using b by (simp add: cancel_blackFrameTimer_def clearInterval_def emit_def)
  obtain es where es: "trace ?s' = trace ?c @ es" "\<not> list_ex is_cancel es"
    using evolves_prefixD [OF turnOnLocalCamera_after_cancel [of s sid]] by blast
  have "\<exists>es'. es = ?g # es'" if h: "hasMediaDevices s"
  proof -
    obtain es' where "trace ?s' = trace (emit ?g ?c) @ es'"
      using evolves_prefixD [OF turnOnLocalCamera_requests_after_cancel [OF h, of sid]] by blast
    with es(1) show ?thesis by auto
  qed
  with es c show ?thesis by simp
qed

text \<open>
  C9 (as amended).  From a state whose timer bookkeeping is right (every state the
  component reaches from its constructor on a page without timers):
  \<^item> \<open>turnOffLocalCamera\<close> with no blank-frame timer registered starts one, with period
    3000 ms, as the last effect of the call (with a video sender the blank track
    enters the Local Stream in a later turn, when the transport has answered); with
    one registered it starts none;
  \<^item> at most one blank-frame timer runs in any reachable state;
  \<^item> a registered blank-frame timer stays registered and running through every call
    other than \<open>turnOnLocalCamera\<close>, and through every method that runs on after the
    platform has answered it;
  \<^item> \<open>turnOnLocalCamera\<close> cancels it by exactly one \<open>clearInterval\<close>, which is the
    first effect of the call: it precedes the request for the camera (the next effect,
    where the page has \<open>navigator.mediaDevices\<close>) and happens whatever becomes of that
    request; the call makes no \<open>clearInterval\<close> call when no timer is registered.
\<close>

theorem blank_frame_timer:
  "(timers_ok s \<and> blackFrameTimer s = None \<longrightarrow>
      (\<exists>i. blackFrameTimer (turnOffLocalCamera sid s) = Some i
           \<and> black_timers (turnOffLocalCamera sid s) = [(i, 3000, BlackFrame)]
           \<and> last (trace (turnOffLocalCamera sid s)) = EvSetInterval i 3000))
 \<and> (blackFrameTimer s = Some j \<longrightarrow>
      timers (turnOffLocalCamera sid s) = timers s
      \<and> blackFrameTimer (turnOffLocalCamera sid s) = Some j)
 \<and> (timers w = [] \<longrightarrow>
      timers_ok (run ops (constructor iv w))
      \<and> length (black_timers (run ops (constructor iv w))) \<le> 1)
 \<and> (timers_ok s \<and> blackFrameTimer s = Some j \<and> (\<forall>x. op \<noteq> TurnOnLocalCamera x) \<longrightarrow>
      blackFrameTimer (step op s) = Some j
      \<and> black_timers (step op s) = [(j, 3000, BlackFrame)])
 \<and> (timers_ok s \<and> blackFrameTimer s = Some j \<longrightarrow>
      (\<exists>es. trace (snd (turnOnLocalCamera sid s)) = trace s @ EvClearInterval j # es
            \<and> \<not> list_ex is_cancel es
            \<and> (hasMediaDevices s \<longrightarrow>
                  (\<exists>es'. es = EvGetUserMedia
                                 \<lparr>video = video (getMediaConstraints s), audio = None\<rparr> # es')))
      \<and> blackFrameTimer (snd (turnOnLocalCamera sid s)) = None
      \<and> black_timers (snd (turnOnLocalCamera sid s)) = [])
 \<and> (blackFrameTimer s = None \<longrightarrow>
      cancels (snd (turnOnLocalCamera sid s)) = cancels s)"
proof -
  obtain s1 where s1: "quiet s s1" "evolves s s1" "turnOffLocalCamera sid s = arm_blackFrameTimer s1"
    using turnOffLocalCamera_arm [of s sid] by blast
  have off_new: "\<exists>i. blackFrameTimer (turnOffLocalCamera sid s) = Some i
           \<and> black_timers (turnOffLocalCamera sid s) = [(i, 3000, BlackFrame)]
           \<and> last (trace (turnOffLocalCamera sid s)) = EvSetInterval i 3000"
    if ok: "timers_ok s" and n: "blackFrameTimer s = None"
  proof -
    have n1: "blackFrameTimer s1 = None" using s1(1) n by (simp add: quiet_def)
    have "black_timers s = []" using black_timers_ok [OF ok] n by simp
    then have "black_timers s1 = []" using s1(1) by (simp add: quiet_def black_timers_def)
    then show ?thesis
      unfolding s1(3) arm_blackFrameTimer_unarmed [OF n1]
      by (simp add: black_timers_def)
  qed
  have off_old: "timers (turnOffLocalCamera sid s) = timers s
      \<and> blackFrameTimer (turnOffLocalCamera sid s) = Some j" if "blackFrameTimer s = Some j"
  proof -
    have j1: "blackFrameTimer s1 = Some j" using s1(1) that by (simp add: quiet_def)
    have "turnOffLocalCamera sid s = s1"
      unfolding s1(3) using j1 by (rule arm_blackFrameTimer_armed)
    then show ?thesis
      using s1(1) j1 by (simp add: quiet_def)
  qed
  have ever: "timers_ok (run ops (constructor iv w))
      \<and> length (black_timers (run ops (constructor iv w))) \<le> 1" if "timers w = []"
  proof -
    have ok: "timers_ok (run ops (constructor iv w))"
      using that by (intro timers_ok_run timers_ok_constructor)
    show ?thesis
      using ok black_timers_ok [OF ok]
      by (cases "blackFrameTimer (run ops (constructor iv w))") simp_all
  qed
  show ?thesis
    using off_new off_old ever step_keeps_black [of s j op] turnOn_cancels [of s j sid]
      turnOn_unarmed [of s sid] turnOn_order [of s j sid]
    by blast
qed

lemmas camera_defs =
  turnOffLocalCamera_def turnOnLocalCamera_def initializeDummyFrame_def arm_blackFrameTimer_def
  cancel_blackFrameTimer_def setInterval_def clearInterval_def choosenId_def detached_def
  with_stream_def then_do_def updateVideoTrack_def updateLocalVideoStream_def
  updateVideoTrack_unawaited_def updateVideoTrack_resumed_def suspend_def
  updateLocalVideoStream_swap_def updateLocalVideoStream_finish_def getUserMedia_def
  getUserMedia_settled_def navigator_getUserMedia_def request_getUserMedia_def answer_def
  getMediaConstraints_def getVideoTracks_def
  getAudioTracks_def index0_def addTrack_def removeTrack_def stop_def callbackError_def

lemma live_manager_facts:
  "localStream live_manager = Some 0"
  "streams live_manager 0 = [(Audio, 1), (Video, 2)]"
  "next_id live_manager = 3"
  "timers live_manager = []"
  "blackFrameTimer live_manager = None"
  "soundLevelProviderId live_manager = - 1"
  "trace live_manager = [EvCallback ''browser_screen_share_supported'']"
  "getSender live_manager = session_senders"
  "publishStreamId live_manager = None"
  "desktopStream live_manager = None"
  "localVideo live_manager = False"
  "mediaConstraints live_manager = None"
  "audioMode live_manager = ''system+microphone''"
  "hasMediaDevices live_manager"
  "cameraEnabled live_manager"
  "pending live_manager = []"
  "replaceTrack_error live_manager = (\<lambda>_ _. None)"
  by (simp_all add: example_defs Let_def upt_rec)

lemma dark_manager_facts:
  "blackFrameTimer dark_manager = Some 6"
  "timers dark_manager = [(6, 3000, BlackFrame)]"
  "soundLevelProviderId dark_manager = - 1"
  "next_id dark_manager = 6"
  "cameraEnabled dark_manager = False"
  "localStream dark_manager = Some 0"
  "streams dark_manager 0 = [(Audio, 1), (Video, 4)]"
  "trace dark_manager =
     [EvCallback ''browser_screen_share_supported'', EvFillRect 0 0 320 240,
      EvStop (Video, 2), EvSetInterval 6 3000]"
  "hasMediaDevices dark_manager"
  "mediaConstraints dark_manager = None"
  "audioMode dark_manager = ''system+microphone''"
  by (simp_all add: dark_manager_def camera_defs new_stream_def fresh_tracks_def emit_def
        Let_def live_manager_facts session_senders_def upt_rec)

lemma relit_manager_facts:
  "fst (turnOnLocalCamera None dark_manager) = Threw (JsError ''NotReadableError'' '''')"
  "cameraEnabled relit_manager = False"
  "timers relit_manager = []"
  "blackFrameTimer relit_manager = None"
  "streams relit_manager 0 = [(Audio, 1), (Video, 4)]"
  "hasMediaDevices relit_manager"
  by (simp_all add: relit_manager_def dark_manager_def camera_defs new_stream_def
        fresh_tracks_def emit_def Let_def live_manager_facts session_senders_def upt_rec)

text \<open>
  C9 as stated fails where it says that the task stays live for as long as the camera
  is disabled: \<open>turnOnLocalCamera\<close> cancels the timer before it asks the platform for
  the camera, so when that request is refused the call fails, the camera stays
  disabled (the blank track is still the video track of the Local Stream) and no
  blank-frame timer runs.
\<close>

theorem blank_frame_timer_counterexample:
  "fst (turnOnLocalCamera None dark_manager) = Threw (JsError ''NotReadableError'' '''')
 \<and> cameraEnabled dark_manager = False \<and> black_timers dark_manager = [(6, 3000, BlackFrame)]
 \<and> cameraEnabled relit_manager = False \<and> black_timers relit_manager = []
 \<and> getVideoTracks relit_manager 0 = [(Video, 4)]
 \<and> replacementStream dark_manager = Some 3 \<and> getVideoTracks dark_manager 3 = [(Video, 4)]"
proof -
  have "replacementStream dark_manager = Some 3" "streams dark_manager 3 = [(Video, 4)]"
    by (simp_all add: dark_manager_def camera_defs new_stream_def fresh_tracks_def emit_def
        Let_def live_manager_facts session_senders_def upt_rec)
  then show ?thesis
    by (simp add: relit_manager_facts dark_manager_facts black_timers_def getVideoTracks_def)
qed

text \<open>
  The live manager with the camera turned off on the transport session \<open>''stream1''\<close>:
  the replacement was asked of the video sender, the timer was armed, and the blank
  track enters the Local Stream when the transport has answered.
\<close>

lemma dimmed_manager_facts:
  "trace dimmed_manager =
     [EvCallback ''browser_screen_share_supported'', EvFillRect 0 0 320 240,
      EvReplaceTrack 8 (Some (Video, 4)), EvSetInterval 6 3000]"
  "pending dimmed_manager = [Resume_updateVideoTrack 3 None True None]"
  "streams dimmed_manager 0 = [(Audio, 1), (Video, 2)]"
  "blackFrameTimer dimmed_manager = Some 6"
  "timers dimmed_manager = [(6, 3000, BlackFrame)]"
  "soundLevelProviderId dimmed_manager = - 1"
  "next_id dimmed_manager = 6"
  "streams (settle 0 dimmed_manager) 0 = [(Audio, 1), (Video, 4)]"
  "trace (settle 0 dimmed_manager) = trace dimmed_manager @ [EvStop (Video, 2)]"
  "pending (settle 0 dimmed_manager) = []"
  by (simp_all add: dimmed_manager_def settle_def camera_defs new_stream_def fresh_tracks_def
        emit_def Let_def live_manager_facts session_senders_def upt_rec)

theorem blank_frame_timer_witness:
  "blackFrameTimer dark_manager = Some 6
 \<and> black_timers dark_manager = [(6, 3000, BlackFrame)]
 \<and> last (trace dark_manager) = EvSetInterval 6 3000
 \<and> timers (turnOffLocalCamera None dark_manager) = [(6, 3000, BlackFrame)]
 \<and> length (black_timers (run [TurnOffLocalCamera None, TurnOffLocalCamera None] fresh_manager)) \<le> 1
 \<and> black_timers (step CloseStream dark_manager) = [(6, 3000, BlackFrame)]
 \<and> (\<exists>es'. trace relit_manager =
         trace dark_manager @
         EvClearInterval 6 # EvGetUserMedia \<lparr>video = None, audio = None\<rparr> # es')
 \<and> black_timers relit_manager = []
 \<and> cancels (snd (turnOnLocalCamera None relit_manager)) = [EvClearInterval 6]
 \<and> last (trace dimmed_manager) = EvSetInterval 6 3000
 \<and> black_timers (step (Settle 0) dimmed_manager) = [(6, 3000, BlackFrame)]
 \<and> trace (step (Settle 0) dimmed_manager) = trace dimmed_manager @ [EvStop (Video, 2)]"
proof -
  let ?live = "live_manager\<lparr>gum_script := [MediaError (JsError ''NotReadableError'' '''')]\<rparr>"
  let ?iv = "\<lparr>iv_getSender = session_senders, iv_userParameters = []\<rparr>"
  have ok_live: "timers_ok ?live"
    by (simp add: timers_ok_def black_timers_def live_manager_facts)
  have ok_dark: "timers_ok dark_manager"
    by (simp add: timers_ok_def black_timers_def dark_manager_facts)
  have ok_dim: "timers_ok dimmed_manager"
    by (simp add: timers_ok_def black_timers_def dimmed_manager_facts)
  have c0: "cancels dark_manager = []"
    by (simp add: cancels_def dark_manager_facts)
  have w0: "timers empty_world = []" by (simp add: empty_world_def)
  have g: "getMediaConstraints dark_manager = \<lparr>video = None, audio = None\<rparr>"
    by (simp add: getMediaConstraints_def dark_manager_facts)
  note off = blank_frame_timer [where s = "?live" and j = 6 and sid = None
      and w = empty_world and ops = "[]" and op = CloseStream and iv = ?iv]
  note dark = blank_frame_timer [where s = "dark_manager" and j = 6 and sid = None
      and w = empty_world and ops = "[TurnOffLocalCamera None, TurnOffLocalCamera None]"
      and op = CloseStream and iv = ?iv]
  note relit = blank_frame_timer [where s = "relit_manager" and j = 6 and sid = None
      and w = empty_world and ops = "[]" and op = CloseStream and iv = ?iv]
  note dim = blank_frame_timer [where s = "dimmed_manager" and j = 6 and sid = None
      and w = empty_world and ops = "[]" and op = "Settle 0" and iv = ?iv]
  have a: "last (trace dark_manager) = EvSetInterval 6 3000"
    using off ok_live by (auto simp: live_manager_facts dark_manager_def [symmetric]
        dark_manager_facts)
  have b: "timers (turnOffLocalCamera None dark_manager) = [(6, 3000, BlackFrame)]"
    using dark by (simp add: dark_manager_facts)
  have c: "length (black_timers (run [TurnOffLocalCamera None, TurnOffLocalCamera None]
      fresh_manager)) \<le> 1"
    using dark w0 by (simp add: fresh_manager_def)
  have d: "black_timers (step CloseStream dark_manager) = [(6, 3000, BlackFrame)]"
    using dark ok_dark by (simp add: dark_manager_facts)
  have e: "\<exists>es'. trace relit_manager =
         trace dark_manager @
         EvClearInterval 6 # EvGetUserMedia \<lparr>video = None, audio = None\<rparr> # es'"
    "black_timers relit_manager = []"
    using dark ok_dark by (auto simp: dark_manager_facts relit_manager_def g)
  have c1: "cancels relit_manager = [EvClearInterval 6]"
    by (simp add: cancels_def relit_manager_def dark_manager_def camera_defs new_stream_def
        fresh_tracks_def emit_def Let_def live_manager_facts session_senders_def upt_rec)
  have f: "cancels (snd (turnOnLocalCamera None relit_manager)) = [EvClearInterval 6]"
    using relit c1 by (simp add: relit_manager_facts)
  have h: "black_timers (step (Settle 0) dimmed_manager) = [(6, 3000, BlackFrame)]"
    using dim ok_dim by (simp add: dimmed_manager_facts)
  show ?thesis
    using a b c d e f h by (simp add: dark_manager_facts dimmed_manager_facts black_timers_def)
qed

section \<open>The compositor's arithmetic: C8\<close>

text \<open>
  C8.  With \<open>camera_margin\<close> 15, \<open>camera_location\<close> \<open>top\<close>, \<open>camera_percent\<close> 15 and a
  screen source of 1280 by 720, a tick of the draw timer sizes the canvas to 1280 by
  720, draws the screen over it, and draws the camera 192 wide at x = 1073, y = 15
  (in binary64 arithmetic: \<open>15 / 100\<close> is rounded, and the product with 1280 rounds to
  192 exactly).  This is what every tick of a running compositor timer does.
\<close>

theorem compositor_overlay_geometry:
  assumes "camera_margin s = Finite 15" and "camera_location s = ''top''"
    and "camera_percent s = Finite 15" and "videoSize s screenVideo = (1280, 720)"
  shows "compositor_draw screenVideo cameraVideo s =
           emit (EvDrawImage cameraVideo (Finite 1073) (Finite 15) (Finite 192)
                   (jmul (jdiv (js_nat (snd (videoSize s cameraVideo)))
                               (js_nat (fst (videoSize s cameraVideo)))) (Finite 192)))
             (emit (EvDrawImage screenVideo (Finite 0) (Finite 0) (Finite 1280) (Finite 720))
               (emit (EvCanvasSize 1280 720) s))
       \<and> (\<forall>i ms rest.
             filter (\<lambda>t. fst t = i) (timers s)
               = (i, ms, CompositorDraw screenVideo cameraVideo) # rest \<longrightarrow>
             tick i s = compositor_draw screenVideo cameraVideo s)"
proof -
  have n: "js_nat 1280 = Finite 1280" "js_nat 720 = Finite 720"
    by (simp_all add: js_nat_def)
  have w: "jmul (js_nat 1280) (jdiv (camera_percent s) (Finite 100)) = Finite 192"
    using assms(3) overlay_width by (simp add: n)
  have x: "jsub (jsub (js_nat 1280) (Finite 192)) (camera_margin s) = Finite 1073"
    using assms(1) overlay_x by (simp add: n)
  have "compositor_draw screenVideo cameraVideo s =
           emit (EvDrawImage cameraVideo (Finite 1073) (Finite 15) (Finite 192)
                   (jmul (jdiv (js_nat (snd (videoSize s cameraVideo)))
                               (js_nat (fst (videoSize s cameraVideo)))) (Finite 192)))
             (emit (EvDrawImage screenVideo (Finite 0) (Finite 0) (Finite 1280) (Finite 720))
               (emit (EvCanvasSize 1280 720) s))"
    unfolding compositor_draw_def Let_def assms(4) fst_conv snd_conv w x
    using assms(1,2) by (simp add: n)
  moreover have "tick i s = compositor_draw screenVideo cameraVideo s"
    if "filter (\<lambda>t. fst t = i) (timers s) = (i, ms, CompositorDraw screenVideo cameraVideo) # rest"
    for i ms rest
    using that by (simp add: tick_def run_task_def)
  ultimately show ?thesis by blast
qed

lemmas switch_defs =
  setDesktopWithCameraSource_def setDesktopWithCameraSource_resumed_def
  switchVideoCameraCapture_def setVideoCameraSource_unawaited_def
  setVideoCameraSource_resumed_def adjust_video_constraint_def
  navigator_enumerateDevices_def request_enumerateDevices_def answer_devices_def gotStream_def

lemma sharing_manager_facts:
  "localStream sharing_manager = Some 0"
  "streams sharing_manager 0 = [(Audio, 1), (Video, 2)]"
  "streams sharing_manager 3 = [(Video, 4)]"
  "next_id sharing_manager = 5"
  "timers sharing_manager = []"
  "trace sharing_manager = [EvCallback ''browser_screen_share_supported'']"
  "getSender sharing_manager = session_senders"
  "desktopStream sharing_manager = None"
  "localVideo sharing_manager = False"
  "hasMediaDevices sharing_manager"
  "cameraEnabled sharing_manager"
  "gum_script sharing_manager = [MediaStream [Video], MediaStream [Video]]"
  "enum_script sharing_manager = [Inr [Device ''videoinput'' ''cam1'']]"
  "secondaryAudioTrackGainNode sharing_manager = None"
  "audioMode sharing_manager = ''system+microphone''"
  "mediaConstraints sharing_manager =
     Some \<lparr>video = Some (CBool True), audio = Some (CBool True)\<rparr>"
  "blackFrameTimer sharing_manager = None"
  "soundLevelProviderId sharing_manager = - 1"
  "camera_margin sharing_manager = Finite 15"
  "camera_location sharing_manager = ''top''"
  "camera_percent sharing_manager = Finite 15"
  "videoSize sharing_manager = (\<lambda>st. if st = 3 then (1280, 720) else (640, 480))"
  "publishStreamId sharing_manager = None"
  "pending sharing_manager = []"
  by (simp_all add: sharing_manager_def example_defs Let_def upt_rec)

lemma composing_manager_facts:
  "timers composing_manager = [(10, 66, CompositorDraw 3 5)]"
  "camera_margin composing_manager = Finite 15"
  "camera_location composing_manager = ''top''"
  "camera_percent composing_manager = Finite 15"
  "videoSize composing_manager 3 = (1280, 720)"
  "videoSize composing_manager 5 = (640, 480)"
  "localStream composing_manager = Some 0"
  "streams composing_manager 0 = [(Audio, 1), (Video, 8)]"
  "desktopStream composing_manager = Some 3"
  "next_id composing_manager = 10"
  "blackFrameTimer composing_manager = None"
  "soundLevelProviderId composing_manager = - 1"
  "trace composing_manager =
     [EvCallback ''browser_screen_share_supported'',
      EvGetUserMedia \<lparr>video = Some (CBool True), audio = Some (CBool False)\<rparr>,
      EvStop (Video, 2), EvSetInterval 10 66]"
  by (simp_all add: composing_manager_def switch_defs camera_defs new_stream_def
        fresh_tracks_def emit_def Let_def sharing_manager_facts session_senders_def upt_rec)

theorem compositor_overlay_geometry_witness:
  "camera_margin composing_manager = Finite 15 \<and> camera_location composing_manager = ''top''
 \<and> camera_percent composing_manager = Finite 15
 \<and> videoSize composing_manager 3 = (1280, 720)
 \<and> trace (tick 10 composing_manager) =
       trace composing_manager @
       [EvCanvasSize 1280 720,
        EvDrawImage 3 (Finite 0) (Finite 0) (Finite 1280) (Finite 720),
        EvDrawImage 5 (Finite 1073) (Finite 15) (Finite 192) (Finite 144)]"
proof -
  have t: "filter (\<lambda>t. fst t = 10) (timers composing_manager)
      = (10, 66, CompositorDraw 3 5) # []"
    by (simp add: composing_manager_facts)
  have "tick 10 composing_manager = compositor_draw 3 5 composing_manager"
    using compositor_overlay_geometry [of composing_manager 3 5] t
    by (simp add: composing_manager_facts)
  then show ?thesis
    using compositor_overlay_geometry [of composing_manager 3 5] overlay_height
    by (simp add: composing_manager_facts emit_def js_nat_def)
qed

section \<open>Timers and teardown: C3\<close>

lemma filter_unique_key:
  "distinct (map fst xs) \<Longrightarrow> (i, v) \<in> set xs \<Longrightarrow> filter (\<lambda>t. fst t = i) xs = [(i, v)]"
proof (induction xs)
  case Nil
  then show ?case by simp
next
  case (Cons x xs)
  show ?case
  proof (cases "fst x = i")
    case True
    have "\<forall>t \<in> set xs. fst t \<noteq> i" using Cons.prems(1) True by (auto simp: image_iff)
    then have "filter (\<lambda>t. fst t = i) xs = []" by (simp add: filter_empty_conv)
    moreover have "x = (i, v)"
      using Cons.prems True \<open>\<forall>t \<in> set xs. fst t \<noteq> i\<close> by force
    ultimately show ?thesis by simp
  next
    case False
    then show ?thesis using Cons by auto
  qed
qed

lemma tick_running:
  assumes "timers_ok s" and "(i, ms, t) \<in> set (timers s)"
  shows "tick i s = run_task t s"
proof -
  have "distinct (map fst (timers s))" using assms(1) by (simp add: timers_ok_def)
  from filter_unique_key [OF this assms(2)] show ?thesis by (simp add: tick_def)
qed

lemma closeStream_keeps:
  assumes ok: "timers_ok s" and m: "(i, ms, t) \<in> set (timers s)" and t: "t \<noteq> SoundLevel"
  shows "(i, ms, t) \<in> set (timers (closeStream s))"
proof (cases "soundLevelProviderId s = - 1")
  case True
  with m show ?thesis by (simp add: closeStream_timers)
next
  case False
  let ?j = "soundLevelProviderId s"
  obtain u where u: "u \<in> set (timers s)" "fst u = ?j" "snd (snd u) = SoundLevel"
    using ok False by (auto simp: timers_ok_def list_ex_iff)
  have d: "distinct (map fst (timers s))" using ok by (simp add: timers_ok_def)
  have "i \<noteq> ?j"
  proof
    assume "i = ?j"
    then have a: "(i, snd u) \<in> set (timers s)" using u by (metis prod.collapse)
    from d a m have "snd u = (ms, t)" by (rule timer_id_unique)
    with u(3) t show False by simp
  qed
  with m False show ?thesis by (simp add: closeStream_timers)
qed

text \<open>
  C3 (as amended).  \<open>closeStream\<close> cancels the sound-level timer that
  \<open>soundLevelProviderId\<close> names, if any, and no other timer.  Switching back to camera
  capture (by device or by facing mode) cancels no timer at all, neither in the call
  nor when a method that a call has suspended runs on.  So a running draw timer of the
  compositor is still running after each of them, and its next tick draws.
\<close>

theorem timers_after_teardown:
  "timers (closeStream s) =
     (if soundLevelProviderId s \<noteq> - 1
      then filter (\<lambda>t. fst t \<noteq> soundLevelProviderId s) (timers s) else timers s)
 \<and> keeps_timers s (snd (switchVideoCameraCapture sid d s))
 \<and> keeps_timers s (snd (switchVideoCameraFacingMode sid f s))
 \<and> keeps_timers s (settle n s)
 \<and> (timers_ok s \<and> (i, ms, CompositorDraw a b) \<in> set (timers s) \<longrightarrow>
      (i, ms, CompositorDraw a b) \<in> set (timers (closeStream s))
      \<and> tick i (closeStream s) = compositor_draw a b (closeStream s)
      \<and> (i, ms, CompositorDraw a b) \<in> set (timers (snd (switchVideoCameraCapture sid d s)))
      \<and> tick i (snd (switchVideoCameraCapture sid d s))
          = compositor_draw a b (snd (switchVideoCameraCapture sid d s))
      \<and> (i, ms, CompositorDraw a b) \<in> set (timers (settle n s))
      \<and> tick i (settle n s) = compositor_draw a b (settle n s))"
proof -
  let ?sw = "snd (switchVideoCameraCapture sid d s)"
  let ?st = "settle n s"
  have e: "evolves s ?sw" by (simp add: evolves_switchVideoCameraCapture)
  have k1: "keeps_timers s ?sw" using e by (simp add: evolves_def)
  have e3: "evolves s ?st" by (simp add: evolves_settle)
  have k3: "keeps_timers s ?st" using e3 by (simp add: evolves_def)
  have k2: "keeps_timers s (snd (switchVideoCameraFacingMode sid f s))"
    using evolves_switchVideoCameraFacingMode [OF evolves_refl, of s sid f]
    by (simp add: evolves_def)
  have run: "(i, ms, CompositorDraw a b) \<in> set (timers (closeStream s))
      \<and> tick i (closeStream s) = compositor_draw a b (closeStream s)
      \<and> (i, ms, CompositorDraw a b) \<in> set (timers ?sw)
      \<and> tick i ?sw = compositor_draw a b ?sw
      \<and> (i, ms, CompositorDraw a b) \<in> set (timers ?st)
      \<and> tick i ?st = compositor_draw a b ?st"
    if ok: "timers_ok s" and m: "(i, ms, CompositorDraw a b) \<in> set (timers s)"
  proof -
    have c: "(i, ms, CompositorDraw a b) \<in> set (timers (closeStream s))"
      using ok m by (rule closeStream_keeps) simp
    have "tick i (closeStream s) = run_task (CompositorDraw a b) (closeStream s)"
      using timers_ok_closeStream [OF ok] c by (rule tick_running)
    moreover have w: "(i, ms, CompositorDraw a b) \<in> set (timers ?sw)"
      using k1 m by (simp add: keeps_timers_def list_all_iff)
    moreover have "timers_ok ?sw" using e ok by (simp add: evolves_def)
    from this w have "tick i ?sw = run_task (CompositorDraw a b) ?sw" by (rule tick_running)
    moreover have w3: "(i, ms, CompositorDraw a b) \<in> set (timers ?st)"
      using k3 m by (simp add: keeps_timers_def list_all_iff)
    moreover have "timers_ok ?st" using e3 ok by (simp add: evolves_def)
    from this w3 have "tick i ?st = run_task (CompositorDraw a b) ?st" by (rule tick_running)
    ultimately show ?thesis using c by (simp add: run_task_def)
  qed
  show ?thesis using closeStream_timers [of s] k1 k2 k3 run by blast
qed

lemma composing_manager_more:
  "hasMediaDevices composing_manager"
  "enum_script composing_manager = [Inr [Device ''videoinput'' ''cam1'']]"
  "gum_script composing_manager = [MediaStream [Video]]"
  "mediaConstraints composing_manager =
     Some \<lparr>video = Some (CBool True), audio = Some (CBool True)\<rparr>"
  "audioMode composing_manager = ''system+microphone''"
  "secondaryAudioTrackGainNode composing_manager = None"
  "cameraEnabled composing_manager"
  "getSender composing_manager = session_senders"
  "streams composing_manager 3 = [(Video, 4)]"
  "localVideo composing_manager = False"
  "publishMode composing_manager = ''screen+camera''"
  "pending composing_manager = []"
  by (simp_all add: composing_manager_def switch_defs camera_defs new_stream_def
        fresh_tracks_def emit_def Let_def sharing_manager_facts session_senders_def upt_rec
        sharing_manager_def [THEN arg_cong [where f = publishMode]])

lemma camera_again_manager_facts:
  "publishMode camera_again_manager = ''camera''"
  "timers camera_again_manager = [(10, 66, CompositorDraw 3 5)]"
  "streams camera_again_manager 0 = [(Audio, 1), (Video, 11)]"
  "ended camera_again_manager (Video, 4)"
  "camera_margin camera_again_manager = Finite 15"
  "camera_location camera_again_manager = ''top''"
  "camera_percent camera_again_manager = Finite 15"
  "videoSize camera_again_manager 3 = (1280, 720)"
  "videoSize camera_again_manager 5 = (640, 480)"
  "trace camera_again_manager =
     trace composing_manager @
     [EvStop (Video, 8), EvEnumerateDevices,
      EvGetUserMedia \<lparr>video = Some (CBool True), audio = None\<rparr>,
      EvStop (Video, 4), EvStop (Video, 8)]"
proof -
  have switched: "snd (switchVideoCameraCapture None None composing_manager) =
      composing_manager
        \<lparr>ended := (ended composing_manager)((Video, 8) := True),
         publishMode := ''camera'', enum_script := [],
         trace := trace composing_manager @
           [EvStop (Video, 8), EvEnumerateDevices,
            EvGetUserMedia \<lparr>video = Some (CBool True), audio = None\<rparr>],
         gum_script := [],
         pending := [Resume_setVideoCameraSource None None True (MediaStream [Video])]\<rparr>"
    by (simp add: switch_defs camera_defs new_stream_def
        fresh_tracks_def emit_def Let_def composing_manager_facts composing_manager_more
        session_senders_def upt_rec)
  have "camera_again_manager =
      settle 0 (snd (switchVideoCameraCapture None None composing_manager))"
    by (simp add: camera_again_manager_def run_def)
  note again = this [unfolded switched]
  show "publishMode camera_again_manager = ''camera''"
    "timers camera_again_manager = [(10, 66, CompositorDraw 3 5)]"
    "streams camera_again_manager 0 = [(Audio, 1), (Video, 11)]"
    "ended camera_again_manager (Video, 4)"
    "camera_margin camera_again_manager = Finite 15"
    "camera_location camera_again_manager = ''top''"
    "camera_percent camera_again_manager = Finite 15"
    "videoSize camera_again_manager 3 = (1280, 720)"
    "videoSize camera_again_manager 5 = (640, 480)"
    "trace camera_again_manager =
       trace composing_manager @
       [EvStop (Video, 8), EvEnumerateDevices,
        EvGetUserMedia \<lparr>video = Some (CBool True), audio = None\<rparr>,
        EvStop (Video, 4), EvStop (Video, 8)]"
    unfolding again settle_def
    by (simp_all add: switch_defs camera_defs new_stream_def
        fresh_tracks_def emit_def Let_def composing_manager_facts composing_manager_more
        session_senders_def upt_rec)
qed

text \<open>
  C3 as stated fails: the blank-frame timer of the dark manager and the draw timer of
  the composing manager are still running after \<open>closeStream\<close>, and after the switch from
  screen with camera back to camera the draw timer is still running and its next tick
  draws on the canvas.
\<close>

theorem timers_after_teardown_counterexample:
  "timers (closeStream dark_manager) = [(6, 3000, BlackFrame)]
 \<and> timers (closeStream composing_manager) = [(10, 66, CompositorDraw 3 5)]
 \<and> publishMode composing_manager = ''screen+camera''
 \<and> publishMode camera_again_manager = ''camera''
 \<and> timers camera_again_manager = [(10, 66, CompositorDraw 3 5)]
 \<and> trace (tick 10 camera_again_manager) =
       trace camera_again_manager @
       [EvCanvasSize 1280 720,
        EvDrawImage 3 (Finite 0) (Finite 0) (Finite 1280) (Finite 720),
        EvDrawImage 5 (Finite 1073) (Finite 15) (Finite 192) (Finite 144)]"
proof -
  note pm = composing_manager_more(11)
  have n: "js_nat 1280 = Finite 1280" "js_nat 720 = Finite 720"
    by (simp_all add: js_nat_def)
  have "trace (tick 10 camera_again_manager) =
       trace camera_again_manager @
       [EvCanvasSize 1280 720,
        EvDrawImage 3 (Finite 0) (Finite 0) (Finite 1280) (Finite 720),
        EvDrawImage 5 (Finite 1073) (Finite 15) (Finite 192) (Finite 144)]"
    unfolding tick_def run_task_def compositor_draw_def Let_def
    by (simp add: camera_again_manager_facts(1-9) emit_def overlay_width overlay_x
        overlay_height js_nat_def)
  then show ?thesis
    by (simp add: closeStream_timers dark_manager_facts composing_manager_facts
        camera_again_manager_facts(1-9) pm)
qed

theorem timers_after_teardown_witness:
  "timers_ok composing_manager
 \<and> (10, 66, CompositorDraw 3 5) \<in> set (timers composing_manager)
 \<and> timers (closeStream composing_manager) = [(10, 66, CompositorDraw 3 5)]
 \<and> tick 10 (closeStream composing_manager) = compositor_draw 3 5 (closeStream composing_manager)
 \<and> tick 10 camera_again_manager = compositor_draw 3 5 camera_again_manager
 \<and> keeps_timers composing_manager camera_again_manager"
proof -
  let ?sw = "snd (switchVideoCameraCapture None None composing_manager)"
  have ok: "timers_ok composing_manager"
    by (simp add: timers_ok_def black_timers_def composing_manager_facts)
  have m: "(10, 66, CompositorDraw 3 5) \<in> set (timers composing_manager)"
    by (simp add: composing_manager_facts)
  have again: "camera_again_manager = settle 0 ?sw"
    by (simp add: camera_again_manager_def run_def)
  note call = timers_after_teardown [where s = composing_manager and sid = None and d = None
      and n = 0 and i = 10 and ms = 66 and a = 3 and b = 5]
  have ok': "timers_ok ?sw"
    using evolves_switchVideoCameraCapture [OF evolves_refl, of composing_manager None None] ok
    by (simp add: evolves_def)
  have m': "(10, 66, CompositorDraw 3 5) \<in> set (timers ?sw)"
    using call ok m by simp
  note later = timers_after_teardown [where s = ?sw and sid = None and d = None
      and n = 0 and i = 10 and ms = 66 and a = 3 and b = 5]
  have k: "keeps_timers composing_manager camera_again_manager"
    using call later unfolding again keeps_timers_def list_all_iff by blast
  have t: "tick 10 camera_again_manager = compositor_draw 3 5 camera_again_manager"
    using later ok' m' unfolding again by blast
  show ?thesis
    using call ok m k t by (simp add: composing_manager_facts)
qed

section \<open>Gain of new branches: C5\<close>

lemma fold_addTrack_frame:
  "gain_value (fold (addTrack st) ts s) = gain_value s
 \<and> primaryAudioTrackGainNode (fold (addTrack st) ts s) = primaryAudioTrackGainNode s
 \<and> secondaryAudioTrackGainNode (fold (addTrack st) ts s) = secondaryAudioTrackGainNode s
 \<and> next_id (fold (addTrack st) ts s) = next_id s
 \<and> currentVolume (fold (addTrack st) ts s) = currentVolume s
 \<and> (\<forall>x. x \<noteq> st \<longrightarrow> streams (fold (addTrack st) ts s) x = streams s x)"
  by (induction ts arbitrary: s) (simp_all add: addTrack_def)

lemma stop_opt_frame:
  "gain_value (stop_opt t s) = gain_value s
 \<and> primaryAudioTrackGainNode (stop_opt t s) = primaryAudioTrackGainNode s"
  by (simp add: stop_opt_def stop_def emit_def split: option.splits)

lemma setGainNodeStream_builds:
  assumes "truthy (audio (getMediaConstraints s))" and "getAudioTracks s st \<noteq> []"
  shows "fst (setGainNodeStream (Some st) s) = Returned (Some (next_id s))
       \<and> primaryAudioTrackGainNode (snd (setGainNodeStream (Some st) s)) = Some (next_id s + 2)
       \<and> gain_value (snd (setGainNodeStream (Some st) s)) (next_id s + 2)
           = (case currentVolume s of None \<Rightarrow> Finite 1 | Some v \<Rightarrow> v)"
  using assms
  by (simp add: setGainNodeStream_def with_stream_def Let_def new_stream_def createGain_def
        set_gain_def fold_addTrack_frame stop_opt_frame split: option.splits)

lemma setGainNodeStream_no_branch:
  "\<not> truthy (audio (getMediaConstraints s)) \<Longrightarrow> setGainNodeStream st s = (Returned st, s)"
  by (simp add: setGainNodeStream_def)

lemma setVolumeLevel_frame:
  "currentVolume (setVolumeLevel v s) = Some v
 \<and> getMediaConstraints (setVolumeLevel v s) = getMediaConstraints s
 \<and> streams (setVolumeLevel v s) = streams s
 \<and> next_id (setVolumeLevel v s) = next_id s"
  by (simp add: setVolumeLevel_def set_gain_def getMediaConstraints_def Let_def
        split: option.splits)

lemma new_stream_frame:
  "fst (new_stream ks s) = next_id s"
  "next_id (snd (new_stream ks s)) = Suc (next_id s) + length ks"
  "gain_value (snd (new_stream ks s)) = gain_value s"
  "primaryAudioTrackGainNode (snd (new_stream ks s)) = primaryAudioTrackGainNode s"
  "secondaryAudioTrackGainNode (snd (new_stream ks s)) = secondaryAudioTrackGainNode s"
  "x \<noteq> next_id s \<Longrightarrow> streams (snd (new_stream ks s)) x = streams s x"
  by (simp_all add: new_stream_def Let_def)

lemma build_primary_branch_frame:
  "primaryAudioTrackGainNode (build_primary_branch s) = Some (next_id s)"
  "gain_value (build_primary_branch s) = (gain_value s)(next_id s := Finite 1)"
  "secondaryAudioTrackGainNode (build_primary_branch s) = secondaryAudioTrackGainNode s"
  "next_id (build_primary_branch s) = Suc (next_id s)"
  "streams (build_primary_branch s) = streams s"
  by (simp_all add: build_primary_branch_def createGain_def set_gain_def)

lemma build_secondary_branch_frame:
  "secondaryAudioTrackGainNode (build_secondary_branch s) = Some (next_id s)"
  "gain_value (build_secondary_branch s) = (gain_value s)(next_id s := Finite 1)"
  "primaryAudioTrackGainNode (build_secondary_branch s) = primaryAudioTrackGainNode s"
  "next_id (build_secondary_branch s) = Suc (next_id s)"
  "streams (build_secondary_branch s) = streams s"
  by (simp_all add: build_secondary_branch_def createGain_def set_gain_def)

lemma getAudioTracks_cong: "streams s' st = streams s st \<Longrightarrow> getAudioTracks s' st = getAudioTracks s st"
  by (simp add: getAudioTracks_def)

lemma mixAudioStreams_builds:
  assumes a: "a < next_id s" and b: "b < next_id s"
  shows "(getAudioTracks s a \<noteq> [] \<longrightarrow>
            primaryAudioTrackGainNode (snd (mixAudioStreams (Some a) (Some b) s))
              = Some (next_id s + 3)
          \<and> gain_value (snd (mixAudioStreams (Some a) (Some b) s)) (next_id s + 3) = Finite 1)
       \<and> (getAudioTracks s b \<noteq> [] \<longrightarrow>
            (\<exists>g. secondaryAudioTrackGainNode (snd (mixAudioStreams (Some a) (Some b) s)) = Some g
                 \<and> next_id s + 3 \<le> g
                 \<and> gain_value (snd (mixAudioStreams (Some a) (Some b) s)) g = Finite 1))"
proof -
  let ?n = "next_id s"
  define s1 where "s1 = snd (new_stream [] s)"
  define s2 where "s2 = fold (addTrack ?n) (getVideoTracks s1 a) s1"
  define s3 where "s3 = snd (new_stream [Audio] s2)"
  define s4 where "s4 = (if getAudioTracks s3 a \<noteq> [] then build_primary_branch s3 else s3)"
  define s5 where "s5 = (if getAudioTracks s4 b \<noteq> [] then build_secondary_branch s4 else s4)"
  define s6 where "s6 = fold (addTrack ?n) (getAudioTracks s5 (Suc ?n)) s5"
  have res: "snd (mixAudioStreams (Some a) (Some b) s) = s6"
    unfolding mixAudioStreams_def with_stream_def Let_def case_prod_unfold option.case
      s6_def s5_def s4_def s3_def s2_def s1_def
    by (simp add: new_stream_frame fold_addTrack_frame)
  have n1: "next_id s1 = Suc ?n" by (simp add: s1_def new_stream_frame)
  have n2: "next_id s2 = Suc ?n" by (simp add: s2_def fold_addTrack_frame n1)
  have n3: "next_id s3 = ?n + 3" by (simp add: s3_def new_stream_frame n2)
  have st3: "streams s3 x = streams s x" if "x < ?n" for x
    using that by (simp add: s3_def s2_def s1_def new_stream_frame fold_addTrack_frame n1 n2)
  have st4: "streams s4 = streams s3"
    by (simp add: s4_def build_primary_branch_frame)
  have a3: "getAudioTracks s3 a = getAudioTracks s a"
    by (rule getAudioTracks_cong) (rule st3 [OF a])
  have b4: "getAudioTracks s4 b = getAudioTracks s b"
    by (rule getAudioTracks_cong) (simp add: st4 st3 [OF b])
  have n4: "?n + 3 \<le> next_id s4"
    by (simp add: s4_def build_primary_branch_frame n3)
  have prim: "primaryAudioTrackGainNode s6 = Some (?n + 3) \<and> gain_value s6 (?n + 3) = Finite 1"
    if "getAudioTracks s a \<noteq> []"
  proof -
    have "s4 = build_primary_branch s3" using that a3 by (simp add: s4_def)
    then have p4: "primaryAudioTrackGainNode s4 = Some (?n + 3)" "gain_value s4 (?n + 3) = Finite 1"
      "next_id s4 = ?n + 4"
      by (simp_all add: build_primary_branch_frame n3)
    have "primaryAudioTrackGainNode s5 = Some (?n + 3)" "gain_value s5 (?n + 3) = Finite 1"
      using p4 by (simp_all add: s5_def build_secondary_branch_frame)
    then show ?thesis by (simp add: s6_def fold_addTrack_frame)
  qed
  have sec: "\<exists>g. secondaryAudioTrackGainNode s6 = Some g \<and> ?n + 3 \<le> g \<and> gain_value s6 g = Finite 1"
    if "getAudioTracks s b \<noteq> []"
  proof -
    have "s5 = build_secondary_branch s4" using that b4 by (simp add: s5_def)
    then have "secondaryAudioTrackGainNode s5 = Some (next_id s4)"
      "gain_value s5 (next_id s4) = Finite 1"
      by (simp_all add: build_secondary_branch_frame)
    then show ?thesis using n4 by (auto simp: s6_def fold_addTrack_frame)
  qed
  show ?thesis using prim sec by (simp add: res)
qed

text \<open>
  C5 (as amended).  When \<open>setGainNodeStream\<close> builds its gain branch (the audio
  constraint is on and the stream carries audio), the new gain node is stored in
  \<open>primaryAudioTrackGainNode\<close> with the volume last set by \<open>setVolumeLevel\<close>, or with 1
  when none was set; in particular a volume set before any audio graph exists is the
  gain of the first branch built.  The branches that \<open>mixAudioStreams\<close> builds, one for
  each of its two streams that carries audio, get the gain 1 whatever volume is stored.
\<close>

theorem gain_of_new_branches:
  "(truthy (audio (getMediaConstraints s)) \<and> getAudioTracks s st \<noteq> [] \<longrightarrow>
      primaryAudioTrackGainNode (snd (setGainNodeStream (Some st) s)) = Some (next_id s + 2)
      \<and> gain_value (snd (setGainNodeStream (Some st) s)) (next_id s + 2)
          = (case currentVolume s of None \<Rightarrow> Finite 1 | Some v \<Rightarrow> v)
      \<and> primaryAudioTrackGainNode (snd (setGainNodeStream (Some st) (setVolumeLevel v s)))
          = Some (next_id s + 2)
      \<and> gain_value (snd (setGainNodeStream (Some st) (setVolumeLevel v s))) (next_id s + 2) = v)
 \<and> (a < next_id s \<and> b < next_id s \<and> getAudioTracks s a \<noteq> [] \<longrightarrow>
      primaryAudioTrackGainNode (snd (mixAudioStreams (Some a) (Some b) s)) = Some (next_id s + 3)
      \<and> gain_value (snd (mixAudioStreams (Some a) (Some b) s)) (next_id s + 3) = Finite 1)
 \<and> (a < next_id s \<and> b < next_id s \<and> getAudioTracks s b \<noteq> [] \<longrightarrow>
      (\<exists>g. secondaryAudioTrackGainNode (snd (mixAudioStreams (Some a) (Some b) s)) = Some g
           \<and> next_id s + 3 \<le> g
           \<and> gain_value (snd (mixAudioStreams (Some a) (Some b) s)) g = Finite 1))"
proof -
  have set: "primaryAudioTrackGainNode (snd (setGainNodeStream (Some st) s)) = Some (next_id s + 2)
      \<and> gain_value (snd (setGainNodeStream (Some st) s)) (next_id s + 2)
          = (case currentVolume s of None \<Rightarrow> Finite 1 | Some v \<Rightarrow> v)
      \<and> primaryAudioTrackGainNode (snd (setGainNodeStream (Some st) (setVolumeLevel v s)))
          = Some (next_id s + 2)
      \<and> gain_value (snd (setGainNodeStream (Some st) (setVolumeLevel v s))) (next_id s + 2) = v"
    if t: "truthy (audio (getMediaConstraints s))" and au: "getAudioTracks s st \<noteq> []"
  proof -
    let ?s = "setVolumeLevel v s"
    have t': "truthy (audio (getMediaConstraints ?s))" using t by (simp add: setVolumeLevel_frame)
    have au': "getAudioTracks ?s st \<noteq> []"
      using au by (simp add: getAudioTracks_def setVolumeLevel_frame)
    show ?thesis
      using setGainNodeStream_builds [OF t au] setGainNodeStream_builds [OF t' au']
      by (simp add: setVolumeLevel_frame)
  qed
  show ?thesis
    using set mixAudioStreams_builds [of a s b] by blast
qed

lemma quiet_mix_manager_facts:
  "currentVolume quiet_mix_manager = Some volume_0_4"
  "next_id quiet_mix_manager = 6"
  "streams quiet_mix_manager 0 = [(Audio, 1), (Video, 2)]"
  "streams quiet_mix_manager 3 = [(Audio, 4), (Video, 5)]"
  "primaryAudioTrackGainNode quiet_mix_manager = None"
  "secondaryAudioTrackGainNode quiet_mix_manager = None"
  by (simp_all add: quiet_mix_manager_def setVolumeLevel_def Let_def switching_manager_def
        example_defs upt_rec)

lemma volume_0_4_not_unity: "volume_0_4 \<noteq> Finite 1"
  by (simp add: volume_0_4_def)

text \<open>
  C5 as stated fails for \<open>mixAudioStreams\<close>: with the volume 0.4 stored, both branches
  it builds start at gain 1.
\<close>

theorem gain_of_new_branches_counterexample:
  "currentVolume quiet_mix_manager = Some volume_0_4 \<and> volume_0_4 \<noteq> Finite 1
 \<and> primaryAudioTrackGainNode (snd (mixAudioStreams (Some 0) (Some 3) quiet_mix_manager)) = Some 9
 \<and> gain_value (snd (mixAudioStreams (Some 0) (Some 3) quiet_mix_manager)) 9 = Finite 1
 \<and> (\<exists>g. secondaryAudioTrackGainNode (snd (mixAudioStreams (Some 0) (Some 3) quiet_mix_manager))
            = Some g
         \<and> gain_value (snd (mixAudioStreams (Some 0) (Some 3) quiet_mix_manager)) g = Finite 1)"
proof -
  have "getAudioTracks quiet_mix_manager 0 \<noteq> []" "getAudioTracks quiet_mix_manager 3 \<noteq> []"
    by (simp_all add: getAudioTracks_def quiet_mix_manager_facts)
  with mixAudioStreams_builds [of 0 quiet_mix_manager 3] show ?thesis
    by (auto simp: quiet_mix_manager_facts volume_0_4_not_unity)
qed

lemma quiet_voice_manager_facts:
  "currentVolume quiet_voice_manager = Some volume_0_4"
  "next_id quiet_voice_manager = 5"
  "streams quiet_voice_manager 0 = [(Audio, 1), (Video, 2)]"
  "primaryAudioTrackGainNode quiet_voice_manager = None"
  "getMediaConstraints sharing_manager =
     \<lparr>video = Some (CBool True), audio = Some (CBool True)\<rparr>"
  by (simp_all add: quiet_voice_manager_def setVolumeLevel_def Let_def sharing_manager_facts
        getMediaConstraints_def sharing_manager_def [THEN arg_cong [where f = primaryAudioTrackGainNode]]
        example_defs)

theorem gain_of_new_branches_witness:
  "volume_0_4 = fl (4 / 10)
 \<and> primaryAudioTrackGainNode quiet_voice_manager = None
 \<and> primaryAudioTrackGainNode (snd (setGainNodeStream (Some 0) quiet_voice_manager)) = Some 7
 \<and> gain_value (snd (setGainNodeStream (Some 0) quiet_voice_manager)) 7 = volume_0_4
 \<and> volume_0_4 \<noteq> Finite 1
 \<and> gain_value (snd (mixAudioStreams (Some 0) (Some 3) quiet_mix_manager)) 9 = Finite 1"
proof -
  have t: "truthy (audio (getMediaConstraints sharing_manager))"
    by (simp add: quiet_voice_manager_facts)
  have au: "getAudioTracks sharing_manager 0 \<noteq> []"
    by (simp add: getAudioTracks_def sharing_manager_facts)
  have au': "getAudioTracks quiet_mix_manager 0 \<noteq> []"
    by (simp add: getAudioTracks_def quiet_mix_manager_facts)
  have "gain_value (snd (setGainNodeStream (Some 0) quiet_voice_manager)) 7 = volume_0_4
     \<and> primaryAudioTrackGainNode (snd (setGainNodeStream (Some 0) quiet_voice_manager)) = Some 7"
    using gain_of_new_branches [of sharing_manager 0 volume_0_4 0 0] t au
    by (simp add: quiet_voice_manager_def sharing_manager_facts)
  moreover have "gain_value (snd (mixAudioStreams (Some 0) (Some 3) quiet_mix_manager)) 9 = Finite 1"
    using gain_of_new_branches [of quiet_mix_manager 0 volume_0_4 0 3] au'
    by (simp add: quiet_mix_manager_facts)
  moreover have "volume_0_4 = fl (4 / 10)"
    unfolding volume_0_4_def by (rule binary64_0_4 [symmetric])
  ultimately show ?thesis
    using volume_0_4_not_unity quiet_voice_manager_facts(4) by blast
qed

section \<open>Device switches stop the old track first: C2\<close>

lemma switchAudioInputSource_after_stop:
  assumes "localStream s = Some ls" and "index0 (getAudioTracks s ls) = Some t"
  shows "evolves (stop t s) (snd (switchAudioInputSource sid d s))"
proof -
  define s1 where "s1 = stop t s"
  have "evolves s1 (snd (switchAudioInputSource sid d s))"
    using assms
    by (auto simp: switchAudioInputSource_def Let_def s1_def [symmetric]
             split: option.splits media_constraint.splits bool.splits
             intro!: evolves_intros evolves_setAudioInputSource_unawaited)
  then show ?thesis by (simp add: s1_def)
qed

lemma switchVideoCameraCapture_after_stop:
  assumes "localStream s = Some ls" and "index0 (getVideoTracks s ls) = Some v"
  shows "evolves (stop v s) (snd (switchVideoCameraCapture sid d s))"
proof -
  define s1 where "s1 = stop v s"
  have "evolves s1 (snd (switchVideoCameraCapture sid d s))"
    using assms
    by (auto simp: switchVideoCameraCapture_def Let_def s1_def [symmetric] split: option.splits
             intro!: evolves_intros evolves_navigator_enumerateDevices
               evolves_adjust_video_constraint evolves_setVideoCameraSource_unawaited)
  then show ?thesis by (simp add: s1_def)
qed

lemma switchVideoCameraFacingMode_after_stop:
  assumes "localStream s = Some ls" and "index0 (getVideoTracks s ls) = Some v"
  shows "evolves (stop v s) (snd (switchVideoCameraFacingMode sid f s))"
proof -
  define s1 where "s1 = stop v s"
  have "evolves s1 (snd (switchVideoCameraFacingMode sid f s))"
    using assms
    by (auto simp: switchVideoCameraFacingMode_def Let_def s1_def [symmetric] split: option.splits
             intro!: evolves_intros evolves_setVideoCameraSource_unawaited)
  then show ?thesis by (simp add: s1_def)
qed

lemma after_stop_trace:
  "evolves (stop t s) s' \<Longrightarrow> \<exists>es. trace s' = trace s @ EvStop t # es"
  using evolves_prefixD [of "stop t s" s'] by auto

text \<open>
  C2 (as amended).  In every device switch on a Local Stream (audio input device,
  camera device, camera facing mode), the track of that kind that the Local Stream
  holds (its first one) is stopped as the first effect of the call: before the devices
  are enumerated, before the new track is requested from the platform, and so before
  it is acquired or bound to a sender.
\<close>

theorem old_track_stopped_first:
  "(localStream s = Some ls \<and> index0 (getAudioTracks s ls) = Some t \<longrightarrow>
      (\<exists>es. trace (snd (switchAudioInputSource sid d s)) = trace s @ EvStop t # es))
 \<and> (localStream s = Some ls \<and> index0 (getVideoTracks s ls) = Some v \<longrightarrow>
      (\<exists>es. trace (snd (switchVideoCameraCapture sid d s)) = trace s @ EvStop v # es)
      \<and> (\<exists>es. trace (snd (switchVideoCameraFacingMode sid f s)) = trace s @ EvStop v # es))"
  using switchAudioInputSource_after_stop [THEN after_stop_trace, of s ls t sid d]
    switchVideoCameraCapture_after_stop [THEN after_stop_trace, of s ls v sid d]
    switchVideoCameraFacingMode_after_stop [THEN after_stop_trace, of s ls v sid f]
  by blast

lemma publishing_manager_facts:
  "localStream publishing_manager = Some 0"
  "streams publishing_manager 0 = [(Audio, 1), (Video, 2)]"
  "next_id publishing_manager = 3"
  "trace publishing_manager = [EvCallback ''browser_screen_share_supported'']"
  "getSender publishing_manager = session_senders"
  "desktopStream publishing_manager = None"
  "localVideo publishing_manager = False"
  "mediaConstraints publishing_manager =
     Some \<lparr>video = Some (CBool True), audio = Some (CBool True)\<rparr>"
  "audioMode publishing_manager = ''system+microphone''"
  "hasMediaDevices publishing_manager"
  "cameraEnabled publishing_manager"
  "pending publishing_manager = []"
  "replaceTrack_error publishing_manager = (\<lambda>_ _. None)"
  "gum_script publishing_manager = [MediaStream [Video]]"
  "enum_script publishing_manager =
     [Inr [Device ''videoinput'' ''cam2'', Device ''audioinput'' ''mic2'']]"
  "secondaryAudioTrackGainNode publishing_manager = None"
  "global_deviceStream publishing_manager = None"
  "devices publishing_manager = None"
  "ended publishing_manager (Video, 2) = False"
  by (simp_all add: publishing_manager_def live_manager_facts example_defs Let_def upt_rec)

text \<open>
  The switch to the second camera on the publishing manager, in its three turns: the
  call, the grant of the camera, the answer of the video sender.
\<close>

lemma publishing_switch_video:
  "snd (switchVideoCameraCapture (Some ''stream1'') (Some ''cam2'') publishing_manager) =
     publishing_manager
       \<lparr>mediaConstraints :=
          Some \<lparr>video = Some (CObj (Some (Exact ''cam2'')) None), audio = Some (CBool True)\<rparr>,
        publishMode := ''camera'',
        pending := [Resume_setVideoCameraSource (Some ''stream1'') None True (MediaStream [Video])],
        ended := (ended publishing_manager)((Video, 2) := True),
        gum_script := [], enum_script := [],
        trace := trace publishing_manager @
          [EvStop (Video, 2), EvEnumerateDevices,
           EvGetUserMedia \<lparr>video = Some (CObj (Some (Exact ''cam2'')) None), audio = None\<rparr>]\<rparr>"
  by (simp add: switch_defs camera_defs emit_def Let_def publishing_manager_facts
        session_senders_def)

lemma publishing_switch_video_granted:
  "settle 0 (snd (switchVideoCameraCapture (Some ''stream1'') (Some ''cam2'') publishing_manager)) =
     publishing_manager
       \<lparr>mediaConstraints :=
          Some \<lparr>video = Some (CObj (Some (Exact ''cam2'')) None), audio = Some (CBool True)\<rparr>,
        publishMode := ''camera'',
        pending := [Resume_updateVideoTrack 3 None True None],
        streams := (streams publishing_manager)(3 := [(Video, 4)]),
        ended := (ended publishing_manager)((Video, 2) := True, (Video, 4) := False),
        enabled := (enabled publishing_manager)((Video, 4) := True),
        onended := (onended publishing_manager)((Video, 4) := None),
        next_id := 5,
        gum_script := [], enum_script := [],
        trace := trace publishing_manager @
          [EvStop (Video, 2), EvEnumerateDevices,
           EvGetUserMedia \<lparr>video = Some (CObj (Some (Exact ''cam2'')) None), audio = None\<rparr>,
           EvReplaceTrack 8 (Some (Video, 4))]\<rparr>"
  unfolding publishing_switch_video settle_def
  by (simp add: switch_defs camera_defs new_stream_def fresh_tracks_def emit_def Let_def
        publishing_manager_facts session_senders_def upt_rec fun_eq_iff)

lemma publishing_switch_video_bound:
  "settle 0 (settle 0
     (snd (switchVideoCameraCapture (Some ''stream1'') (Some ''cam2'') publishing_manager))) =
     publishing_manager
       \<lparr>mediaConstraints :=
          Some \<lparr>video = Some (CObj (Some (Exact ''cam2'')) None), audio = Some (CBool True)\<rparr>,
        publishMode := ''camera'',
        pending := [],
        streams := (streams publishing_manager)(3 := [(Video, 4)], 0 := [(Audio, 1), (Video, 4)]),
        ended := (ended publishing_manager)((Video, 2) := True, (Video, 4) := False),
        enabled := (enabled publishing_manager)((Video, 4) := True),
        onended := (onended publishing_manager)((Video, 4) := None),
        next_id := 5,
        gum_script := [], enum_script := [],
        trace := trace publishing_manager @
          [EvStop (Video, 2), EvEnumerateDevices,
           EvGetUserMedia \<lparr>video = Some (CObj (Some (Exact ''cam2'')) None), audio = None\<rparr>,
           EvReplaceTrack 8 (Some (Video, 4)), EvStop (Video, 2)]\<rparr>"
  unfolding publishing_switch_video_granted settle_def
  by (simp add: switch_defs camera_defs new_stream_def fresh_tracks_def emit_def Let_def
        publishing_manager_facts session_senders_def upt_rec fun_eq_iff)

lemma publishing_switch_audio:
  "snd (switchAudioInputSource (Some ''stream1'') (Some ''mic2'') publishing_manager) =
     publishing_manager
       \<lparr>mediaConstraints :=
          Some \<lparr>video = Some (CBool True), audio = Some (CObj (Some (Plain ''mic2'')) None)\<rparr>,
        ended := (ended publishing_manager)((Audio, 1) := True),
        trace := trace publishing_manager @
          [EvStop (Audio, 1), EvUnhandledRejection (ReferenceError ''deviceStream'')]\<rparr>"
  by (simp add: switchAudioInputSource_def setAudioInputSource_unawaited_def
        setAudioInputSource_def camera_defs emit_def Let_def publishing_manager_facts)

text \<open>
  C2 as stated fails: in the switch to the second camera the old video track is stopped
  in the call itself, before the devices are enumerated and the camera is requested;
  the new track is acquired in the next turn and bound to the sender in the one after.
  The switch to the second microphone stops the old audio track and then fails on the
  undeclared identifier \<open>deviceStream\<close>: no new track is requested at all.
\<close>

theorem old_track_stopped_first_counterexample:
  "trace (run [SwitchVideoCameraCapture (Some ''stream1'') (Some ''cam2''), Settle 0, Settle 0]
            publishing_manager) =
     trace publishing_manager @
       [EvStop (Video, 2), EvEnumerateDevices,
        EvGetUserMedia \<lparr>video = Some (CObj (Some (Exact ''cam2'')) None), audio = None\<rparr>,
        EvReplaceTrack 8 (Some (Video, 4)), EvStop (Video, 2)]
 \<and> ended (step (SwitchVideoCameraCapture (Some ''stream1'') (Some ''cam2'')) publishing_manager)
       (Video, 2)
 \<and> streams (step (SwitchVideoCameraCapture (Some ''stream1'') (Some ''cam2'')) publishing_manager) 0
       = [(Audio, 1), (Video, 2)]
 \<and> streams (run [SwitchVideoCameraCapture (Some ''stream1'') (Some ''cam2''), Settle 0, Settle 0]
              publishing_manager) 0 = [(Audio, 1), (Video, 4)]
 \<and> trace (step (SwitchAudioInputSource (Some ''stream1'') (Some ''mic2'')) publishing_manager) =
     trace publishing_manager @
       [EvStop (Audio, 1), EvUnhandledRejection (ReferenceError ''deviceStream'')]"
proof -
  let ?sw = "snd (switchVideoCameraCapture (Some ''stream1'') (Some ''cam2'') publishing_manager)"
  have r: "run [SwitchVideoCameraCapture (Some ''stream1'') (Some ''cam2''), Settle 0, Settle 0]
            publishing_manager = settle 0 (settle 0 ?sw)"
    by (simp add: run_def)
  have a: "trace (settle 0 (settle 0 ?sw)) =
     trace publishing_manager @
       [EvStop (Video, 2), EvEnumerateDevices,
        EvGetUserMedia \<lparr>video = Some (CObj (Some (Exact ''cam2'')) None), audio = None\<rparr>,
        EvReplaceTrack 8 (Some (Video, 4)), EvStop (Video, 2)]"
    "streams (settle 0 (settle 0 ?sw)) 0 = [(Audio, 1), (Video, 4)]"
    unfolding publishing_switch_video_bound by simp_all
  have b: "ended ?sw (Video, 2)" "streams ?sw 0 = [(Audio, 1), (Video, 2)]"
    unfolding publishing_switch_video by (simp_all add: publishing_manager_facts)
  have c: "trace (snd (switchAudioInputSource (Some ''stream1'') (Some ''mic2'') publishing_manager)) =
     trace publishing_manager @
       [EvStop (Audio, 1), EvUnhandledRejection (ReferenceError ''deviceStream'')]"
    unfolding publishing_switch_audio by simp
  show ?thesis
    unfolding r using a b c by simp
qed

theorem old_track_stopped_first_witness:
  "localStream publishing_manager = Some 0
 \<and> index0 (getAudioTracks publishing_manager 0) = Some (Audio, 1)
 \<and> index0 (getVideoTracks publishing_manager 0) = Some (Video, 2)
 \<and> (\<exists>es. trace (snd (switchAudioInputSource (Some ''stream1'') (Some ''mic2'') publishing_manager))
        = trace publishing_manager @ EvStop (Audio, 1) # es)
 \<and> (\<exists>es. trace (snd (switchVideoCameraCapture (Some ''stream1'') (Some ''cam2'') publishing_manager))
        = trace publishing_manager @ EvStop (Video, 2) # es)
 \<and> (\<exists>es. trace (snd (switchVideoCameraFacingMode (Some ''stream1'') ''user'' publishing_manager))
        = trace publishing_manager @ EvStop (Video, 2) # es)"
proof -
  have a: "index0 (getAudioTracks publishing_manager 0) = Some (Audio, 1)"
    and v: "index0 (getVideoTracks publishing_manager 0) = Some (Video, 2)"
    by (simp_all add: getAudioTracks_def getVideoTracks_def index0_def publishing_manager_facts)
  show ?thesis
    using old_track_stopped_first [where s = publishing_manager and ls = 0 and t = "(Audio, 1)"
        and v = "(Video, 2)" and sid = "Some ''stream1''" and d = "Some ''mic2''"
        and f = "''user''"]
      old_track_stopped_first [where s = publishing_manager and ls = 0 and t = "(Audio, 1)"
        and v = "(Video, 2)" and sid = "Some ''stream1''" and d = "Some ''cam2''"
        and f = "''user''"]
      a v
    by (simp add: publishing_manager_facts)
qed

section \<open>The fallback of a refused screen share: C4\<close>

lemma denied_idle_manager_facts:
  "publishMode denied_idle_manager = ''screen''"
  "localStream denied_idle_manager = None"
  "audioMode denied_idle_manager = ''system+microphone''"
  "hasMediaDevices denied_idle_manager"
  "display_script denied_idle_manager = [MediaError (JsError ''NotAllowedError'' '''')]"
  "gum_script denied_idle_manager = [MediaStream [Audio, Video]]"
  "callbackError_returns_false denied_idle_manager = (\<lambda>_. False)"
  "trace denied_idle_manager = [EvCallback ''browser_screen_share_supported'']"
  "pending denied_idle_manager = []"
  by (simp_all add: denied_idle_manager_def example_defs Let_def
        checkBrowserScreenShareSupported_def callback_def emit_def)

lemma denied_live_manager_facts:
  "localStream denied_live_manager = Some 0"
  "streams denied_live_manager 0 = [(Audio, 1), (Video, 2)]"
  "audioMode denied_live_manager = ''system+microphone''"
  "hasMediaDevices denied_live_manager"
  "display_script denied_live_manager = [MediaError (JsError ''NotAllowedError'' '''')]"
  "gum_script denied_live_manager = [MediaStream [Video]]"
  "enum_script denied_live_manager = [Inr [Device ''videoinput'' ''cam1'']]"
  "callbackError_returns_false denied_live_manager = (\<lambda>_. False)"
  "global_streamId denied_live_manager = None"
  "mediaConstraints denied_live_manager =
     Some \<lparr>video = Some (CBool True), audio = Some (CBool True)\<rparr>"
  "trace denied_live_manager = [EvCallback ''browser_screen_share_supported'']"
  "pending denied_live_manager = []"
  by (simp_all add: denied_live_manager_def live_manager_facts example_defs Let_def upt_rec)

lemmas open_defs =
  getDisplayMedia_denied.simps getDisplayMedia.simps getMedia.simps openStream.simps
  navigator_getDisplayMedia_def request_getDisplayMedia_def answer_def then_do_def
  getMediaConstraints_def callbackError_def emit_def Let_def

text \<open>
  C4.  The claim describes what the comment in the \<open>catch\<close> block announces, and the
  code does neither.  With no Local Stream the fallback calls \<open>openStream\<close> with
  \<open>{video: true, audio: true}\<close>, but the publish mode is still \<open>screen\<close>, so \<open>getMedia\<close>
  asks for a display capture again and never for the camera: here the second request
  stays unanswered, the camera capture that the platform would grant is not asked for,
  and no stream is opened.  With a Local Stream the fallback evaluates the identifier
  \<open>streamId\<close>, which is declared nowhere: the call fails with a \<open>ReferenceError\<close> and
  the session is not switched back to camera capture (no device is enumerated, no
  camera is requested, the publish mode stays \<open>screen\<close>, the Local Stream keeps its
  tracks).
\<close>

theorem display_denied_fallback:
  "openStream \<lparr>video = Some (CBool True), audio = Some (CBool True)\<rparr> None denied_idle_manager =
     (Pending,
      denied_idle_manager
        \<lparr>mediaConstraints := Some \<lparr>video = Some (CBool True), audio = Some (CBool True)\<rparr>,
         display_script := [],
         trace := trace denied_idle_manager @
           [EvGetDisplayMedia \<lparr>video = Some (CBool True), audio = Some (CBool True)\<rparr>,
            EvCallbackError ''ScreenSharePermissionDenied'',
            EvGetDisplayMedia \<lparr>video = Some (CBool True), audio = Some (CBool True)\<rparr>]\<rparr>)
 \<and> gum_script (snd (openStream \<lparr>video = Some (CBool True), audio = Some (CBool True)\<rparr> None
                      denied_idle_manager)) = [MediaStream [Audio, Video]]
 \<and> localStream (snd (openStream \<lparr>video = Some (CBool True), audio = Some (CBool True)\<rparr> None
                      denied_idle_manager)) = None
 \<and> switchDesktopCapture (Some ''stream1'') denied_live_manager =
     (Threw (ReferenceError ''streamId''),
      denied_live_manager
        \<lparr>publishMode := ''screen'',
         display_script := [],
         trace := trace denied_live_manager @
           [EvGetDisplayMedia \<lparr>video = Some (CBool True), audio = Some (CBool True)\<rparr>,
            EvCallbackError ''ScreenSharePermissionDenied'']\<rparr>)
 \<and> streams (snd (switchDesktopCapture (Some ''stream1'') denied_live_manager)) 0
       = [(Audio, 1), (Video, 2)]
 \<and> gum_script (snd (switchDesktopCapture (Some ''stream1'') denied_live_manager))
       = [MediaStream [Video]]
 \<and> pending (snd (switchDesktopCapture (Some ''stream1'') denied_live_manager)) = []"
proof -
  have idle: "openStream \<lparr>video = Some (CBool True), audio = Some (CBool True)\<rparr> None
      denied_idle_manager =
     (Pending,
      denied_idle_manager
        \<lparr>mediaConstraints := Some \<lparr>video = Some (CBool True), audio = Some (CBool True)\<rparr>,
         display_script := [],
         trace := trace denied_idle_manager @
           [EvGetDisplayMedia \<lparr>video = Some (CBool True), audio = Some (CBool True)\<rparr>,
            EvCallbackError ''ScreenSharePermissionDenied'',
            EvGetDisplayMedia \<lparr>video = Some (CBool True), audio = Some (CBool True)\<rparr>]\<rparr>)"
    by (simp add: open_defs denied_idle_manager_facts)
  have live: "switchDesktopCapture (Some ''stream1'') denied_live_manager =
     (Threw (ReferenceError ''streamId''),
      denied_live_manager
        \<lparr>publishMode := ''screen'',
         display_script := [],
         trace := trace denied_live_manager @
           [EvGetDisplayMedia \<lparr>video = Some (CBool True), audio = Some (CBool True)\<rparr>,
            EvCallbackError ''ScreenSharePermissionDenied'']\<rparr>)"
    by (simp add: switchDesktopCapture_def open_defs denied_live_manager_facts)
  show ?thesis
    unfolding idle live by (simp add: denied_idle_manager_facts denied_live_manager_facts)
qed

section \<open>An audio switch binds no new track: C7\<close>

text \<open>
  On a page with no global variable \<open>deviceStream\<close>, and with \<open>this.devices\<close> never
  assigned, no audio-device switch changes the tracks of any stream, suspends a
  method or asks the platform for a capture.
\<close>

lemma audio_switch_changes_no_stream:
  assumes "global_deviceStream s = None" and "devices s = None"
  shows "streams (snd (switchAudioInputSource sid d s)) = streams s
       \<and> localStream (snd (switchAudioInputSource sid d s)) = localStream s
       \<and> pending (snd (switchAudioInputSource sid d s)) = pending s
       \<and> gum_script (snd (switchAudioInputSource sid d s)) = gum_script s"
  using assms
  by (auto simp: switchAudioInputSource_def setAudioInputSource_unawaited_def
        setAudioInputSource_def with_stream_def detached_def stop_def emit_def Let_def
        getMediaConstraints_def
        split: option.splits media_constraint.splits bool.splits)

lemma video_only_manager_facts:
  "localStream video_only_manager = Some 0"
  "streams video_only_manager 0 = [(Video, 1)]"
  "mediaConstraints video_only_manager =
     Some \<lparr>video = Some (CBool True), audio = Some (CBool True)\<rparr>"
  "audioMode video_only_manager = ''system+microphone''"
  "global_deviceStream video_only_manager = None"
  "gum_script video_only_manager = [MediaStream [Audio]]"
  "trace video_only_manager =
     [EvCallback ''browser_screen_share_supported'',
      EvGetUserMedia \<lparr>video = Some (CBool True), audio = None\<rparr>]"
  "pending video_only_manager = []"
  by (simp_all add: video_only_manager_def run_def example_defs camera_defs new_stream_def
        fresh_tracks_def gotStream_def Let_def upt_rec checkBrowserScreenShareSupported_def
        callback_def emit_def)

text \<open>
  C7.  An audio-device switch never gets as far as a new track.  With a device id the
  method \<open>setAudioInputSource\<close> evaluates the identifier \<open>deviceStream\<close>, which is
  declared nowhere, and fails with a \<open>ReferenceError\<close> that nobody handles; the
  microphone is not requested and the Local Stream keeps exactly the tracks it had.
  A Local Stream with a video track only has no audio track after the switch; a Local
  Stream with one audio track keeps that track, stopped.
\<close>

theorem audio_switch_binds_no_track:
  "switchAudioInputSource (Some ''stream1'') (Some ''mic2'') video_only_manager =
     (Returned (),
      video_only_manager
        \<lparr>mediaConstraints :=
           Some \<lparr>video = Some (CBool True), audio = Some (CObj (Some (Plain ''mic2'')) None)\<rparr>,
         trace := trace video_only_manager @
           [EvUnhandledRejection (ReferenceError ''deviceStream'')]\<rparr>)
 \<and> localStream (snd (switchAudioInputSource (Some ''stream1'') (Some ''mic2'')
                        video_only_manager)) = Some 0
 \<and> getAudioTracks (snd (switchAudioInputSource (Some ''stream1'') (Some ''mic2'')
                           video_only_manager)) 0 = []
 \<and> pending (snd (switchAudioInputSource (Some ''stream1'') (Some ''mic2'')
                    video_only_manager)) = []
 \<and> gum_script (snd (switchAudioInputSource (Some ''stream1'') (Some ''mic2'')
                       video_only_manager)) = [MediaStream [Audio]]
 \<and> snd (switchAudioInputSource (Some ''stream1'') (Some ''mic2'') publishing_manager) =
     publishing_manager
       \<lparr>mediaConstraints :=
          Some \<lparr>video = Some (CBool True), audio = Some (CObj (Some (Plain ''mic2'')) None)\<rparr>,
        ended := (ended publishing_manager)((Audio, 1) := True),
        trace := trace publishing_manager @
          [EvStop (Audio, 1), EvUnhandledRejection (ReferenceError ''deviceStream'')]\<rparr>
 \<and> getAudioTracks (snd (switchAudioInputSource (Some ''stream1'') (Some ''mic2'')
                           publishing_manager)) 0 = [(Audio, 1)]
 \<and> ended (snd (switchAudioInputSource (Some ''stream1'') (Some ''mic2'')
                  publishing_manager)) (Audio, 1)"
proof -
  have v: "switchAudioInputSource (Some ''stream1'') (Some ''mic2'') video_only_manager =
     (Returned (),
      video_only_manager
        \<lparr>mediaConstraints :=
           Some \<lparr>video = Some (CBool True), audio = Some (CObj (Some (Plain ''mic2'')) None)\<rparr>,
         trace := trace video_only_manager @
           [EvUnhandledRejection (ReferenceError ''deviceStream'')]\<rparr>)"
    by (simp add: switchAudioInputSource_def setAudioInputSource_unawaited_def
        setAudioInputSource_def camera_defs emit_def Let_def video_only_manager_facts)
  show ?thesis
    unfolding v publishing_switch_audio
    by (simp add: video_only_manager_facts publishing_manager_facts getAudioTracks_def)
qed

end
